theory Spec2Isabelle
  imports Complex_Main
begin

section \<open>JavaScript strings\<close>

text \<open>
  A JavaScript string is a sequence of UTF-16 code units. A code unit is modelled as a
  natural number, a string as a list of them. ASCII literals of the source are written
  with \<open>str\<close>; literals outside ASCII are written as their code units.
\<close>

type_synonym jschar = nat
type_synonym jsstring = "jschar list"

definition str :: "string \<Rightarrow> jsstring" where
  "str s = map of_char s"

text \<open>
  The characters that \<^verbatim>\<open>\s\<close> matches and that \<^verbatim>\<open>String.prototype.trim\<close> strips
  are the same set (WhiteSpace and LineTerminator of ECMAScript): TAB, LF, VT, FF, CR,
  SP, NBSP, U+1680, U+2000 to U+200A, U+2028, U+2029, U+202F, U+205F, U+3000, U+FEFF.
\<close>

definition is_space :: "jschar \<Rightarrow> bool" where
  "is_space c \<longleftrightarrow>
     c = 9 \<or> c = 10 \<or> c = 11 \<or> c = 12 \<or> c = 13 \<or> c = 32 \<or> c = 160 \<or> c = 5760 \<or>
     (8192 \<le> c \<and> c \<le> 8202) \<or> c = 8232 \<or> c = 8233 \<or> c = 8239 \<or> c = 8287 \<or>
     c = 12288 \<or> c = 65279"

text \<open>\<^verbatim>\<open>\d\<close> (without the unicode flag) is \<^verbatim>\<open>[0-9]\<close>.\<close>

definition is_digit :: "jschar \<Rightarrow> bool" where
  "is_digit c \<longleftrightarrow> 48 \<le> c \<and> c \<le> 57"

text \<open>\<^verbatim>\<open>s.trim()\<close>: white space removed from both ends.\<close>

definition trim :: "jsstring \<Rightarrow> jsstring" where
  "trim s = rev (dropWhile is_space (rev (dropWhile is_space s)))"

section \<open>Regular expressions\<close>

text \<open>
  The regular expressions of the source use character classes, concatenation, \<^verbatim>\<open>?\<close>,
  \<^verbatim>\<open>*\<close>, \<^verbatim>\<open>+\<close> and \<^verbatim>\<open>{n}\<close> only (no back references, no look-around), so
  \<^verbatim>\<open>RegExp.prototype.test\<close> on a pattern anchored by \<^verbatim>\<open>^\<close> and \<^verbatim>\<open>$\<close> decides
  membership of the whole string in the pattern's language. The matcher below decides it
  with derivatives.
\<close>

datatype cls = Chr jschar | Ws | Dgt | AnyChar

fun cls_has :: "cls \<Rightarrow> jschar \<Rightarrow> bool" where
  "cls_has (Chr k) c = (c = k)"
| "cls_has Ws c = is_space c"
| "cls_has Dgt c = is_digit c"
| "cls_has AnyChar c = True"

datatype regex = Nul | Eps | Sym cls | Cat regex regex | Or regex regex | Many regex

definition Maybe :: "regex \<Rightarrow> regex" where
  "Maybe r = Or r Eps"

definition Some1 :: "regex \<Rightarrow> regex" where
  "Some1 r = Cat r (Many r)"

primrec Repeat :: "nat \<Rightarrow> regex \<Rightarrow> regex" where
  "Repeat 0 r = Eps"
| "Repeat (Suc n) r = Cat r (Repeat n r)"

primrec cat_list :: "regex list \<Rightarrow> regex" where
  "cat_list [] = Eps"
| "cat_list (r # rs) = Cat r (cat_list rs)"

primrec nullable :: "regex \<Rightarrow> bool" where
  "nullable Nul = False"
| "nullable Eps = True"
| "nullable (Sym k) = False"
| "nullable (Cat r s) = (nullable r \<and> nullable s)"
| "nullable (Or r s) = (nullable r \<or> nullable s)"
| "nullable (Many r) = True"

primrec deriv :: "jschar \<Rightarrow> regex \<Rightarrow> regex" where
  "deriv c Nul = Nul"
| "deriv c Eps = Nul"
| "deriv c (Sym k) = (if cls_has k c then Eps else Nul)"
| "deriv c (Cat r s) =
     (if nullable r then Or (Cat (deriv c r) s) (deriv c s) else Cat (deriv c r) s)"
| "deriv c (Or r s) = Or (deriv c r) (deriv c s)"
| "deriv c (Many r) = Cat (deriv c r) (Many r)"

text \<open>\<^verbatim>\<open>RE.test(s)\<close> for an anchored pattern.\<close>

definition regex_test :: "regex \<Rightarrow> jsstring \<Rightarrow> bool" where
  "regex_test r s = nullable (foldl (\<lambda>r c. deriv c r) r s)"

section \<open>Input classification (App.jsx)\<close>

text \<open>
  \<^verbatim>\<open>const COORD_RE = /^\s*-?\d+\.?\d*\s*,\s*-?\d+\.?\d*\s*$/\<close>
  (45 is \<^verbatim>\<open>-\<close>, 46 is \<^verbatim>\<open>.\<close>, 44 is \<^verbatim>\<open>,\<close>).
\<close>

definition COORD_RE :: regex where
  "COORD_RE = cat_list
     [Many (Sym Ws),
      Maybe (Sym (Chr 45)), Some1 (Sym Dgt), Maybe (Sym (Chr 46)), Many (Sym Dgt),
      Many (Sym Ws), Sym (Chr 44), Many (Sym Ws),
      Maybe (Sym (Chr 45)), Some1 (Sym Dgt), Maybe (Sym (Chr 46)), Many (Sym Dgt),
      Many (Sym Ws)]"

text \<open>\<^verbatim>\<open>const ZIP_RE = /^\s*\d{5}\s*$/\<close>\<close>

definition ZIP_RE :: regex where
  "ZIP_RE = cat_list [Many (Sym Ws), Repeat 5 (Sym Dgt), Many (Sym Ws)]"

text \<open>
  \<^verbatim>\<open>function isWordyQuery(q){ const s = q.trim(); if (!s) return false;
  if (COORD_RE.test(s)) return false; if (ZIP_RE.test(s)) return false; return true }\<close>
\<close>

definition isWordyQuery :: "jsstring \<Rightarrow> bool" where
  "isWordyQuery q =
     (let s = trim q in
      if s = [] then False
      else if regex_test COORD_RE s then False
      else if regex_test ZIP_RE s then False
      else True)"

text \<open>
  The coordinate-pair pattern in the words of the specification: a number is an optional
  sign, digits and an optional decimal part (a point and the digits after it), given as
  its three parts \<open>s\<close>, \<open>d\<close> and \<open>f\<close>; \<open>signs\<close> are the characters that count as a sign.
  It is stated on the parts of the text and does not mention \<open>COORD_RE\<close>.
\<close>

definition number_text :: "jschar list \<Rightarrow> jsstring \<Rightarrow> jsstring \<Rightarrow> jsstring \<Rightarrow> bool" where
  "number_text signs s d f \<longleftrightarrow>
     (s = [] \<or> (length s = 1 \<and> hd s \<in> set signs)) \<and>
     d \<noteq> [] \<and> list_all is_digit d \<and>
     (f = [] \<or> (hd f = 46 \<and> list_all is_digit (tl f)))"

section \<open>JavaScript values, exceptions and built-ins\<close>

text \<open>
  \<open>Dbl q\<close> is the finite IEEE-754 double whose exact value is the rational \<open>q\<close>
  (\<open>+0\<close> and \<open>-0\<close> are one value: \<^verbatim>\<open>Array.prototype.includes\<close>, template literals,
  \<^verbatim>\<open>Math.round\<close> followed by printing, and \<^verbatim>\<open>toFixed\<close> do not tell them apart).
\<close>

datatype jsnum = Dbl rat | NaN | PosInf | NegInf

text \<open>
  The arithmetic of JavaScript numbers is that of IEEE-754 binary64: the exact result,
  rounded to the nearest double, to the one with an even significand on a tie, and to an
  infinity when the rounded result is \<open>2^1024\<close> or more in size.

  \<open>ilog2 a\<close> is the exponent of a positive rational: \<open>2^(ilog2 a) \<le> a < 2^(ilog2 a + 1)\<close>.
\<close>

function ilog2 :: "rat \<Rightarrow> int" where
  "ilog2 a =
     (if a \<le> 0 then 0
      else if 2 \<le> a then ilog2 (a / 2) + 1
      else if a < 1 then ilog2 (a * 2) - 1
      else 0)"
  by pat_completeness auto
termination
proof -
  have ge1: "1 \<le> log 2 x" if "2 \<le> x" for x :: real
    using that log_le_cancel_iff [of 2 2 x] by simp
  have half: "log 2 (x / 2) = log 2 x - 1" if "2 \<le> x" for x :: real
    using that by (simp add: log_divide)
  have double: "log 2 (x * 2) = log 2 x + 1" if "0 < x" for x :: real
    using that by (simp add: log_mult)
  show ?thesis
  proof (relation "measure (\<lambda>a. nat \<bar>\<lfloor>log 2 (of_rat a)\<rfloor>\<bar>)")
    show "wf (measure (\<lambda>a. nat \<bar>\<lfloor>log 2 (real_of_rat a)\<rfloor>\<bar>))" by simp
  next
    fix a :: rat
    assume "\<not> a \<le> 0" and "2 \<le> a"
    then have r: "2 \<le> real_of_rat a"
      by (metis of_rat_less_eq of_rat_numeral_eq)
    then have "log 2 (real_of_rat a / 2) = log 2 (real_of_rat a) - 1"
      by (rule half)
    moreover have "1 \<le> log 2 (real_of_rat a)"
      using r by (rule ge1)
    ultimately show "(a / 2, a) \<in> measure (\<lambda>a. nat \<bar>\<lfloor>log 2 (real_of_rat a)\<rfloor>\<bar>)"
      by (simp add: of_rat_divide)
  next
    fix a :: rat
    assume "\<not> a \<le> 0" and "\<not> 2 \<le> a" and "a < 1"
    then have r: "0 < real_of_rat a" "real_of_rat a < 1"
      by (simp_all add: of_rat_less_1_iff)
    then have "log 2 (real_of_rat a * 2) = log 2 (real_of_rat a) + 1"
      by (intro double)
    moreover define L where "L = \<lfloor>log 2 (real_of_rat a)\<rfloor>"
    ultimately have up: "\<lfloor>log 2 (real_of_rat (a * 2))\<rfloor> = L + 1"
      by (simp add: of_rat_mult)
    have "log 2 (real_of_rat a) < 0"
      using r by simp
    then have "L < 0"
      unfolding L_def by (simp add: floor_less_iff)
    then have "nat \<bar>L + 1\<bar> < nat \<bar>L\<bar>"
      by linarith
    then show "(a * 2, a) \<in> measure (\<lambda>a. nat \<bar>\<lfloor>log 2 (real_of_rat a)\<rfloor>\<bar>)"
      unfolding in_measure up L_def .
  qed
qed

declare ilog2.simps [simp del]

text \<open>The nearest integer, the even one on a tie.\<close>

definition round_half_even :: "rat \<Rightarrow> int" where
  "round_half_even m =
     (let f = \<lfloor>m\<rfloor>; d = m - of_int f in
      if d < 1 / 2 then f else if 1 / 2 < d then f + 1 else if even f then f else f + 1)"

text \<open>
  Rounding to a binary format of precision \<open>p\<close> with exponents from \<open>emin\<close> to \<open>emax\<close>:
  the unit in the last place of \<open>q\<close> is \<open>u\<close> (that of the subnormal numbers below
  \<open>2^emin\<close>), and the result is the multiple of \<open>u\<close> nearest to \<open>q\<close>. \<open>fl\<close> is the
  rounding to binary64.
\<close>

definition round_binary :: "nat \<Rightarrow> int \<Rightarrow> int \<Rightarrow> rat \<Rightarrow> jsnum" where
  "round_binary p emin emax q =
     (if q = 0 then Dbl 0
      else
        (let a = \<bar>q\<bar>;
             e = max (ilog2 a) emin;
             u = 2 powi (e - int p + 1);
             v = of_int (round_half_even (a / u)) * u
         in if 2 powi (emax + 1) \<le> v then (if 0 < q then PosInf else NegInf)
            else Dbl (if 0 < q then v else - v)))"

definition fl :: "rat \<Rightarrow> jsnum" where
  "fl q = round_binary 53 (- 1022) 1023 q"

text \<open>
  The operators \<^verbatim>\<open>*\<close>, \<^verbatim>\<open>/\<close> and \<^verbatim>\<open>+\<close> on numbers, with the cases of IEEE-754 for
  \<^verbatim>\<open>NaN\<close> and the infinities. A zero divisor counts as \<open>+0\<close>; the source divides by the
  literal 5 only.
\<close>

fun signum :: "jsnum \<Rightarrow> int" where
  "signum (Dbl q) = (if q < 0 then - 1 else if q = 0 then 0 else 1)"
| "signum NaN = 0"
| "signum PosInf = 1"
| "signum NegInf = - 1"

definition signed_inf :: "int \<Rightarrow> jsnum" where
  "signed_inf s = (if s = 0 then NaN else if 0 < s then PosInf else NegInf)"

fun num_mul :: "jsnum \<Rightarrow> jsnum \<Rightarrow> jsnum" where
  "num_mul (Dbl p) (Dbl q) = fl (p * q)"
| "num_mul NaN y = NaN"
| "num_mul x NaN = NaN"
| "num_mul x y = signed_inf (signum x * signum y)"

fun num_div :: "jsnum \<Rightarrow> jsnum \<Rightarrow> jsnum" where
  "num_div (Dbl p) (Dbl q) = (if q = 0 then signed_inf (signum (Dbl p)) else fl (p / q))"
| "num_div NaN y = NaN"
| "num_div x NaN = NaN"
| "num_div (Dbl p) y = Dbl 0"
| "num_div x (Dbl q) = signed_inf (signum x * (if q < 0 then - 1 else 1))"
| "num_div x y = NaN"

fun num_add :: "jsnum \<Rightarrow> jsnum \<Rightarrow> jsnum" where
  "num_add (Dbl p) (Dbl q) = fl (p + q)"
| "num_add NaN y = NaN"
| "num_add x NaN = NaN"
| "num_add (Dbl p) y = y"
| "num_add x (Dbl q) = x"
| "num_add x y = (if x = y then x else NaN)"

text \<open>
  \<^verbatim>\<open>Math.round(x)\<close> is the integer nearest to \<open>x\<close>, the larger one on a tie:
  \<open>\<lfloor>x + 1/2\<rfloor>\<close>, computed exactly. It is a double whenever \<open>x\<close> is.
\<close>

fun Math_round :: "jsnum \<Rightarrow> jsnum" where
  "Math_round (Dbl q) = Dbl (of_int \<lfloor>q + 1 / 2\<rfloor>)"
| "Math_round x = x"

text \<open>
  The values the client handles: what \<^verbatim>\<open>JSON.parse\<close> returns, and \<^verbatim>\<open>undefined\<close>.
  An object is the list of its own properties, each key once.
\<close>

datatype jsval =
    JUndefined
  | JNull
  | JBool bool
  | JNum jsnum
  | JStr jsstring
  | JArr "jsval list"
  | JObj "(jsstring \<times> jsval) list"

text \<open>A thrown \<^verbatim>\<open>Error\<close> object: its \<^verbatim>\<open>name\<close> and its \<^verbatim>\<open>message\<close>.\<close>

datatype exn = Exn jsstring jsstring

definition Error :: "jsstring \<Rightarrow> exn" where
  "Error msg = Exn (str ''Error'') msg"

definition TypeError :: "jsstring \<Rightarrow> exn" where
  "TypeError msg = Exn (str ''TypeError'') msg"

text \<open>\<^verbatim>\<open>String(e)\<close> for an error object (\<^verbatim>\<open>Error.prototype.toString\<close>).\<close>

fun String_exn :: "exn \<Rightarrow> jsstring" where
  "String_exn (Exn n msg) =
     (if n = [] then msg else if msg = [] then n else n @ str '': '' @ msg)"

definition nullish :: "jsval \<Rightarrow> bool" where
  "nullish v \<longleftrightarrow> v = JUndefined \<or> v = JNull"

fun truthy :: "jsval \<Rightarrow> bool" where
  "truthy JUndefined = False"
| "truthy JNull = False"
| "truthy (JBool b) = b"
| "truthy (JNum (Dbl q)) = (q \<noteq> 0)"
| "truthy (JNum NaN) = False"
| "truthy (JNum PosInf) = True"
| "truthy (JNum NegInf) = True"
| "truthy (JStr s) = (s \<noteq> [])"
| "truthy (JArr xs) = True"
| "truthy (JObj kvs) = True"

text \<open>
  \<^verbatim>\<open>v.k\<close> for a value \<open>v\<close> that is neither \<^verbatim>\<open>null\<close> nor \<^verbatim>\<open>undefined\<close>, and
  \<^verbatim>\<open>v?.k\<close>. The source reads the properties \<^verbatim>\<open>resolved\<close>, \<^verbatim>\<open>name\<close>,
  \<^verbatim>\<open>latitude\<close>, \<^verbatim>\<open>longitude\<close>, \<^verbatim>\<open>items\<close>, \<^verbatim>\<open>detail\<close>, and
  \<^verbatim>\<open>data\<close>, \<^verbatim>\<open>current\<close>, \<^verbatim>\<open>daily\<close>, \<^verbatim>\<open>time\<close> and the names of the weather
  readings; none of them is a property of a string, a number, a boolean, an array or of
  their prototypes.
\<close>

fun get_prop :: "jsval \<Rightarrow> jsstring \<Rightarrow> jsval" where
  "get_prop (JObj kvs) k = (case map_of kvs k of Some v \<Rightarrow> v | None \<Rightarrow> JUndefined)"
| "get_prop v k = JUndefined"

definition opt_prop :: "jsval \<Rightarrow> jsstring \<Rightarrow> jsval" where
  "opt_prop v k = (if nullish v then JUndefined else get_prop v k)"

text \<open>An HTTP response as \<^verbatim>\<open>fetch\<close> resolves it; \<^verbatim>\<open>r.ok\<close> is a status of 200 to 299.\<close>

record response =
  status :: nat
  body :: jsstring

definition ok :: "response \<Rightarrow> bool" where
  "ok r \<longleftrightarrow> 200 \<le> status r \<and> status r \<le> 299"

text \<open>
  The other built-ins of the platform are parameters of the model: every theorem holds
  for whatever functions stand in their place. A function that can throw returns a sum,
  \<open>Inl\<close> the thrown value. \<open>fetch\<close> maps the URL of a GET request to the response, or
  to the error it rejects with. \<open>ToString\<close> and \<open>ToNumber\<close> stand for the conversions
  that are not written out below.
\<close>

record env =
  JSON_parse :: "jsstring \<Rightarrow> exn + jsval"
  JSON_stringify :: "jsval \<Rightarrow> jsstring"
  encodeURIComponent :: "jsstring \<Rightarrow> exn + jsstring"
  ToString :: "jsval \<Rightarrow> jsstring"
  ToNumber :: "jsval \<Rightarrow> jsnum"
  toFixed :: "jsnum \<Rightarrow> nat \<Rightarrow> jsstring"
  fetch :: "jsstring \<Rightarrow> exn + response"

text \<open>The decimal digits of an integer, as a template literal prints \<^verbatim>\<open>r.status\<close>.\<close>

fun show_nat :: "nat \<Rightarrow> jsstring" where
  "show_nat n = (if n < 10 then [48 + n] else show_nat (n div 10) @ [48 + n mod 10])"

declare show_nat.simps [simp del]

definition show_int :: "int \<Rightarrow> jsstring" where
  "show_int k = (if k < 0 then 45 # show_nat (nat (- k)) else show_nat (nat k))"

text \<open>
  A template literal converts each value to a string; a string is its own conversion. A
  number that is an integer below \<open>2^53\<close> in size prints as its decimal digits, with a
  minus sign when it is negative (above, the shortest digits that identify the double are
  printed, which are not those of the integer), and the three numbers that are not finite
  print as their names.
\<close>

definition num_to_str :: "env \<Rightarrow> jsnum \<Rightarrow> jsstring" where
  "num_to_str E n =
     (case n of
        Dbl q \<Rightarrow>
          if of_int \<lfloor>q\<rfloor> = q \<and> \<bar>q\<bar> < 2 ^ 53 then show_int \<lfloor>q\<rfloor> else ToString E (JNum n)
      | NaN \<Rightarrow> str ''NaN''
      | PosInf \<Rightarrow> str ''Infinity''
      | NegInf \<Rightarrow> str ''-Infinity'')"

definition to_str :: "env \<Rightarrow> jsval \<Rightarrow> jsstring" where
  "to_str E v = (case v of JStr s \<Rightarrow> s | JNum n \<Rightarrow> num_to_str E n | _ \<Rightarrow> ToString E v)"

section \<open>api.js\<close>

text \<open>
  \<^verbatim>\<open>async function handle(r) {
    const text = await r.text()
    if (!r.ok) {
      try { throw new Error(JSON.stringify(JSON.parse(text))) }
      catch { throw new Error(text || `HTTP ${r.status}`) }
    }
    try { return JSON.parse(text) } catch { return text }
  }\<close>
  The \<^verbatim>\<open>try\<close> block of the error branch always throws (the parse error, or the error
  it builds), and its \<^verbatim>\<open>catch\<close> replaces whatever was thrown.
\<close>

definition handle :: "env \<Rightarrow> response \<Rightarrow> exn + jsval" where
  "handle E r =
     (let text = body r in
      if \<not> ok r then
        (case (case JSON_parse E text of
                 Inl e \<Rightarrow> Inl e
               | Inr v \<Rightarrow> Inl (Error (JSON_stringify E v))) of
           Inl e \<Rightarrow> Inl (Error (if text \<noteq> [] then text else str ''HTTP '' @ show_nat (status r)))
         | Inr v \<Rightarrow> Inr v)
      else
        (case JSON_parse E text of
           Inr v \<Rightarrow> Inr v
         | Inl e \<Rightarrow> Inr (JStr text)))"

text \<open>
  \<^verbatim>\<open>const r = await fetch(url); return handle(r)\<close>, with the URLs it fetched.
\<close>

definition request :: "env \<Rightarrow> jsstring \<Rightarrow> jsstring list \<times> (exn + jsval)" where
  "request E url =
     ([url], case fetch E url of Inl e \<Rightarrow> Inl e | Inr r \<Rightarrow> handle E r)"

definition getCurrent :: "env \<Rightarrow> jsstring \<Rightarrow> jsstring list \<times> (exn + jsval)" where
  "getCurrent E location =
     (case encodeURIComponent E location of
        Inl e \<Rightarrow> ([], Inl e)
      | Inr u \<Rightarrow> request E (str ''/api/weather/current?location='' @ u))"

definition searchLocations :: "env \<Rightarrow> jsstring \<Rightarrow> jsstring list \<times> (exn + jsval)" where
  "searchLocations E q =
     (case encodeURIComponent E q of
        Inl e \<Rightarrow> ([], Inl e)
      | Inr u \<Rightarrow> request E (str ''/api/locations/search?q='' @ u))"

text \<open>
  \<^verbatim>\<open>export async function getNearby(lat, lon, radius = 1200, limit = 18)\<close>: a default
  stands in for an argument that is \<^verbatim>\<open>undefined\<close>.
\<close>

definition getNearby ::
    "env \<Rightarrow> jsval \<Rightarrow> jsval \<Rightarrow> jsval \<Rightarrow> jsval \<Rightarrow> jsstring list \<times> (exn + jsval)" where
  "getNearby E lat lon radius0 limit0 =
     (let radius = (if radius0 = JUndefined then JNum (Dbl 1200) else radius0);
          limit = (if limit0 = JUndefined then JNum (Dbl 18) else limit0)
      in request E (str ''/api/places/nearby?lat='' @ to_str E lat @ str ''&lon='' @ to_str E lon
           @ str ''&radius='' @ to_str E radius @ str ''&limit='' @ to_str E limit))"

definition getAstronomy :: "env \<Rightarrow> jsval \<Rightarrow> jsval \<Rightarrow> jsstring list \<times> (exn + jsval)" where
  "getAstronomy E lat lon =
     request E (str ''/api/extras/astronomy?lat='' @ to_str E lat @ str ''&lon='' @ to_str E lon)"

definition getAir :: "env \<Rightarrow> jsval \<Rightarrow> jsval \<Rightarrow> jsstring list \<times> (exn + jsval)" where
  "getAir E lat lon =
     request E (str ''/api/extras/air?lat='' @ to_str E lat @ str ''&lon='' @ to_str E lon)"

text \<open>
  \<^verbatim>\<open>export async function exportData(fmt = 'json') {
    const r = await fetch(`/api/export?fmt=${fmt}`)
    if (fmt === 'json') return handle(r)
    if (!r.ok) throw new Error(await r.text())
    return r.text()
  }\<close>
\<close>

definition exportData :: "env \<Rightarrow> jsval \<Rightarrow> exn + jsval" where
  "exportData E fmt0 =
     (let fmt = (if fmt0 = JUndefined then JStr (str ''json'') else fmt0) in
      case fetch E (str ''/api/export?fmt='' @ to_str E fmt) of
        Inl e \<Rightarrow> Inl e
      | Inr r \<Rightarrow>
          if fmt = JStr (str ''json'') then handle E r
          else if \<not> ok r then Inl (Error (body r))
          else Inr (JStr (body r)))"

section \<open>App.jsx: the emoji mapper and the unit helpers\<close>

text \<open>
  \<^verbatim>\<open>[0].includes(wcode)\<close> compares by SameValueZero: only the number itself is found,
  never a string or another value that would coerce to it.
\<close>

definition includes_js :: "int list \<Rightarrow> jsval \<Rightarrow> bool" where
  "includes_js ks v \<longleftrightarrow> v \<in> set (map (\<lambda>k. JNum (Dbl (of_int k))) ks)"

text \<open>
  \<^verbatim>\<open>function wcToEmoji(wcode){
    if([0].includes(wcode)) return (sun)
    if([1,2,3].includes(wcode)) return (sun behind cloud)
    if([45,48].includes(wcode)) return (fog)
    if([51,53,55,61,63,65,80,81,82].includes(wcode)) return (cloud with rain)
    if([71,73,75,85,86].includes(wcode)) return (snowflake)
    if([95,96,99].includes(wcode)) return (thunder cloud and rain)
    return (thermometer)
  }\<close>
  The seven literals, as UTF-16 code units: U+2600 U+FE0F, U+26C5, U+1F32B U+FE0F,
  U+1F327 U+FE0F, U+2744 U+FE0F, U+26C8 U+FE0F and U+1F321 U+FE0F.
\<close>

definition emoji_sun :: jsstring where "emoji_sun = [9728, 65039]"
definition emoji_partly :: jsstring where "emoji_partly = [9925]"
definition emoji_fog :: jsstring where "emoji_fog = [55356, 57131, 65039]"
definition emoji_rain :: jsstring where "emoji_rain = [55356, 57127, 65039]"
definition emoji_snow :: jsstring where "emoji_snow = [10052, 65039]"
definition emoji_storm :: jsstring where "emoji_storm = [9928, 65039]"
definition emoji_thermometer :: jsstring where "emoji_thermometer = [55356, 57121, 65039]"

definition wcToEmoji :: "jsval \<Rightarrow> jsstring" where
  "wcToEmoji wcode =
     (if includes_js [0] wcode then emoji_sun
      else if includes_js [1, 2, 3] wcode then emoji_partly
      else if includes_js [45, 48] wcode then emoji_fog
      else if includes_js [51, 53, 55, 61, 63, 65, 80, 81, 82] wcode then emoji_rain
      else if includes_js [71, 73, 75, 85, 86] wcode then emoji_snow
      else if includes_js [95, 96, 99] wcode then emoji_storm
      else emoji_thermometer)"

text \<open>
  An arithmetic operator and \<^verbatim>\<open>Math.round\<close> convert their operand to a number first;
  a number is its own conversion, \<^verbatim>\<open>undefined\<close> is \<^verbatim>\<open>NaN\<close>, \<^verbatim>\<open>null\<close> and
  \<^verbatim>\<open>false\<close> are 0 and \<^verbatim>\<open>true\<close> is 1.
\<close>

definition to_num :: "env \<Rightarrow> jsval \<Rightarrow> jsnum" where
  "to_num E v =
     (case v of
        JNum n \<Rightarrow> n
      | JUndefined \<Rightarrow> NaN
      | JNull \<Rightarrow> Dbl 0
      | JBool b \<Rightarrow> Dbl (if b then 1 else 0)
      | _ \<Rightarrow> ToNumber E v)"

text \<open>\<^verbatim>\<open>const toF = c => (c * 9) / 5 + 32\<close>\<close>

definition toF :: "env \<Rightarrow> jsval \<Rightarrow> jsnum" where
  "toF E c = num_add (num_div (num_mul (to_num E c) (Dbl 9)) (Dbl 5)) (Dbl 32)"

text \<open>
  \<^verbatim>\<open>const kmhToMph = kmh => kmh * 0.621371\<close>; the double nearest to the literal
  \<^verbatim>\<open>0.621371\<close> is 5596812408117665 / 2^53.
\<close>

definition kmhToMph :: "env \<Rightarrow> jsval \<Rightarrow> jsnum" where
  "kmhToMph E kmh = num_mul (to_num E kmh) (Dbl (5596812408117665 / 9007199254740992))"

text \<open>
  \<^verbatim>\<open>function fmtTemp(c, unit){ if(c==null) return (dash);
    return unit==='f'?`${Math.round(toF(c))}(deg)F`:`${Math.round(c)}(deg)C` }\<close>
  where (dash) is U+2014 and (deg) is U+00B0.
\<close>

definition dash :: jsstring where
  "dash = [8212]"

definition fmtTemp :: "env \<Rightarrow> jsval \<Rightarrow> jsstring \<Rightarrow> jsstring" where
  "fmtTemp E c unit =
     (if nullish c then dash
      else if unit = str ''f'' then to_str E (JNum (Math_round (toF E c))) @ [176] @ str ''F''
      else to_str E (JNum (Math_round (to_num E c))) @ [176] @ str ''C'')"

text \<open>
  \<^verbatim>\<open>function fmtWind(kmh, unit){ if(kmh==null) return (dash);
    return unit==='f'?`${Math.round(kmhToMph(kmh))} mph`:`${Math.round(kmh)} km/h` }\<close>
\<close>

definition fmtWind :: "env \<Rightarrow> jsval \<Rightarrow> jsstring \<Rightarrow> jsstring" where
  "fmtWind E kmh unit =
     (if nullish kmh then dash
      else if unit = str ''f'' then to_str E (JNum (Math_round (kmhToMph E kmh))) @ str '' mph''
      else to_str E (JNum (Math_round (to_num E kmh))) @ str '' km/h'')"

text \<open>
  \<^verbatim>\<open>function fmtPrecip(mm){ if(mm==null) return (dash); return `${mm.toFixed(1)} mm` }\<close>
  Only a number has \<^verbatim>\<open>toFixed\<close>: on any other value that is not null or undefined the
  call throws a TypeError.
\<close>

definition fmtPrecip :: "env \<Rightarrow> jsval \<Rightarrow> exn + jsstring" where
  "fmtPrecip E mm =
     (if nullish mm then Inr dash
      else case mm of
        JNum n \<Rightarrow> Inr (toFixed E n 1 @ str '' mm'')
      | _ \<Rightarrow> Inl (TypeError (str ''mm.toFixed is not a function'')))"

section \<open>App.jsx: error text\<close>

text \<open>
  \<^verbatim>\<open>s.match(/\{.*\}/s)\<close>: the pattern has the dotAll flag, so the match starts at the
  first \<^verbatim>\<open>{\<close> (123) of \<open>s\<close> and, being greedy, ends at the last \<^verbatim>\<open>}\<close> (125) after it;
  there is no match when no \<^verbatim>\<open>}\<close> follows the first \<^verbatim>\<open>{\<close>.
\<close>

definition match_braces :: "jsstring \<Rightarrow> jsstring option" where
  "match_braces s =
     (let t = dropWhile (\<lambda>c. c \<noteq> 123) s in
      if 125 \<in> set t then Some (rev (dropWhile (\<lambda>c. c \<noteq> 125) (rev t))) else None)"

text \<open>The pattern itself, \<^verbatim>\<open>\{.*\}\<close> with the dotAll flag, to state what \<open>match_braces\<close> finds.\<close>

definition BRACES_RE :: regex where
  "BRACES_RE = cat_list [Sym (Chr 123), Many (Sym AnyChar), Sym (Chr 125)]"

text \<open>\<^verbatim>\<open>s.replace(/^Error:\s*/, '')\<close>\<close>

definition strip_error_prefix :: "jsstring \<Rightarrow> jsstring" where
  "strip_error_prefix s =
     (if take 6 s = str ''Error:'' then dropWhile is_space (drop 6 s) else s)"

text \<open>
  \<^verbatim>\<open>function cleanErr(e){
    const s=String(e)
    try{const m=s.match(/\{.*\}/s);if(m){const j=JSON.parse(m[0]);
      if(j?.detail)return typeof j.detail==='string'?j.detail:JSON.stringify(j.detail)}}catch{}
    return s.replace(/^Error:\s*/,'')
  }\<close>
\<close>

definition cleanErr :: "env \<Rightarrow> exn \<Rightarrow> jsstring" where
  "cleanErr E e =
     (let s = String_exn e in
      case (case match_braces s of
              None \<Rightarrow> Inr None
            | Some m \<Rightarrow>
                (case JSON_parse E m of
                   Inl x \<Rightarrow> Inl x
                 | Inr j \<Rightarrow>
                     (let detail = opt_prop j (str ''detail'') in
                      if truthy detail
                      then Inr (Some (case detail of JStr d \<Rightarrow> d | _ \<Rightarrow> JSON_stringify E detail))
                      else Inr None))) of
        Inr (Some out) \<Rightarrow> out
      | _ \<Rightarrow> strip_error_prefix s)"

section \<open>App.jsx: the component's state and its handlers\<close>

text \<open>
  The state hooks of \<^verbatim>\<open>App\<close> that the handlers below read or write, and what the
  browser holds for them: the pending timeouts (the id of each and the query its callback
  closes over), the last timer id handed out, and the URLs fetched so far.
  \<^verbatim>\<open>location\<close> is always a string (the stored value or the empty string at first, then
  the input's value, a candidate's name or a coordinate text).
\<close>

record app =
  location :: jsstring
  current :: jsval
  error :: jsstring
  cands :: jsval
  openSug :: bool
  typingTimer :: "nat option"
  pois :: jsval
  astro :: jsval
  air :: jsval
  timers :: "(nat \<times> jsstring) list"
  last_timer :: nat
  fetched :: "jsstring list"

text \<open>The \<^verbatim>\<open>useState\<close> initial values; \<open>stored\<close> is \<^verbatim>\<open>localStorage.getItem('pma:lastLocation')||''\<close>.\<close>

definition initial :: "jsstring \<Rightarrow> app" where
  "initial stored =
     \<lparr>location = stored, current = JNull, error = [], cands = JArr [], openSug = False,
      typingTimer = None, pois = JArr [], astro = JNull, air = JNull,
      timers = [], last_timer = 0, fetched = []\<rparr>"

definition clearTimeout :: "nat \<Rightarrow> app \<Rightarrow> app" where
  "clearTimeout t a = a\<lparr>timers := filter (\<lambda>p. fst p \<noteq> t) (timers a)\<rparr>"

text \<open>
  \<^verbatim>\<open>function scheduleSuggest(q){
    if(typingTimer)clearTimeout(typingTimer)
    if(!isWordyQuery(q)){setCands([]);setOpenSug(false);return}
    const t=setTimeout(async()=>{ ... },300)
    setTypingTimer(t)
  }\<close>
  \<^verbatim>\<open>setTimeout\<close> hands out a fresh positive id.
\<close>

definition scheduleSuggest :: "jsstring \<Rightarrow> app \<Rightarrow> app" where
  "scheduleSuggest q a =
     (let a1 = (case typingTimer a of
                  Some t \<Rightarrow> if t \<noteq> 0 then clearTimeout t a else a
                | None \<Rightarrow> a) in
      if \<not> isWordyQuery q then a1\<lparr>cands := JArr [], openSug := False\<rparr>
      else
        (let t = Suc (last_timer a1) in
         a1\<lparr>timers := timers a1 @ [(t, q)], last_timer := t, typingTimer := Some t\<rparr>))"

text \<open>
  The timeout's callback:
  \<^verbatim>\<open>async()=>{
    try{const res=await searchLocations(q);setCands(res.slice(0,8));setOpenSug(res.length>0)}
    catch{setCands([]);setOpenSug(false)}
  }\<close>
  It runs in two steps: when the timeout fires the search request is sent, and when the
  request settles the state is set. \<^verbatim>\<open>slice\<close> exists on arrays and on strings only.
\<close>

definition timeout_fires :: "env \<Rightarrow> nat \<Rightarrow> app \<Rightarrow> app" where
  "timeout_fires E t a =
     (case map_of (timers a) t of
        None \<Rightarrow> a
      | Some q \<Rightarrow> (clearTimeout t a)\<lparr>fetched := fetched a @ fst (searchLocations E q)\<rparr>)"

definition slice_0_8 :: "jsval \<Rightarrow> exn + jsval" where
  "slice_0_8 res =
     (case res of
        JArr xs \<Rightarrow> Inr (JArr (take 8 xs))
      | JStr s \<Rightarrow> Inr (JStr (take 8 s))
      | _ \<Rightarrow> Inl (TypeError (str ''res.slice is not a function'')))"

definition length_positive :: "jsval \<Rightarrow> bool" where
  "length_positive res = (case res of JArr xs \<Rightarrow> xs \<noteq> [] | JStr s \<Rightarrow> s \<noteq> [] | _ \<Rightarrow> False)"

definition search_settles :: "env \<Rightarrow> jsstring \<Rightarrow> app \<Rightarrow> app" where
  "search_settles E q a =
     (case (case snd (searchLocations E q) of
              Inl e \<Rightarrow> Inl e
            | Inr res \<Rightarrow>
                (case slice_0_8 res of
                   Inl e \<Rightarrow> Inl e
                 | Inr c \<Rightarrow> Inr (c, length_positive res))) of
        Inr (c, b) \<Rightarrow> a\<lparr>cands := c, openSug := b\<rparr>
      | Inl e \<Rightarrow> a\<lparr>cands := JArr [], openSug := False\<rparr>)"

text \<open>
  The three enrichment fetches of \<^verbatim>\<open>fetchCurrentFor\<close>, each with its own handlers:
  \<^verbatim>\<open>getNearby(lat,lon,1200,18).then(r=>setPois(r.items||[])).catch(()=>{})
  getAstronomy(lat,lon).then(setAstro).catch(()=>{})
  getAir(lat,lon).then(setAir).catch(()=>{})\<close>
  \<open>enrichment\<close> is the call of each and \<open>settle\<close> what the state becomes when its
  promise settles.
\<close>

datatype enrich = Nearby | Astronomy | Air

fun enrichment :: "env \<Rightarrow> jsval \<Rightarrow> jsval \<Rightarrow> enrich \<Rightarrow> jsstring list \<times> (exn + jsval)" where
  "enrichment E lat lon Nearby = getNearby E lat lon (JNum (Dbl 1200)) (JNum (Dbl 18))"
| "enrichment E lat lon Astronomy = getAstronomy E lat lon"
| "enrichment E lat lon Air = getAir E lat lon"

fun settle :: "env \<Rightarrow> jsval \<Rightarrow> jsval \<Rightarrow> enrich \<Rightarrow> app \<Rightarrow> app" where
  "settle E lat lon Nearby a =
     (case (case snd (enrichment E lat lon Nearby) of
              Inl e \<Rightarrow> Inl e
            | Inr r \<Rightarrow>
                if nullish r then Inl (TypeError (str ''Cannot read properties of null''))
                else Inr (let items = get_prop r (str ''items'') in
                          if truthy items then items else JArr [])) of
        Inr p \<Rightarrow> a\<lparr>pois := p\<rparr>
      | Inl e \<Rightarrow> a)"
| "settle E lat lon Astronomy a =
     (case snd (enrichment E lat lon Astronomy) of Inr r \<Rightarrow> a\<lparr>astro := r\<rparr> | Inl e \<Rightarrow> a)"
| "settle E lat lon Air a =
     (case snd (enrichment E lat lon Air) of Inr r \<Rightarrow> a\<lparr>air := r\<rparr> | Inl e \<Rightarrow> a)"

text \<open>
  \<^verbatim>\<open>async function fetchCurrentFor(loc){
    setError('')
    try{
      const j=await getCurrent(loc)
      setCurrent(j)
      const lat=j?.resolved?.latitude, lon=j?.resolved?.longitude
      if(lat!=null&&lon!=null){ (the three enrichment fetches) }
    }catch(e){ setError(cleanErr(e)) }
  }\<close>
  The three requests are sent in program order; \<open>order\<close> is the order in which their
  promises settle, which the network decides.
\<close>

definition fetchCurrentFor :: "env \<Rightarrow> enrich list \<Rightarrow> jsstring \<Rightarrow> app \<Rightarrow> app" where
  "fetchCurrentFor E order loc a =
     (let a1 = a\<lparr>error := [], fetched := fetched a @ fst (getCurrent E loc)\<rparr> in
      case snd (getCurrent E loc) of
        Inl e \<Rightarrow> a1\<lparr>error := cleanErr E e\<rparr>
      | Inr j \<Rightarrow>
          (let a2 = a1\<lparr>current := j\<rparr>;
               lat = opt_prop (opt_prop j (str ''resolved'')) (str ''latitude'');
               lon = opt_prop (opt_prop j (str ''resolved'')) (str ''longitude'')
           in if \<not> nullish lat \<and> \<not> nullish lon then
                foldl (\<lambda>s x. settle E lat lon x s)
                  (a2\<lparr>fetched := fetched a2 @ fst (enrichment E lat lon Nearby)
                       @ fst (enrichment E lat lon Astronomy) @ fst (enrichment E lat lon Air)\<rparr>)
                  order
              else a2))"

text \<open>
  \<^verbatim>\<open>async function fetchCurrent(){
    if(!location?.trim()){setError('Please enter a location');return}
    fetchCurrentFor(location) }\<close>
\<close>

definition fetchCurrent :: "env \<Rightarrow> enrich list \<Rightarrow> app \<Rightarrow> app" where
  "fetchCurrent E order a =
     (if trim (location a) = [] then a\<lparr>error := str ''Please enter a location''\<rparr>
      else fetchCurrentFor E order (location a) a)"

text \<open>
  \<^verbatim>\<open>function chooseCand(c,{autoFetch=false}={}){
    setLocation(c.name);setCands([]);setOpenSug(false);
    const precise=`${c.latitude.toFixed(4)},${c.longitude.toFixed(4)}`;
    if(autoFetch)fetchCurrentFor(precise)}\<close>
  A candidate is a resolved location: a name and two numbers.
\<close>

record candidate =
  name :: jsstring
  latitude :: jsnum
  longitude :: jsnum

definition chooseCand :: "env \<Rightarrow> enrich list \<Rightarrow> candidate \<Rightarrow> bool \<Rightarrow> app \<Rightarrow> app" where
  "chooseCand E order c autoFetch a =
     (let a1 = a\<lparr>location := name c, cands := JArr [], openSug := False\<rparr>;
          precise = toFixed E (latitude c) 4 @ str '','' @ toFixed E (longitude c) 4
      in if autoFetch then fetchCurrentFor E order precise a1 else a1)"

text \<open>
  The states the handlers can produce. The input's \<^verbatim>\<open>onChange\<close> is
  \<^verbatim>\<open>setLocation(v);scheduleSuggest(v)\<close>. Each step may see a different network and
  a search may settle at any later moment.
\<close>

inductive reachable :: "app \<Rightarrow> bool" where
  start: "reachable (initial stored)"
| typed: "reachable a \<Longrightarrow> reachable (scheduleSuggest v (a\<lparr>location := v\<rparr>))"
| fired: "reachable a \<Longrightarrow> reachable (timeout_fires E t a)"
| settled: "reachable a \<Longrightarrow> reachable (search_settles E q a)"
| chosen: "reachable a \<Longrightarrow> reachable (chooseCand E order c autoFetch a)"
| weather: "reachable a \<Longrightarrow> reachable (fetchCurrent E order a)"

text \<open>A list of at most 8 entries.\<close>

definition at_most_8 :: "jsval \<Rightarrow> bool" where
  "at_most_8 v = (case v of JArr xs \<Rightarrow> length xs \<le> 8 | _ \<Rightarrow> False)"

section \<open>App.jsx: rendering the weather card\<close>

text \<open>
  Property access as the JSX of the weather card uses it. \<^verbatim>\<open>v.k\<close> and \<^verbatim>\<open>v[i]\<close> throw
  a TypeError when \<open>v\<close> is \<^verbatim>\<open>null\<close> or \<^verbatim>\<open>undefined\<close>; \<^verbatim>\<open>v?.[i]\<close> is
  \<^verbatim>\<open>undefined\<close> then. An index reads an element of an array, a code unit of a string
  or the property of an object whose key is the index in decimal digits.
\<close>

definition cannot_read :: "jsval \<Rightarrow> exn" where
  "cannot_read v =
     TypeError (str ''Cannot read properties of '' @
       (if v = JNull then str ''null'' else str ''undefined''))"

definition member :: "jsval \<Rightarrow> jsstring \<Rightarrow> exn + jsval" where
  "member v k = (if nullish v then Inl (cannot_read v) else Inr (get_prop v k))"

definition get_index :: "jsval \<Rightarrow> nat \<Rightarrow> jsval" where
  "get_index v i =
     (case v of
        JArr xs \<Rightarrow> if i < length xs then xs ! i else JUndefined
      | JStr s \<Rightarrow> if i < length s then JStr [s ! i] else JUndefined
      | JObj kvs \<Rightarrow> get_prop v (show_nat i)
      | _ \<Rightarrow> JUndefined)"

definition element :: "jsval \<Rightarrow> nat \<Rightarrow> exn + jsval" where
  "element v i = (if nullish v then Inl (cannot_read v) else Inr (get_index v i))"

definition opt_element :: "jsval \<Rightarrow> nat \<Rightarrow> jsval" where
  "opt_element v i = (if nullish v then JUndefined else get_index v i)"

text \<open>\<^verbatim>\<open>a ?? b\<close>\<close>

definition coalesce :: "jsval \<Rightarrow> jsval \<Rightarrow> jsval" where
  "coalesce a b = (if nullish a then b else a)"

text \<open>
  Evaluation in sequence: the first throw ends it. \<open>path v ks\<close> is the chain
  \<^verbatim>\<open>v.k1.k2...\<close>, and \<open>collect\<close> evaluates expressions in their order.
\<close>

definition and_then :: "exn + 'a \<Rightarrow> ('a \<Rightarrow> exn + 'b) \<Rightarrow> exn + 'b" where
  "and_then m f = (case m of Inl e \<Rightarrow> Inl e | Inr x \<Rightarrow> f x)"

primrec path :: "jsval \<Rightarrow> jsstring list \<Rightarrow> exn + jsval" where
  "path v [] = Inr v"
| "path v (k # ks) = and_then (member v k) (\<lambda>x. path x ks)"

fun collect :: "(exn + 'a) list \<Rightarrow> exn + 'a list" where
  "collect [] = Inr []"
| "collect (Inl e # rs) = Inl e"
| "collect (Inr x # rs) = and_then (collect rs) (\<lambda>xs. Inr (x # xs))"

text \<open>
  \<^verbatim>\<open>v.toFixed(d)\<close>: only a number has \<^verbatim>\<open>toFixed\<close>.
\<close>

definition call_toFixed :: "env \<Rightarrow> jsval \<Rightarrow> nat \<Rightarrow> exn + jsval" where
  "call_toFixed E v d =
     (if nullish v then Inl (cannot_read v)
      else case v of
        JNum n \<Rightarrow> Inr (JStr (toFixed E n d))
      | _ \<Rightarrow> Inl (TypeError (str ''toFixed is not a function'')))"

text \<open>
  One day of the forecast, the callback of \<^verbatim>\<open>current.data.daily.time.map((d,i)=>...)\<close>
  (App.jsx, lines 138 to 149); the result is the values of its expressions in braces:
  \<^verbatim>\<open>{d}
  {wcToEmoji(current.data.daily.weather_code?.[i]??0)}
  {fmtTemp(current.data.daily.temperature_2m_max[i],unit)} / {fmtTemp(current.data.daily.temperature_2m_min[i],unit)}
  Precip {fmtPrecip(current.data.daily.precipitation_sum[i])}
  Wind max {fmtWind(current.data.daily.wind_speed_10m_max?.[i],unit)}\<close>
\<close>

definition render_day :: "env \<Rightarrow> jsval \<Rightarrow> jsstring \<Rightarrow> nat \<Rightarrow> jsval \<Rightarrow> exn + jsval list" where
  "render_day E cur unit i d =
     collect
       [Inr d,
        and_then (path cur [str ''data'', str ''daily'', str ''weather_code''])
          (\<lambda>a. Inr (JStr (wcToEmoji (coalesce (opt_element a i) (JNum (Dbl 0)))))),
        and_then (path cur [str ''data'', str ''daily'', str ''temperature_2m_max''])
          (\<lambda>a. and_then (element a i) (\<lambda>c. Inr (JStr (fmtTemp E c unit)))),
        and_then (path cur [str ''data'', str ''daily'', str ''temperature_2m_min''])
          (\<lambda>a. and_then (element a i) (\<lambda>c. Inr (JStr (fmtTemp E c unit)))),
        and_then (path cur [str ''data'', str ''daily'', str ''precipitation_sum''])
          (\<lambda>a. and_then (element a i) (\<lambda>mm. and_then (fmtPrecip E mm) (\<lambda>s. Inr (JStr s)))),
        and_then (path cur [str ''data'', str ''daily'', str ''wind_speed_10m_max''])
          (\<lambda>a. Inr (JStr (fmtWind E (opt_element a i) unit)))]"

text \<open>
  The weather card, \<^verbatim>\<open>{current && ( ... )}\<close> (App.jsx, lines 124 to 153): the values of
  its expressions in braces, in source order, or what is thrown while they are evaluated,
  which aborts the render:
  \<^verbatim>\<open>{current.resolved.name}
  {current.resolved.latitude.toFixed(2)}, {current.resolved.longitude.toFixed(2)}
  {wcToEmoji(current.data.current.weather_code)} {fmtTemp(current.data.current.temperature_2m,unit)}
  {fmtTemp(current.data.current.apparent_temperature,unit)}
  {current.data.current.relative_humidity_2m}%
  {fmtWind(current.data.current.wind_speed_10m,unit)}
  {current.data.daily.time.map((d,i)=>( ... ))}\<close>
  \<open>cur\<close> is the state \<^verbatim>\<open>current\<close>; when it is falsy the card is left out and \<open>cur\<close>
  itself is the value. What React draws for the values is not part of the model.
\<close>

definition render_weather :: "env \<Rightarrow> jsval \<Rightarrow> jsstring \<Rightarrow> exn + jsval list" where
  "render_weather E cur unit =
     (if \<not> truthy cur then Inr [cur]
      else
        and_then
          (collect
            [path cur [str ''resolved'', str ''name''],
             and_then (path cur [str ''resolved'', str ''latitude''])
               (\<lambda>v. call_toFixed E v 2),
             and_then (path cur [str ''resolved'', str ''longitude''])
               (\<lambda>v. call_toFixed E v 2),
             and_then (path cur [str ''data'', str ''current'', str ''weather_code''])
               (\<lambda>v. Inr (JStr (wcToEmoji v))),
             and_then (path cur [str ''data'', str ''current'', str ''temperature_2m''])
               (\<lambda>v. Inr (JStr (fmtTemp E v unit))),
             and_then (path cur [str ''data'', str ''current'', str ''apparent_temperature''])
               (\<lambda>v. Inr (JStr (fmtTemp E v unit))),
             path cur [str ''data'', str ''current'', str ''relative_humidity_2m''],
             and_then (path cur [str ''data'', str ''current'', str ''wind_speed_10m''])
               (\<lambda>v. Inr (JStr (fmtWind E v unit)))])
          (\<lambda>now.
             and_then (path cur [str ''data'', str ''daily'', str ''time''])
               (\<lambda>time.
                  if nullish time then Inl (cannot_read time)
                  else case time of
                    JArr ds \<Rightarrow>
                      and_then
                        (collect (map (\<lambda>(i, d). render_day E cur unit i d) (enumerate 0 ds)))
                        (\<lambda>days. Inr (now @ concat days))
                  | _ \<Rightarrow> Inl (TypeError (str ''current.data.daily.time.map is not a function'')))))"

section \<open>The language of a regular expression\<close>

text \<open>
  The set of strings a pattern matches, as the usual semantics of regular expressions
  defines it. It is the specification of \<open>regex_test\<close>, used in proofs only.
\<close>
inductive_set star :: "jsstring set \<Rightarrow> jsstring set" for L :: "jsstring set" where
  star_nil: "[] \<in> star L"
| star_app: "u \<in> L \<Longrightarrow> v \<in> star L \<Longrightarrow> u @ v \<in> star L"

primrec lang :: "regex \<Rightarrow> jsstring set" where
  "lang Nul = {}"
| "lang Eps = {[]}"
| "lang (Sym k) = {w. \<exists>c. w = [c] \<and> cls_has k c}"
| "lang (Cat r s) = {w. \<exists>u v. w = u @ v \<and> u \<in> lang r \<and> v \<in> lang s}"
| "lang (Or r s) = lang r \<union> lang s"
| "lang (Many r) = star (lang r)"

text \<open>The number part of \<open>COORD_RE\<close>, which occurs twice: \<^verbatim>\<open>-?\d+\.?\d*\<close>.\<close>

definition number_re :: "regex list" where
  "number_re = [Maybe (Sym (Chr 45)), Some1 (Sym Dgt), Maybe (Sym (Chr 46)), Many (Sym Dgt)]"

section \<open>A sample environment\<close>

text \<open>
  An environment for the examples: a network with a fixed answer to each of a few requests,
  and built-ins that answer as the platform does on the arguments the examples use
  (\<^verbatim>\<open>JSON.parse\<close> on the bodies below, the conversions on a few values,
  \<^verbatim>\<open>encodeURIComponent\<close> on the characters of the examples) and are arbitrary elsewhere. The theorems
  do not depend on it: they hold for every environment.
\<close>

definition weather_body :: jsstring where
  \<open>weather_body = str ''{"resolved":{"name":"Paris","latitude":49,"longitude":2}}''\<close>

definition weather_json :: jsval where
  "weather_json =
     JObj [(str ''resolved'',
            JObj [(str ''name'', JStr (str ''Paris'')),
                  (str ''latitude'', JNum (Dbl 49)),
                  (str ''longitude'', JNum (Dbl 2))])]"

definition nearby_body :: jsstring where
  \<open>nearby_body = str ''{"items":[{"name":"Louvre"}]}''\<close>

definition nearby_json :: jsval where
  "nearby_json = JObj [(str ''items'', JArr [JObj [(str ''name'', JStr (str ''Louvre''))]])]"

definition air_body :: jsstring where
  \<open>air_body = str ''{"now":null}''\<close>

definition air_json :: jsval where
  "air_json = JObj [(str ''now'', JNull)]"

definition search_body :: jsstring where
  "search_body = str ''[1,2,3,4,5,6,7,8,9]''"

definition search_json :: jsval where
  "search_json = JArr (map (\<lambda>k. JNum (Dbl (of_int k))) [1, 2, 3, 4, 5, 6, 7, 8, 9])"

definition empty_detail_body :: jsstring where
  \<open>empty_detail_body = str ''{"detail":""}''\<close>

definition bad_format_body :: jsstring where
  \<open>bad_format_body = str ''{"detail":"Unsupported format"}''\<close>

definition list_detail_body :: jsstring where
  \<open>list_detail_body = str ''{"detail":[]}''\<close>

text \<open>A page of HTML, as a development server or a proxy answers with status 200.\<close>

definition html_body :: jsstring where
  "html_body = str ''<!doctype html><title>PMA Weather</title>''"

definition sample_parse :: "jsstring \<Rightarrow> exn + jsval" where
  "sample_parse text =
     (if text = weather_body then Inr weather_json
      else if text = nearby_body then Inr nearby_json
      else if text = air_body then Inr air_json
      else if text = search_body then Inr search_json
      else if text = str ''[]'' then Inr (JArr [])
      else if text = empty_detail_body then Inr (JObj [(str ''detail'', JStr [])])
      else if text = bad_format_body
        then Inr (JObj [(str ''detail'', JStr (str ''Unsupported format''))])
      else if text = list_detail_body then Inr (JObj [(str ''detail'', JArr [])])
      else Inl (Exn (str ''SyntaxError'') (str ''Unexpected token'')))"

definition sample_fetch :: "jsstring \<Rightarrow> exn + response" where
  "sample_fetch url =
     (if url = str ''/api/weather/current?location=Paris''
        then Inr \<lparr>status = 200, body = weather_body\<rparr>
      else if url = str ''/api/places/nearby?lat=49&lon=2&radius=1200&limit=18''
        then Inr \<lparr>status = 200, body = nearby_body\<rparr>
      else if url = str ''/api/extras/astronomy?lat=49&lon=2''
        then Inr \<lparr>status = 502, body = []\<rparr>
      else if url = str ''/api/extras/air?lat=49&lon=2''
        then Inr \<lparr>status = 200, body = air_body\<rparr>
      else if url = str ''/api/locations/search?q=Par''
        then Inr \<lparr>status = 200, body = search_body\<rparr>
      else if url = str ''/api/locations/search?q=zzz''
        then Inr \<lparr>status = 500, body = str ''Internal Server Error''\<rparr>
      else if url = str ''/api/locations/search?q=%2B40.71%2C-74.00''
        then Inr \<lparr>status = 200, body = str ''[]''\<rparr>
      else if url = str ''/api/locations/search?q=Lyon''
        then Inr \<lparr>status = 200, body = html_body\<rparr>
      else if url = str ''/api/export?fmt=json''
        then Inr \<lparr>status = 200, body = str ''[]''\<rparr>
      else if url = str ''/api/export?fmt=csv''
        then Inr \<lparr>status = 200, body = str ''id,location_query''\<rparr>
      else if url = str ''/api/export?fmt=xyz''
        then Inr \<lparr>status = 400, body = bad_format_body\<rparr>
      else Inl (TypeError (str ''Failed to fetch'')))"

text \<open>
  \<^verbatim>\<open>encodeURIComponent\<close> keeps the unreserved characters (letters, digits and
  \<^verbatim>\<open>- _ . ! ~ * ' ( )\<close>) and escapes the others; here the plus sign, the comma and the
  space.
\<close>

definition unreserved :: "jschar \<Rightarrow> bool" where
  "unreserved c \<longleftrightarrow>
     is_digit c \<or> (65 \<le> c \<and> c \<le> 90) \<or> (97 \<le> c \<and> c \<le> 122) \<or>
     c \<in> set [45, 95, 46, 33, 126, 42, 39, 40, 41]"

definition sample_encode :: "jsstring \<Rightarrow> exn + jsstring" where
  "sample_encode s =
     (if list_all (\<lambda>c. unreserved c \<or> c = 43 \<or> c = 44 \<or> c = 32) s
      then Inr (concat (map (\<lambda>c. if unreserved c then [c]
                                   else if c = 43 then str ''%2B''
                                   else if c = 44 then str ''%2C''
                                   else str ''%20'') s))
      else Inl (Exn (str ''URIError'') (str ''URI malformed'')))"

text \<open>
  \<^verbatim>\<open>ToString\<close> of \<^verbatim>\<open>undefined\<close>, \<^verbatim>\<open>null\<close>, a boolean and the number 20.6.
\<close>

definition sample_ToString :: "jsval \<Rightarrow> jsstring" where
  "sample_ToString v =
     (case v of
        JUndefined \<Rightarrow> str ''undefined''
      | JNull \<Rightarrow> str ''null''
      | JBool b \<Rightarrow> (if b then str ''true'' else str ''false'')
      | JNum n \<Rightarrow> (if n = fl (103 / 5) then str ''20.6'' else [])
      | _ \<Rightarrow> [])"

text \<open>
  \<^verbatim>\<open>x.toFixed(d)\<close> for a finite \<open>x\<close> below \<open>10^21\<close> in size: the nearest multiple of
  \<open>10^-d\<close>, the larger one on a tie, with \<open>d\<close> digits after the point.
\<close>

definition sample_toFixed :: "jsnum \<Rightarrow> nat \<Rightarrow> jsstring" where
  "sample_toFixed x d =
     (case x of
        Dbl q \<Rightarrow>
          (let n = nat \<lfloor>\<bar>q\<bar> * 10 ^ d + 1 / 2\<rfloor>;
               frac = show_nat (n mod 10 ^ d)
           in (if q < 0 then [45] else []) @ show_nat (n div 10 ^ d)
              @ (if d = 0 then [] else 46 # replicate (d - length frac) 48 @ frac))
      | NaN \<Rightarrow> str ''NaN''
      | PosInf \<Rightarrow> str ''Infinity''
      | NegInf \<Rightarrow> str ''-Infinity'')"

text \<open>
  \<^verbatim>\<open>ToNumber\<close> of the strings \<^verbatim>\<open>"20"\<close> and \<^verbatim>\<open>"20.6"\<close>; a plain object and a string
  that is not a numeric literal give \<^verbatim>\<open>NaN\<close>.
\<close>

definition sample_ToNumber :: "jsval \<Rightarrow> jsnum" where
  "sample_ToNumber v =
     (if v = JStr (str ''20'') then Dbl 20
      else if v = JStr (str ''20.6'') then fl (103 / 5)
      else NaN)"

definition sample_env :: env where
  "sample_env =
     \<lparr>JSON_parse = sample_parse,
      JSON_stringify = (\<lambda>v. if v = JArr [] then str ''[]'' else str ''null''),
      encodeURIComponent = sample_encode,
      ToString = sample_ToString,
      ToNumber = sample_ToNumber,
      toFixed = sample_toFixed,
      fetch = sample_fetch\<rparr>"

text \<open>
  Weather payloads for the examples: \<open>payload r d\<close> has the properties \<open>r\<close> of the resolved
  location, current conditions whose readings are \<^verbatim>\<open>null\<close> but for the weather code
  and the humidity, and the daily series \<open>d\<close> of one day.
\<close>

definition payload :: "(jsstring \<times> jsval) list \<Rightarrow> (jsstring \<times> jsval) list \<Rightarrow> jsval" where
  "payload r d =
     JObj [(str ''resolved'', JObj r),
           (str ''data'',
            JObj [(str ''current'',
                   JObj [(str ''weather_code'', JNum (Dbl 3)),
                         (str ''temperature_2m'', JNull),
                         (str ''apparent_temperature'', JNull),
                         (str ''relative_humidity_2m'', JNum (Dbl 50)),
                         (str ''wind_speed_10m'', JNull)]),
                  (str ''daily'', JObj ((str ''time'', JArr [JStr (str ''2025-10-01'')]) # d))])]"

definition resolved_paris :: "(jsstring \<times> jsval) list" where
  "resolved_paris =
     [(str ''name'', JStr (str ''Paris'')),
      (str ''latitude'', JNum (Dbl 49)),
      (str ''longitude'', JNum (Dbl 2))]"

definition daily_nulls :: "(jsstring \<times> jsval) list" where
  "daily_nulls =
     [(str ''weather_code'', JArr [JNum (Dbl 61)]),
      (str ''temperature_2m_max'', JArr [JNull]),
      (str ''temperature_2m_min'', JArr [JNull]),
      (str ''precipitation_sum'', JArr [JNull]),
      (str ''wind_speed_10m_max'', JArr [JNull])]"


text \<open>The daily series without the properties \<open>ks\<close>.\<close>

definition daily_without :: "jsstring list \<Rightarrow> (jsstring \<times> jsval) list" where
  "daily_without ks = filter (\<lambda>p. fst p \<notin> set ks) daily_nulls"

section \<open>The matcher decides the language\<close>

lemma nullable_lang: "nullable r \<longleftrightarrow> [] \<in> lang r"
  by (induction r) (auto intro: star_nil)

lemma star_cons_split:
  assumes "x \<in> star L" and "x = c # w"
  shows "\<exists>u v. w = u @ v \<and> c # u \<in> L \<and> v \<in> star L"
  using assms
proof (induction arbitrary: w rule: star.induct)
  case star_nil
  then show ?case by simp
next
  case (star_app u v)
  show ?case
  proof (cases u)
    case Nil
    with star_app show ?thesis by simp
  next
    case (Cons a u')
    with star_app.prems have "a = c" and "w = u' @ v" by simp_all
    with Cons star_app.hyps show ?thesis by blast
  qed
qed

lemma star_cons: "c # w \<in> star L \<longleftrightarrow> (\<exists>u v. w = u @ v \<and> c # u \<in> L \<and> v \<in> star L)"
proof
  assume "c # w \<in> star L"
  then show "\<exists>u v. w = u @ v \<and> c # u \<in> L \<and> v \<in> star L"
    by (rule star_cons_split) simp
next
  assume "\<exists>u v. w = u @ v \<and> c # u \<in> L \<and> v \<in> star L"
  then obtain u v where "w = u @ v" "c # u \<in> L" "v \<in> star L" by blast
  then show "c # w \<in> star L"
    using star_app [of "c # u" L v] by simp
qed

lemma deriv_lang: "w \<in> lang (deriv c r) \<longleftrightarrow> c # w \<in> lang r"
proof (induction r arbitrary: w)
  case (Cat r s)
  then show ?case
    by (auto simp: nullable_lang Cons_eq_append_conv)
next
  case (Many r)
  then show ?case
    by (auto simp: star_cons)
qed auto

lemma regex_test_lang: "regex_test r s \<longleftrightarrow> s \<in> lang r"
  unfolding regex_test_def
  by (induction s arbitrary: r) (simp_all add: nullable_lang deriv_lang)


lemma star_class:
  "w \<in> star {w. \<exists>c. w = [c] \<and> cls_has k c} \<longleftrightarrow> (\<forall>c\<in>set w. cls_has k c)"
proof
  assume "w \<in> star {w. \<exists>c. w = [c] \<and> cls_has k c}"
  then show "\<forall>c\<in>set w. cls_has k c"
    by (induction rule: star.induct) auto
next
  assume "\<forall>c\<in>set w. cls_has k c"
  then show "w \<in> star {w. \<exists>c. w = [c] \<and> cls_has k c}"
  proof (induction w)
    case Nil
    show ?case by (rule star_nil)
  next
    case (Cons c w)
    then have "[c] \<in> {w. \<exists>c. w = [c] \<and> cls_has k c}"
      and "w \<in> star {w. \<exists>c. w = [c] \<and> cls_has k c}" by simp_all
    then have "[c] @ w \<in> star {w. \<exists>c. w = [c] \<and> cls_has k c}" by (rule star_app)
    then show ?case by simp
  qed
qed

lemma one_then:
  "(\<exists>u v. a # l = u @ v \<and> (\<exists>c. u = [c] \<and> P c) \<and> Q v) \<longleftrightarrow> P a \<and> Q l"
proof
  assume "\<exists>u v. a # l = u @ v \<and> (\<exists>c. u = [c] \<and> P c) \<and> Q v"
  then show "P a \<and> Q l" by auto
next
  assume "P a \<and> Q l"
  then have "a # l = [a] @ l \<and> (\<exists>c. [a] = [c] \<and> P c) \<and> Q l" by simp
  then show "\<exists>u v. a # l = u @ v \<and> (\<exists>c. u = [c] \<and> P c) \<and> Q v" by blast
qed

lemma lang_Many_Sym: "w \<in> lang (Many (Sym k)) \<longleftrightarrow> (\<forall>c\<in>set w. cls_has k c)"
  by (simp add: star_class)

lemma lang_Some1_Sym: "w \<in> lang (Some1 (Sym k)) \<longleftrightarrow> w \<noteq> [] \<and> (\<forall>c\<in>set w. cls_has k c)"
  by (cases w) (simp_all add: Some1_def star_class one_then)

lemma lang_Maybe_Chr: "w \<in> lang (Maybe (Sym (Chr k))) \<longleftrightarrow> w = [] \<or> w = [k]"
  by (auto simp: Maybe_def)

lemma lang_Repeat_Sym:
  "w \<in> lang (Repeat n (Sym k)) \<longleftrightarrow> length w = n \<and> (\<forall>c\<in>set w. cls_has k c)"
proof (induction n arbitrary: w)
  case 0
  show ?case by auto
next
  case (Suc n)
  show ?case
    by (cases w) (auto simp: Suc one_then)
qed

lemma dropWhile_spaces_tight:
  assumes "\<forall>c\<in>set a. is_space c" and "m \<noteq> []" and "\<not> is_space (hd m)"
  shows "dropWhile is_space (a @ m @ b) = m @ b"
proof -
  from assms(2) obtain h t where m: "m = h # t" by (cases m) auto
  have "dropWhile is_space (a @ m @ b) = dropWhile is_space (m @ b)"
    using assms(1) by (simp add: dropWhile_append2)
  also have "\<dots> = m @ b"
    using assms(3) m by simp
  finally show ?thesis .
qed

lemma trim_sandwich:
  assumes a: "\<forall>c\<in>set a. is_space c" and b: "\<forall>c\<in>set b. is_space c"
    and m: "m \<noteq> []" and h: "\<not> is_space (hd m)" and l: "\<not> is_space (last m)"
  shows "trim (a @ m @ b) = m"
proof -
  have 1: "dropWhile is_space (a @ m @ b) = m @ b"
    using a m h by (rule dropWhile_spaces_tight)
  have "dropWhile is_space (rev b @ rev m @ []) = rev m @ []"
    using b m l by (intro dropWhile_spaces_tight) (simp_all add: hd_rev)
  then show ?thesis
    by (simp add: trim_def 1)
qed

lemma digit_not_space: "is_digit c \<Longrightarrow> \<not> is_space c"
  by (auto simp: is_digit_def is_space_def)


lemma COORD_RE_grouped:
  "COORD_RE = cat_list ([Many (Sym Ws)] @ number_re @
     [Many (Sym Ws), Sym (Chr 44), Many (Sym Ws)] @ number_re @ [Many (Sym Ws)])"
  by (simp add: COORD_RE_def number_re_def)

lemma lang_cat_append:
  "w \<in> lang (cat_list (xs @ ys)) \<longleftrightarrow>
     (\<exists>u v. w = u @ v \<and> u \<in> lang (cat_list xs) \<and> v \<in> lang (cat_list ys))"
proof (induction xs arbitrary: w)
  case Nil
  show ?case by simp
next
  case (Cons r xs)
  show ?case
  proof
    assume "w \<in> lang (cat_list ((r # xs) @ ys))"
    then obtain u v where "w = u @ v" "u \<in> lang r" "v \<in> lang (cat_list (xs @ ys))"
      by auto
    moreover from this obtain v1 v2 where "v = v1 @ v2" "v1 \<in> lang (cat_list xs)"
      "v2 \<in> lang (cat_list ys)"
      using Cons by blast
    ultimately have "w = (u @ v1) @ v2 \<and> u @ v1 \<in> lang (cat_list (r # xs)) \<and> v2 \<in> lang (cat_list ys)"
      by auto
    then show "\<exists>u v. w = u @ v \<and> u \<in> lang (cat_list (r # xs)) \<and> v \<in> lang (cat_list ys)"
      by blast
  next
    assume "\<exists>u v. w = u @ v \<and> u \<in> lang (cat_list (r # xs)) \<and> v \<in> lang (cat_list ys)"
    then obtain u v where "w = u @ v" "u \<in> lang (cat_list (r # xs))" "v \<in> lang (cat_list ys)"
      by blast
    moreover from this obtain u1 u2 where "u = u1 @ u2" "u1 \<in> lang r" "u2 \<in> lang (cat_list xs)"
      by auto
    ultimately have "w = u1 @ (u2 @ v) \<and> u1 \<in> lang r \<and> u2 @ v \<in> lang (cat_list (xs @ ys))"
      using Cons by auto
    then show "w \<in> lang (cat_list ((r # xs) @ ys))"
      by (simp del: append_assoc) blast
  qed
qed

lemma in_lang_Cat: "w \<in> lang (Cat r s) \<longleftrightarrow> (\<exists>u v. w = u @ v \<and> u \<in> lang r \<and> v \<in> lang s)"
  by simp

lemma in_lang_Eps: "w \<in> lang Eps \<longleftrightarrow> w = []"
  by simp

lemma lang_single: "w \<in> lang (cat_list [r]) \<longleftrightarrow> w \<in> lang r"
  by simp

lemma number_tight:
  assumes "n \<in> lang (cat_list number_re)"
  shows "n \<noteq> [] \<and> \<not> is_space (hd n) \<and> \<not> is_space (last n)"
proof -
  from assms obtain s d p f where n: "n = s @ d @ p @ f"
    and s: "s = [] \<or> s = [45]" and d: "d \<noteq> []" "\<forall>c\<in>set d. is_digit c"
    and p: "p = [] \<or> p = [46]" and f: "\<forall>c\<in>set f. is_digit c"
    unfolding number_re_def
    by (auto simp: in_lang_Cat in_lang_Eps lang_Maybe_Chr lang_Some1_Sym lang_Many_Sym
        simp del: lang.simps)
  have 45: "\<not> is_space 45" and 46: "\<not> is_space 46" by (simp_all add: is_space_def)
  from d have hd_d: "\<not> is_space (hd d)" and last_d: "\<not> is_space (last d)"
    by (simp_all add: digit_not_space)
  have "\<not> is_space (hd n)"
    using s d(1) hd_d 45 by (auto simp: n)
  moreover have "\<not> is_space (last n)"
  proof (cases "f = []")
    case True
    then show ?thesis using p d(1) last_d 46 by (auto simp: n)
  next
    case False
    then have "last n = last f" by (simp add: n)
    with False f show ?thesis by (simp add: digit_not_space)
  qed
  ultimately show ?thesis using d(1) by (simp add: n)
qed


lemma cat_appendD:
  "w \<in> lang (cat_list (xs @ ys)) \<Longrightarrow>
     \<exists>u v. w = u @ v \<and> u \<in> lang (cat_list xs) \<and> v \<in> lang (cat_list ys)"
  by (simp only: lang_cat_append)

lemma cat_appendI:
  "u \<in> lang (cat_list xs) \<Longrightarrow> v \<in> lang (cat_list ys) \<Longrightarrow> u @ v \<in> lang (cat_list (xs @ ys))"
  unfolding lang_cat_append by blast

lemma coord_shape:
  assumes "q \<in> lang COORD_RE"
  shows "\<exists>a m b. q = a @ m @ b \<and> (\<forall>c\<in>set a. is_space c) \<and> (\<forall>c\<in>set b. is_space c) \<and>
           m \<noteq> [] \<and> \<not> is_space (hd m) \<and> \<not> is_space (last m) \<and> m \<in> lang COORD_RE"
proof -
  let ?ws = "[Many (Sym Ws)]"
  let ?sep = "[Many (Sym Ws), Sym (Chr 44), Many (Sym Ws)]"
  from assms have "q \<in> lang (cat_list (?ws @ number_re @ ?sep @ number_re @ ?ws))"
    by (simp only: COORD_RE_grouped)
  then obtain a r1 where q1: "q = a @ r1" and a: "a \<in> lang (cat_list ?ws)"
    and r1: "r1 \<in> lang (cat_list (number_re @ ?sep @ number_re @ ?ws))"
    using cat_appendD by blast
  from r1 obtain n1 r2 where q2: "r1 = n1 @ r2" and n1: "n1 \<in> lang (cat_list number_re)"
    and r2: "r2 \<in> lang (cat_list (?sep @ number_re @ ?ws))"
    using cat_appendD by blast
  from r2 obtain mid r3 where q3: "r2 = mid @ r3" and mid: "mid \<in> lang (cat_list ?sep)"
    and r3: "r3 \<in> lang (cat_list (number_re @ ?ws))"
    using cat_appendD by blast
  from r3 obtain n2 b where q4: "r3 = n2 @ b" and n2: "n2 \<in> lang (cat_list number_re)"
    and b: "b \<in> lang (cat_list ?ws)"
    using cat_appendD by blast
  let ?m = "n1 @ mid @ n2"
  have empty: "[] \<in> lang (cat_list ?ws)"
    by (simp add: star_nil)
  have "n2 @ [] \<in> lang (cat_list (number_re @ ?ws))"
    using n2 empty by (rule cat_appendI)
  with mid have "mid @ n2 @ [] \<in> lang (cat_list (?sep @ number_re @ ?ws))"
    by (rule cat_appendI)
  with n1 have "n1 @ mid @ n2 @ [] \<in> lang (cat_list (number_re @ ?sep @ number_re @ ?ws))"
    by (rule cat_appendI)
  with empty have "[] @ n1 @ mid @ n2 @ [] \<in> lang (cat_list (?ws @ number_re @ ?sep @ number_re @ ?ws))"
    by (rule cat_appendI)
  then have m: "?m \<in> lang COORD_RE"
    by (simp add: COORD_RE_grouped del: lang.simps cat_list.simps)
  from number_tight [OF n1] number_tight [OF n2]
  have tight: "?m \<noteq> [] \<and> \<not> is_space (hd ?m) \<and> \<not> is_space (last ?m)"
    by simp
  from a have sa: "\<forall>c\<in>set a. is_space c"
    by (simp add: in_lang_Cat in_lang_Eps lang_Many_Sym del: lang.simps)
  from b have sb: "\<forall>c\<in>set b. is_space c"
    by (simp add: in_lang_Cat in_lang_Eps lang_Many_Sym del: lang.simps)
  have "q = a @ ?m @ b" by (simp add: q1 q2 q3 q4)
  with sa sb tight m show ?thesis by blast
qed

lemma coord_test_trim:
  assumes "regex_test COORD_RE q"
  shows "trim q \<noteq> [] \<and> regex_test COORD_RE (trim q)"
proof -
  from assms have "q \<in> lang COORD_RE" by (simp add: regex_test_lang)
  then obtain a m b where q: "q = a @ m @ b"
    and ab: "\<forall>c\<in>set a. is_space c" "\<forall>c\<in>set b. is_space c"
    and m: "m \<noteq> []" "\<not> is_space (hd m)" "\<not> is_space (last m)" "m \<in> lang COORD_RE"
    using coord_shape by blast
  from ab m(1-3) have "trim q = m" unfolding q by (rule trim_sandwich)
  with m show ?thesis by (simp add: regex_test_lang)
qed

lemma coord_has_comma:
  assumes "q \<in> lang COORD_RE"
  shows "44 \<in> set q"
proof -
  let ?ws = "[Many (Sym Ws)]"
  let ?sep = "[Many (Sym Ws), Sym (Chr 44), Many (Sym Ws)]"
  from assms have "q \<in> lang (cat_list ((?ws @ number_re) @ ?sep @ number_re @ ?ws))"
    by (simp only: COORD_RE_grouped append_assoc)
  then obtain u r where q: "q = u @ r" and "r \<in> lang (cat_list (?sep @ number_re @ ?ws))"
    using cat_appendD by blast
  then obtain mid v where r: "r = mid @ v" and "mid \<in> lang (cat_list ?sep)"
    using cat_appendD by blast
  then have "44 \<in> set mid"
    by (auto simp: in_lang_Cat in_lang_Eps simp del: lang.simps) simp
  then show ?thesis by (simp add: q r)
qed

lemma zip_shape:
  "q \<in> lang ZIP_RE \<longleftrightarrow>
     (\<exists>a d b. q = a @ d @ b \<and> (\<forall>c\<in>set a. is_space c) \<and> (\<forall>c\<in>set b. is_space c) \<and>
        length d = 5 \<and> (\<forall>c\<in>set d. is_digit c))"
  unfolding ZIP_RE_def
  by (simp add: in_lang_Cat in_lang_Eps lang_Many_Sym lang_Repeat_Sym del: lang.simps) blast

section \<open>Input classification\<close>

text \<open>Unfolding the definitions evaluates the matcher on a concrete string.\<close>

lemma Repeat5: "Repeat 5 r = Cat r (Cat r (Cat r (Cat r (Cat r Eps))))"
  by (simp add: numeral_eq_Suc)

lemmas regex_eval = regex_test_def COORD_RE_def ZIP_RE_def Maybe_def Some1_def Repeat5
  is_space_def is_digit_def str_def

lemma coord_not_wordy: "regex_test COORD_RE q \<Longrightarrow> \<not> isWordyQuery q"
  using coord_test_trim [of q] by (simp add: isWordyQuery_def)

lemma zip_member:
  assumes "\<forall>c\<in>set l. is_space c" and "\<forall>c\<in>set r. is_space c"
    and "length d = 5" and "\<forall>c\<in>set d. is_digit c"
  shows "l @ d @ r \<in> lang ZIP_RE"
  unfolding zip_shape using assms by blast

lemma zip_not_wordy:
  assumes "\<forall>c\<in>set l. is_space c" and "\<forall>c\<in>set r. is_space c"
    and "length d = 5" and "\<forall>c\<in>set d. is_digit c"
  shows "regex_test ZIP_RE (l @ d @ r) \<and> \<not> isWordyQuery (l @ d @ r)"
proof -
  have whole: "l @ d @ r \<in> lang ZIP_RE"
    using assms by (rule zip_member)
  from assms(3) have "d \<noteq> []" by auto
  with assms(4) have "\<not> is_space (hd d)" and "\<not> is_space (last d)"
    by (simp_all add: digit_not_space)
  with assms(1,2) \<open>d \<noteq> []\<close> have "trim (l @ d @ r) = d"
    by (intro trim_sandwich)
  moreover have "[] @ d @ [] \<in> lang ZIP_RE"
    using assms(3,4) by (intro zip_member) simp_all
  ultimately have "regex_test ZIP_RE (trim (l @ d @ r))"
    by (simp add: regex_test_lang)
  with whole show ?thesis
    by (simp add: isWordyQuery_def regex_test_lang)
qed

lemma zip_not_coord:
  assumes "length d = 5" and "\<forall>c\<in>set d. is_digit c"
  shows "regex_test ZIP_RE d \<and> \<not> regex_test COORD_RE d"
proof -
  have "[] @ d @ [] \<in> lang ZIP_RE"
    using assms by (intro zip_member) simp_all
  moreover have "44 \<notin> set d"
    using assms(2) by (auto simp: is_digit_def)
  ultimately show ?thesis
    using coord_has_comma [of d] by (auto simp: regex_test_lang)
qed

lemma zip_trim:
  assumes "\<forall>c\<in>set l. is_space c" and "\<forall>c\<in>set r. is_space c"
    and "length d = 5" and "\<forall>c\<in>set d. is_digit c"
  shows "trim (l @ d @ r) = d"
proof -
  from assms(3) have "d \<noteq> []" by auto
  with assms(4) have "\<not> is_space (hd d)" and "\<not> is_space (last d)"
    by (simp_all add: digit_not_space)
  with assms(1,2) \<open>d \<noteq> []\<close> show ?thesis
    by (intro trim_sandwich)
qed

lemma scheduleSuggest_not_wordy:
  assumes "\<not> isWordyQuery q"
  shows "cands (scheduleSuggest q a) = JArr [] \<and> \<not> openSug (scheduleSuggest q a) \<and>
         fetched (scheduleSuggest q a) = fetched a \<and>
         last_timer (scheduleSuggest q a) = last_timer a \<and>
         set (timers (scheduleSuggest q a)) \<subseteq> set (timers a) \<and>
         error (scheduleSuggest q a) = error a"
  using assms by (auto simp: scheduleSuggest_def clearTimeout_def split: option.splits)

lemma number_text_minus:
  "number_text [45] s d f \<longleftrightarrow>
     (s = [] \<or> s = [45]) \<and> d \<noteq> [] \<and> (\<forall>c\<in>set d. is_digit c) \<and>
     (f = [] \<or> (\<exists>e. f = 46 # e \<and> (\<forall>c\<in>set e. is_digit c)))"
proof -
  have s: "(length s = 1 \<and> hd s = 45) \<longleftrightarrow> s = [45]"
    by (cases s) auto
  have f: "(hd f = 46 \<and> list_all is_digit (tl f)) \<or> f = [] \<longleftrightarrow>
      f = [] \<or> (\<exists>e. f = 46 # e \<and> (\<forall>c\<in>set e. is_digit c))"
    by (cases f) (auto simp: list_all_iff)
  show ?thesis
    unfolding number_text_def using s f by (auto simp: list_all_iff)
qed

lemma number_member:
  assumes "number_text [45] s d f"
  shows "s @ d @ f \<in> lang (cat_list number_re)"
proof -
  from assms have s: "s \<in> lang (Maybe (Sym (Chr 45)))"
    and d: "d \<in> lang (Some1 (Sym Dgt))"
    and f: "f = [] \<or> (\<exists>e. f = 46 # e \<and> (\<forall>c\<in>set e. is_digit c))"
    by (auto simp: number_text_minus lang_Maybe_Chr lang_Some1_Sym simp del: lang.simps)
  from f obtain p e where pe: "f = p @ e" "p \<in> lang (Maybe (Sym (Chr 46)))"
    "e \<in> lang (Many (Sym Dgt))"
  proof
    assume "f = []"
    then have "f = [] @ []" "[] \<in> lang (Maybe (Sym (Chr 46)))" "[] \<in> lang (Many (Sym Dgt))"
      by (simp_all add: lang_Maybe_Chr lang_Many_Sym del: lang.simps)
    then show ?thesis by (rule that)
  next
    assume "\<exists>e. f = 46 # e \<and> (\<forall>c\<in>set e. is_digit c)"
    then obtain e where "f = [46] @ e" "\<forall>c\<in>set e. is_digit c" by auto
    then have "f = [46] @ e" "[46] \<in> lang (Maybe (Sym (Chr 46)))" "e \<in> lang (Many (Sym Dgt))"
      by (simp_all add: lang_Maybe_Chr lang_Many_Sym del: lang.simps)
    then show ?thesis by (rule that)
  qed
  have "s @ d @ p @ e @ [] \<in> lang (cat_list number_re)"
    unfolding number_re_def cat_list.simps in_lang_Cat in_lang_Eps
    using s d pe(2,3) by blast
  then show ?thesis by (simp add: pe(1))
qed

lemma separator_member:
  assumes "\<forall>c\<in>set w2. is_space c" and "\<forall>c\<in>set w3. is_space c"
  shows "w2 @ [44] @ w3 \<in> lang (cat_list [Many (Sym Ws), Sym (Chr 44), Many (Sym Ws)])"
proof -
  from assms have "w2 \<in> lang (Many (Sym Ws))" "w3 \<in> lang (Many (Sym Ws))"
    by (simp_all add: lang_Many_Sym del: lang.simps)
  moreover have "[44] \<in> lang (Sym (Chr 44))" by simp
  ultimately have "w2 @ [44] @ w3 @ [] \<in> lang (cat_list [Many (Sym Ws), Sym (Chr 44), Many (Sym Ws)])"
    unfolding cat_list.simps in_lang_Cat in_lang_Eps by blast
  then show ?thesis by simp
qed

lemma spaces_member:
  assumes "\<forall>c\<in>set w. is_space c"
  shows "w \<in> lang (cat_list [Many (Sym Ws)])"
  using assms by (simp add: in_lang_Cat in_lang_Eps lang_Many_Sym del: lang.simps)

lemma coord_member:
  assumes "\<forall>c\<in>set w1. is_space c" and "\<forall>c\<in>set w2. is_space c"
    and "\<forall>c\<in>set w3. is_space c" and "\<forall>c\<in>set w4. is_space c"
    and "number_text [45] s1 d1 f1" and "number_text [45] s2 d2 f2"
  shows "w1 @ (s1 @ d1 @ f1) @ (w2 @ [44] @ w3) @ (s2 @ d2 @ f2) @ w4 \<in> lang COORD_RE"
  unfolding COORD_RE_grouped
  by (intro cat_appendI spaces_member separator_member number_member assms)


lemma number_parts:
  assumes "n \<in> lang (cat_list number_re)"
  shows "\<exists>s d f. n = s @ d @ f \<and> number_text [45] s d f"
proof -
  from assms obtain s d p e where n: "n = s @ d @ p @ e"
    and s: "s = [] \<or> s = [45]" and d: "d \<noteq> []" "\<forall>c\<in>set d. is_digit c"
    and p: "p = [] \<or> p = [46]" and e: "\<forall>c\<in>set e. is_digit c"
    unfolding number_re_def
    by (auto simp: in_lang_Cat in_lang_Eps lang_Maybe_Chr lang_Some1_Sym lang_Many_Sym
        simp del: lang.simps)
  from p show ?thesis
  proof
    assume "p = []"
    then have "n = s @ (d @ e) @ []" by (simp add: n)
    moreover have "number_text [45] s (d @ e) []"
      using s d e by (auto simp: number_text_minus)
    ultimately show ?thesis by blast
  next
    assume "p = [46]"
    then have "n = s @ d @ (46 # e)" by (simp add: n)
    moreover have "number_text [45] s d (46 # e)"
      using s d e by (auto simp: number_text_minus)
    ultimately show ?thesis by blast
  qed
qed

lemma coord_parts:
  assumes "regex_test COORD_RE q"
  shows "\<exists>w1 s1 d1 f1 w2 w3 s2 d2 f2 w4.
           q = w1 @ s1 @ d1 @ f1 @ w2 @ [44] @ w3 @ s2 @ d2 @ f2 @ w4 \<and>
           (\<forall>c\<in>set w1. is_space c) \<and> (\<forall>c\<in>set w2. is_space c) \<and>
           (\<forall>c\<in>set w3. is_space c) \<and> (\<forall>c\<in>set w4. is_space c) \<and>
           number_text [45] s1 d1 f1 \<and> number_text [45] s2 d2 f2"
proof -
  let ?ws = "[Many (Sym Ws)]"
  let ?sep = "[Many (Sym Ws), Sym (Chr 44), Many (Sym Ws)]"
  from assms have "q \<in> lang (cat_list (?ws @ number_re @ ?sep @ number_re @ ?ws))"
    by (simp only: regex_test_lang COORD_RE_grouped)
  then obtain w1 r1 where q1: "q = w1 @ r1" and w1: "w1 \<in> lang (cat_list ?ws)"
    and r1: "r1 \<in> lang (cat_list (number_re @ ?sep @ number_re @ ?ws))"
    using cat_appendD by blast
  from r1 obtain n1 r2 where q2: "r1 = n1 @ r2" and n1: "n1 \<in> lang (cat_list number_re)"
    and r2: "r2 \<in> lang (cat_list (?sep @ number_re @ ?ws))"
    using cat_appendD by blast
  from r2 obtain mid r3 where q3: "r2 = mid @ r3" and mid: "mid \<in> lang (cat_list ?sep)"
    and r3: "r3 \<in> lang (cat_list (number_re @ ?ws))"
    using cat_appendD by blast
  from r3 obtain n2 w4 where q4: "r3 = n2 @ w4" and n2: "n2 \<in> lang (cat_list number_re)"
    and w4: "w4 \<in> lang (cat_list ?ws)"
    using cat_appendD by blast
  from mid obtain w2 w3 where m: "mid = w2 @ [44] @ w3"
    and w23: "\<forall>c\<in>set w2. is_space c" "\<forall>c\<in>set w3. is_space c"
    by (auto simp: in_lang_Cat in_lang_Eps lang_Many_Sym simp del: lang.simps) auto
  from w1 w4 have w14: "\<forall>c\<in>set w1. is_space c" "\<forall>c\<in>set w4. is_space c"
    by (simp_all add: in_lang_Cat in_lang_Eps lang_Many_Sym del: lang.simps)
  from number_parts [OF n1] obtain s1 d1 f1 where
    p1: "n1 = s1 @ d1 @ f1" "number_text [45] s1 d1 f1" by blast
  from number_parts [OF n2] obtain s2 d2 f2 where
    p2: "n2 = s2 @ d2 @ f2" "number_text [45] s2 d2 f2" by blast
  have "q = w1 @ s1 @ d1 @ f1 @ w2 @ [44] @ w3 @ s2 @ d2 @ f2 @ w4"
    by (simp add: q1 q2 q3 q4 m p1 p2)
  with w14 w23 p1(2) p2(2) show ?thesis by blast
qed

text \<open>
  Claim C1, with the sign read as the code reads it. Every input that is a coordinate pair
  in the words of the specification (optional white space, a number, optional white space,
  a comma, optional white space, a number, optional white space, where a number is an
  optional minus sign, digits and an optional decimal part) is classified as a coordinate
  pair and not as a freeform query: \<open>COORD_RE\<close> matches it, the trimmed input, which is
  what \<open>isWordyQuery\<close> tests, is not empty and matches \<open>COORD_RE\<close> too, so \<open>isWordyQuery\<close>
  is false for it and \<open>scheduleSuggest\<close> empties the candidate list, closes the dropdown,
  sets no timeout (no timer id is handed out and no timer is added) and fetches nothing:
  no search is ever sent for that input. By \<open>coord_parts\<close> these inputs are all that
  \<open>COORD_RE\<close> matches.
\<close>

theorem C1_coordinate_pair_is_not_freeform:
  assumes "\<forall>c\<in>set w1. is_space c" and "\<forall>c\<in>set w2. is_space c"
    and "\<forall>c\<in>set w3. is_space c" and "\<forall>c\<in>set w4. is_space c"
    and "number_text [45] s1 d1 f1" and "number_text [45] s2 d2 f2"
    and "q = w1 @ s1 @ d1 @ f1 @ w2 @ [44] @ w3 @ s2 @ d2 @ f2 @ w4"
  shows "regex_test COORD_RE q \<and>
         trim q \<noteq> [] \<and> regex_test COORD_RE (trim q) \<and> \<not> isWordyQuery q \<and>
         cands (scheduleSuggest q a) = JArr [] \<and> \<not> openSug (scheduleSuggest q a) \<and>
         fetched (scheduleSuggest q a) = fetched a \<and>
         last_timer (scheduleSuggest q a) = last_timer a \<and>
         set (timers (scheduleSuggest q a)) \<subseteq> set (timers a)"
proof -
  have "w1 @ (s1 @ d1 @ f1) @ (w2 @ [44] @ w3) @ (s2 @ d2 @ f2) @ w4 \<in> lang COORD_RE"
    using assms(1-6) by (rule coord_member)
  then have m: "regex_test COORD_RE q"
    by (simp add: regex_test_lang assms(7))
  then have "\<not> isWordyQuery q" by (rule coord_not_wordy)
  with m scheduleSuggest_not_wordy [of q a] coord_test_trim [OF m] show ?thesis by simp
qed

text \<open>
  The claim at a padded coordinate pair typed after a freeform query: the pending timeout
  of the freeform query is cleared as well, so nothing is left to fire.
\<close>

theorem C1_witness:
  "regex_test COORD_RE (str '' 40.71, -74.00 '') \<and>
   \<not> isWordyQuery (str '' 40.71, -74.00 '') \<and>
   cands (scheduleSuggest (str '' 40.71, -74.00 '') (scheduleSuggest (str ''New York'') (initial []))) = JArr [] \<and>
   timers (scheduleSuggest (str '' 40.71, -74.00 '') (scheduleSuggest (str ''New York'') (initial []))) = [] \<and>
   fetched (scheduleSuggest (str '' 40.71, -74.00 '') (scheduleSuggest (str ''New York'') (initial []))) = []"
proof -
  have parts: "str '' 40.71, -74.00 '' =
      str '' '' @ [] @ str ''40'' @ str ''.71'' @ [] @ [44] @ str '' '' @ str ''-'' @ str ''74''
        @ str ''.00'' @ str '' ''"
    by (simp add: str_def)
  have n: "number_text [45] [] (str ''40'') (str ''.71'')"
    "number_text [45] (str ''-'') (str ''74'') (str ''.00'')"
    by (simp_all add: number_text_def is_digit_def str_def)
  have sp: "\<forall>c\<in>set (str '' ''). is_space c" "\<forall>c\<in>set []. is_space c"
    by (simp_all add: is_space_def str_def)
  have w: "isWordyQuery (str ''New York'')"
    by (simp add: isWordyQuery_def trim_def regex_eval)
  have t: "timers (scheduleSuggest (str ''New York'') (initial [])) = [(1, str ''New York'')]"
    "typingTimer (scheduleSuggest (str ''New York'') (initial [])) = Some 1"
    "fetched (scheduleSuggest (str ''New York'') (initial [])) = []"
    using w by (simp_all add: scheduleSuggest_def initial_def)
  from C1_coordinate_pair_is_not_freeform [OF sp(1) sp(2) sp(1) sp(1) n parts,
      of "scheduleSuggest (str ''New York'') (initial [])"]
  have c: "regex_test COORD_RE (str '' 40.71, -74.00 '')"
    "\<not> isWordyQuery (str '' 40.71, -74.00 '')"
    "cands (scheduleSuggest (str '' 40.71, -74.00 '') (scheduleSuggest (str ''New York'') (initial []))) = JArr []"
    "fetched (scheduleSuggest (str '' 40.71, -74.00 '') (scheduleSuggest (str ''New York'') (initial []))) = []"
    by (simp_all add: t)
  have "timers (scheduleSuggest (str '' 40.71, -74.00 '') (scheduleSuggest (str ''New York'') (initial []))) = []"
    using c(2) t by (simp add: scheduleSuggest_def clearTimeout_def)
  with c show ?thesis by simp
qed

text \<open>
  The sign of the claim is not any sign: \<open>COORD_RE\<close> has \<^verbatim>\<open>-?\<close>, so a pair whose
  latitude is signed \<^verbatim>\<open>+\<close> (43) is not a coordinate pair for the client. It is a
  freeform query: \<open>scheduleSuggest\<close> sets a timeout for it, and when the timeout fires
  the search request is sent.
\<close>

theorem C1_counterexample:
  "str ''+40.71,-74.00'' =
     [] @ str ''+'' @ str ''40'' @ str ''.71'' @ [] @ [44] @ [] @ str ''-'' @ str ''74'' @ str ''.00'' @ [] \<and>
   number_text [43, 45] (str ''+'') (str ''40'') (str ''.71'') \<and>
   number_text [43, 45] (str ''-'') (str ''74'') (str ''.00'') \<and>
   \<not> regex_test COORD_RE (str ''+40.71,-74.00'') \<and>
   isWordyQuery (str ''+40.71,-74.00'') \<and>
   timers (scheduleSuggest (str ''+40.71,-74.00'') (initial [])) = [(1, str ''+40.71,-74.00'')] \<and>
   fetched (timeout_fires sample_env 1 (scheduleSuggest (str ''+40.71,-74.00'') (initial [])))
     = [str ''/api/locations/search?q=%2B40.71%2C-74.00'']"
proof -
  have parts: "str ''+40.71,-74.00'' =
     [] @ str ''+'' @ str ''40'' @ str ''.71'' @ [] @ [44] @ [] @ str ''-'' @ str ''74'' @ str ''.00'' @ []"
    by (simp add: str_def)
  have n: "number_text [43, 45] (str ''+'') (str ''40'') (str ''.71'')"
    "number_text [43, 45] (str ''-'') (str ''74'') (str ''.00'')"
    by (simp_all add: number_text_def is_digit_def str_def)
  have r: "\<not> regex_test COORD_RE (str ''+40.71,-74.00'')"
    by (simp add: regex_eval)
  have w: "isWordyQuery (str ''+40.71,-74.00'')"
    by (simp add: isWordyQuery_def trim_def regex_eval)
  have t: "scheduleSuggest (str ''+40.71,-74.00'') (initial [])
      = (initial [])\<lparr>timers := [(1, str ''+40.71,-74.00'')], last_timer := 1, typingTimer := Some 1\<rparr>"
    using w by (simp add: scheduleSuggest_def initial_def)
  have e: "encodeURIComponent sample_env (str ''+40.71,-74.00'') = Inr (str ''%2B40.71%2C-74.00'')"
    by (simp add: sample_env_def sample_encode_def unreserved_def is_digit_def str_def)
  have f: "fetched (timeout_fires sample_env 1 (scheduleSuggest (str ''+40.71,-74.00'') (initial [])))
     = [str ''/api/locations/search?q=%2B40.71%2C-74.00'']"
  proof -
    have "fst (searchLocations sample_env (str ''+40.71,-74.00''))
        = [str ''/api/locations/search?q='' @ str ''%2B40.71%2C-74.00'']"
      by (simp add: searchLocations_def request_def e)
    also have "\<dots> = [str ''/api/locations/search?q=%2B40.71%2C-74.00'']"
      by (simp add: str_def)
    finally show ?thesis
      unfolding t by (simp add: timeout_fires_def clearTimeout_def initial_def)
  qed
  from parts n r w t f show ?thesis by simp
qed

text \<open>
  Claim C2. Every string of exactly five digits, with optional white space around it, is
  a ZIP and never a freeform query: \<open>ZIP_RE\<close> matches it, and the trimmed string as well,
  which \<open>COORD_RE\<close> does not match; \<open>isWordyQuery\<close> is false for it, and \<open>scheduleSuggest\<close> empties the candidate list, sets no timeout and fetches nothing,
  so no autocomplete search is sent for it.
\<close>

theorem C2_five_digits_is_zip:
  assumes "\<forall>c\<in>set l. is_space c" and "\<forall>c\<in>set r. is_space c"
    and "length d = 5" and "\<forall>c\<in>set d. is_digit c"
  shows "regex_test ZIP_RE (l @ d @ r) \<and>
         regex_test ZIP_RE (trim (l @ d @ r)) \<and> \<not> regex_test COORD_RE (trim (l @ d @ r)) \<and>
         \<not> isWordyQuery (l @ d @ r) \<and>
         cands (scheduleSuggest (l @ d @ r) a) = JArr [] \<and>
         \<not> openSug (scheduleSuggest (l @ d @ r) a) \<and>
         fetched (scheduleSuggest (l @ d @ r) a) = fetched a \<and>
         last_timer (scheduleSuggest (l @ d @ r) a) = last_timer a \<and>
         set (timers (scheduleSuggest (l @ d @ r) a)) \<subseteq> set (timers a)"
proof -
  from assms have z: "regex_test ZIP_RE (l @ d @ r) \<and> \<not> isWordyQuery (l @ d @ r)"
    by (rule zip_not_wordy)
  from assms have "trim (l @ d @ r) = d"
    by (rule zip_trim)
  with zip_not_coord [OF assms(3,4)]
  have "regex_test ZIP_RE (trim (l @ d @ r)) \<and> \<not> regex_test COORD_RE (trim (l @ d @ r))"
    by simp
  with z scheduleSuggest_not_wordy [of "l @ d @ r" a] show ?thesis by simp
qed

text \<open>The claim at \<^verbatim>\<open>" 10001 "\<close>.\<close>

theorem C2_witness:
  "regex_test ZIP_RE (str '' 10001 '') \<and> \<not> isWordyQuery (str '' 10001 '') \<and>
   cands (scheduleSuggest (str '' 10001 '') (initial [])) = JArr [] \<and>
   fetched (scheduleSuggest (str '' 10001 '') (initial [])) = [] \<and>
   last_timer (scheduleSuggest (str '' 10001 '') (initial [])) = 0"
  using C2_five_digits_is_zip [of "str '' ''" "str '' ''" "str ''10001''" "initial []"]
  by (simp add: str_def is_space_def is_digit_def initial_def)

section \<open>The emoji mapper and the weather card\<close>




text \<open>The weather card on the sample payloads, for every environment and unit.\<close>

lemmas render_defs = render_weather_def render_day_def payload_def resolved_paris_def
  daily_nulls_def daily_without_def member_def element_def opt_element_def get_index_def
  coalesce_def and_then_def call_toFixed_def cannot_read_def nullish_def

lemma render_nulls:
  "render_weather E (payload resolved_paris daily_nulls) unit =
     Inr [JStr (str ''Paris''), JStr (toFixed E (Dbl 49) 2), JStr (toFixed E (Dbl 2) 2),
          JStr emoji_partly, JStr dash, JStr dash, JNum (Dbl 50), JStr dash,
          JStr (str ''2025-10-01''), JStr emoji_rain, JStr dash, JStr dash, JStr dash, JStr dash]"
  by (simp add: render_defs fmtTemp_def fmtWind_def fmtPrecip_def wcToEmoji_def includes_js_def
      str_def enumerate_eq_zip)

lemma render_guarded:
  "render_weather E (payload resolved_paris
      (daily_without [str ''weather_code'', str ''wind_speed_10m_max''])) unit =
     Inr [JStr (str ''Paris''), JStr (toFixed E (Dbl 49) 2), JStr (toFixed E (Dbl 2) 2),
          JStr emoji_partly, JStr dash, JStr dash, JNum (Dbl 50), JStr dash,
          JStr (str ''2025-10-01''), JStr emoji_sun, JStr dash, JStr dash, JStr dash, JStr dash]"
  by (simp add: render_defs fmtTemp_def fmtWind_def fmtPrecip_def wcToEmoji_def includes_js_def
      str_def enumerate_eq_zip)

lemma render_no_latitude:
  "render_weather E (payload [(str ''name'', JStr (str ''Paris''))] daily_nulls) unit =
     Inl (TypeError (str ''Cannot read properties of undefined''))"
  by (simp add: render_defs str_def)

lemma render_null_latitude:
  "render_weather E (payload [(str ''name'', JStr (str ''Paris'')), (str ''latitude'', JNull),
      (str ''longitude'', JNull)] daily_nulls) unit =
     Inl (TypeError (str ''Cannot read properties of null''))"
  by (simp add: render_defs str_def)

lemma render_no_temperature:
  "render_weather E (payload resolved_paris (daily_without [str ''temperature_2m_max''])) unit =
     Inl (TypeError (str ''Cannot read properties of undefined''))"
  by (simp add: render_defs fmtTemp_def fmtWind_def fmtPrecip_def wcToEmoji_def includes_js_def
      str_def enumerate_eq_zip)

lemma render_no_precipitation:
  "render_weather E (payload resolved_paris (daily_without [str ''precipitation_sum''])) unit =
     Inl (TypeError (str ''Cannot read properties of undefined''))"
  by (simp add: render_defs fmtTemp_def fmtWind_def fmtPrecip_def wcToEmoji_def includes_js_def
      str_def enumerate_eq_zip)

text \<open>
  Claim C9. The display formatters are total on missing data: for \<^verbatim>\<open>null\<close> and for
  \<^verbatim>\<open>undefined\<close>, \<open>fmtTemp\<close>, \<open>fmtWind\<close> and \<open>fmtPrecip\<close> each return the placeholder, the
  one-character string U+2014, and none of them throws. A payload whose readings are all
  \<^verbatim>\<open>null\<close> is rendered with the placeholder in their places, and so is a payload without
  the daily series \<^verbatim>\<open>weather_code\<close> and \<^verbatim>\<open>wind_speed_10m_max\<close>, which the card reads
  with \<^verbatim>\<open>?.[i]\<close>. The render still throws a TypeError on absent numeric fields that the
  card reads without that guard, before a formatter is called: a resolved location without
  \<^verbatim>\<open>latitude\<close> (\<^verbatim>\<open>current.resolved.latitude.toFixed(2)\<close>), and daily series without
  \<^verbatim>\<open>temperature_2m_max\<close> or without \<^verbatim>\<open>precipitation_sum\<close>
  (\<^verbatim>\<open>current.data.daily.temperature_2m_max[i]\<close>).
\<close>

theorem C9_absent_fields_crash_rendering:
  "fmtTemp E JNull unit = dash \<and> fmtTemp E JUndefined unit = dash \<and>
   fmtWind E JNull unit = dash \<and> fmtWind E JUndefined unit = dash \<and>
   fmtPrecip E JNull = Inr dash \<and> fmtPrecip E JUndefined = Inr dash \<and>
   dash = [8212] \<and>
   render_weather E (payload resolved_paris daily_nulls) unit =
     Inr [JStr (str ''Paris''), JStr (toFixed E (Dbl 49) 2), JStr (toFixed E (Dbl 2) 2),
          JStr emoji_partly, JStr dash, JStr dash, JNum (Dbl 50), JStr dash,
          JStr (str ''2025-10-01''), JStr emoji_rain, JStr dash, JStr dash, JStr dash, JStr dash] \<and>
   render_weather E (payload resolved_paris
      (daily_without [str ''weather_code'', str ''wind_speed_10m_max''])) unit =
     Inr [JStr (str ''Paris''), JStr (toFixed E (Dbl 49) 2), JStr (toFixed E (Dbl 2) 2),
          JStr emoji_partly, JStr dash, JStr dash, JNum (Dbl 50), JStr dash,
          JStr (str ''2025-10-01''), JStr emoji_sun, JStr dash, JStr dash, JStr dash, JStr dash] \<and>
   render_weather E (payload [(str ''name'', JStr (str ''Paris''))] daily_nulls) unit =
     Inl (TypeError (str ''Cannot read properties of undefined'')) \<and>
   render_weather E (payload [(str ''name'', JStr (str ''Paris'')), (str ''latitude'', JNull),
      (str ''longitude'', JNull)] daily_nulls) unit =
     Inl (TypeError (str ''Cannot read properties of null'')) \<and>
   render_weather E (payload resolved_paris (daily_without [str ''temperature_2m_max''])) unit =
     Inl (TypeError (str ''Cannot read properties of undefined'')) \<and>
   render_weather E (payload resolved_paris (daily_without [str ''precipitation_sum''])) unit =
     Inl (TypeError (str ''Cannot read properties of undefined''))"
proof -
  have formatters:
    "fmtTemp E JNull unit = dash \<and> fmtTemp E JUndefined unit = dash \<and>
     fmtWind E JNull unit = dash \<and> fmtWind E JUndefined unit = dash \<and>
     fmtPrecip E JNull = Inr dash \<and> fmtPrecip E JUndefined = Inr dash \<and>
     dash = [8212]"
    by (simp add: fmtTemp_def fmtWind_def fmtPrecip_def nullish_def dash_def)
  from formatters render_nulls render_guarded render_no_latitude render_null_latitude
    render_no_temperature render_no_precipitation
  show ?thesis by (intro conjI) simp_all
qed

text \<open>A number given to \<open>fmtPrecip\<close> is printed with one digit after the point.\<close>

lemma sample_fmtPrecip: "fmtPrecip sample_env (JNum (Dbl (9 / 4))) = Inr (str ''2.3 mm'')"
  by (simp add: fmtPrecip_def nullish_def sample_env_def sample_toFixed_def Let_def
      show_nat.simps str_def)

section \<open>The sample environment, evaluated\<close>

lemmas sample_defs = sample_env_def sample_fetch_def sample_parse_def sample_ToString_def
  sample_encode_def unreserved_def html_body_def
  weather_body_def weather_json_def nearby_body_def nearby_json_def air_body_def air_json_def
  search_body_def search_json_def empty_detail_body_def bad_format_body_def list_detail_body_def

lemma show_nat_49: "show_nat 49 = str ''49''" "show_nat 2 = str ''2''"
  by (simp_all add: show_nat.simps str_def)

lemma to_str_int:
  assumes "\<bar>k\<bar> < 2 ^ 53"
  shows "to_str E (JNum (Dbl (of_int k))) = show_int k"
proof -
  from assms have "rat_of_int \<bar>k\<bar> < of_int (2 ^ 53)"
    by (simp only: of_int_less_iff)
  then have "\<bar>rat_of_int k\<bar> < 2 ^ 53"
    by simp
  then show ?thesis
    by (simp add: to_str_def num_to_str_def)
qed

lemma to_str_numeral:
  assumes "(numeral n :: int) < 2 ^ 53"
  shows "to_str E (JNum (Dbl (numeral n))) = show_nat (numeral n)"
  using to_str_int [of "numeral n" E] assms by (simp add: show_int_def)

lemma sample_getCurrent:
  "getCurrent sample_env (str ''Paris'') =
     ([str ''/api/weather/current?location=Paris''], Inr weather_json)"
  by (simp add: getCurrent_def request_def handle_def ok_def sample_defs str_def is_digit_def)

lemma sample_nearby:
  "getNearby sample_env (JNum (Dbl 49)) (JNum (Dbl 2)) (JNum (Dbl 1200)) (JNum (Dbl 18)) =
     ([str ''/api/places/nearby?lat=49&lon=2&radius=1200&limit=18''], Inr nearby_json)"
  by (simp add: getNearby_def request_def handle_def ok_def to_str_numeral sample_defs str_def show_nat.simps)

lemma sample_astronomy:
  "getAstronomy sample_env (JNum (Dbl 49)) (JNum (Dbl 2)) =
     ([str ''/api/extras/astronomy?lat=49&lon=2''], Inl (Error (str ''HTTP 502'')))"
  by (simp add: getAstronomy_def request_def handle_def ok_def to_str_numeral sample_defs str_def show_nat.simps)

lemma sample_air:
  "getAir sample_env (JNum (Dbl 49)) (JNum (Dbl 2)) =
     ([str ''/api/extras/air?lat=49&lon=2''], Inr air_json)"
  by (simp add: getAir_def request_def handle_def ok_def to_str_numeral sample_defs str_def show_nat.simps)

lemma sample_coords:
  "opt_prop (opt_prop weather_json (str ''resolved'')) (str ''latitude'') = JNum (Dbl 49)"
  "opt_prop (opt_prop weather_json (str ''resolved'')) (str ''longitude'') = JNum (Dbl 2)"
  by (simp_all add: opt_prop_def nullish_def weather_json_def str_def)

section \<open>Fetching the weather\<close>

lemma trim_empty_iff: "trim s = [] \<longleftrightarrow> (\<forall>c\<in>set s. is_space c)"
proof
  assume "trim s = []"
  then have "\<forall>c\<in>set (dropWhile is_space s). is_space c"
    by (simp add: trim_def)
  then have "dropWhile is_space s = []"
    using hd_dropWhile [of is_space s] by (cases "dropWhile is_space s") auto
  then show "\<forall>c\<in>set s. is_space c"
    by simp
next
  assume "\<forall>c\<in>set s. is_space c"
  then have d: "dropWhile is_space s = []" by simp
  show "trim s = []" unfolding trim_def d by simp
qed

text \<open>
  The handlers of an enrichment fetch write their own state hook only, and a rejected
  fetch writes nothing.
\<close>

lemma settle_keeps:
  "current (settle E lat lon x s) = current s"
  "error (settle E lat lon x s) = error s"
  "fetched (settle E lat lon x s) = fetched s"
  "cands (settle E lat lon x s) = cands s"
  by (cases x; simp split: sum.splits)+

lemma settle_all_keeps:
  "current (foldl (\<lambda>s x. settle E lat lon x s) s order) = current s"
  "error (foldl (\<lambda>s x. settle E lat lon x s) s order) = error s"
  "fetched (foldl (\<lambda>s x. settle E lat lon x s) s order) = fetched s"
  "cands (foldl (\<lambda>s x. settle E lat lon x s) s order) = cands s"
  by (induction order arbitrary: s; simp add: settle_keeps)+

lemma settle_rejected:
  "snd (enrichment E lat lon x) = Inl e \<Longrightarrow> settle E lat lon x s = s"
  by (cases x) simp_all

lemma settle_all_pois:
  "pois (foldl (\<lambda>s x. settle E lat lon x s) s order) =
     (if Nearby \<in> set order then pois (settle E lat lon Nearby s) else pois s)"
proof (induction order arbitrary: s)
  case Nil
  show ?case by simp
next
  case (Cons x order)
  show ?case
    by (cases x) (simp_all add: Cons split: sum.splits)
qed

lemma settle_all_astro:
  "astro (foldl (\<lambda>s x. settle E lat lon x s) s order) =
     (if Astronomy \<in> set order then astro (settle E lat lon Astronomy s) else astro s)"
proof (induction order arbitrary: s)
  case Nil
  show ?case by simp
next
  case (Cons x order)
  show ?case
    by (cases x) (simp_all add: Cons split: sum.splits)
qed

lemma settle_all_air:
  "air (foldl (\<lambda>s x. settle E lat lon x s) s order) =
     (if Air \<in> set order then air (settle E lat lon Air s) else air s)"
proof (induction order arbitrary: s)
  case Nil
  show ?case by simp
next
  case (Cons x order)
  show ?case
    by (cases x) (simp_all add: Cons split: sum.splits)
qed

text \<open>
  Claim C5. When the location is empty or holds white space only, \<open>fetchCurrent\<close> reports
  the validation error \<^verbatim>\<open>Please enter a location\<close> and returns with nothing fetched;
  otherwise the location is non-empty after trimming and \<open>fetchCurrent\<close> is
  \<open>fetchCurrentFor\<close> on the location, so the weather fetch proceeds for such inputs only.
\<close>

theorem C5_blank_location_is_rejected:
  "(if \<forall>c\<in>set (location a). is_space c
    then fetchCurrent E order a = a\<lparr>error := str ''Please enter a location''\<rparr> \<and>
         fetched (fetchCurrent E order a) = fetched a
    else trim (location a) \<noteq> [] \<and>
         fetchCurrent E order a = fetchCurrentFor E order (location a) a)"
  by (simp add: fetchCurrent_def trim_empty_iff)

text \<open>
  The claim at a location of a space, a tab and a no-break space, and at \<^verbatim>\<open>Paris\<close>, for
  which the weather and the three enrichments are fetched.
\<close>

theorem C5_witness:
  "fetchCurrent sample_env [Nearby, Astronomy, Air] (initial [32, 9, 160])
     = (initial [32, 9, 160])\<lparr>error := str ''Please enter a location''\<rparr> \<and>
   fetched (fetchCurrent sample_env [Nearby, Astronomy, Air] (initial [32, 9, 160])) = [] \<and>
   fetched (fetchCurrent sample_env [Nearby, Astronomy, Air] (initial (str ''Paris'')))
     = [str ''/api/weather/current?location=Paris'',
        str ''/api/places/nearby?lat=49&lon=2&radius=1200&limit=18'',
        str ''/api/extras/astronomy?lat=49&lon=2'',
        str ''/api/extras/air?lat=49&lon=2'']"
proof -
  have blank: "\<forall>c\<in>set (location (initial [32, 9, 160])). is_space c"
    by (simp add: initial_def is_space_def)
  have paris: "\<not> (\<forall>c\<in>set (location (initial (str ''Paris''))). is_space c)"
    by (simp add: initial_def is_space_def str_def)
  have run: "fetched (fetchCurrentFor sample_env [Nearby, Astronomy, Air] (str ''Paris'') (initial (str ''Paris'')))
     = [str ''/api/weather/current?location=Paris'',
        str ''/api/places/nearby?lat=49&lon=2&radius=1200&limit=18'',
        str ''/api/extras/astronomy?lat=49&lon=2'',
        str ''/api/extras/air?lat=49&lon=2'']"
    by (simp add: fetchCurrentFor_def Let_def sample_getCurrent sample_coords nullish_def
        settle_all_keeps sample_nearby sample_astronomy sample_air initial_def)
  from C5_blank_location_is_rejected [of "initial [32, 9, 160]" sample_env "[Nearby, Astronomy, Air]",
      unfolded if_P [OF blank]]
  have rejected: "fetchCurrent sample_env [Nearby, Astronomy, Air] (initial [32, 9, 160])
       = (initial [32, 9, 160])\<lparr>error := str ''Please enter a location''\<rparr> \<and>
     fetched (fetchCurrent sample_env [Nearby, Astronomy, Air] (initial [32, 9, 160]))
       = fetched (initial [32, 9, 160])"
    .
  from C5_blank_location_is_rejected [of "initial (str ''Paris'')" sample_env "[Nearby, Astronomy, Air]",
      unfolded if_not_P [OF paris]]
  have "fetchCurrent sample_env [Nearby, Astronomy, Air] (initial (str ''Paris''))
       = fetchCurrentFor sample_env [Nearby, Astronomy, Air] (location (initial (str ''Paris'')))
           (initial (str ''Paris''))"
    by (rule conjunct2)
  moreover have "location (initial (str ''Paris'')) = str ''Paris''"
    by (simp add: initial_def)
  ultimately have "fetched (fetchCurrent sample_env [Nearby, Astronomy, Air] (initial (str ''Paris'')))
     = [str ''/api/weather/current?location=Paris'',
        str ''/api/places/nearby?lat=49&lon=2&radius=1200&limit=18'',
        str ''/api/extras/astronomy?lat=49&lon=2'',
        str ''/api/extras/air?lat=49&lon=2'']"
    using run by simp
  moreover have "fetched (initial [32, 9, 160]) = []"
    by (simp add: initial_def)
  ultimately show ?thesis
    using rejected by simp
qed

text \<open>
  Claim C3. After \<open>getCurrent\<close> has succeeded with coordinates, whatever the order in
  which the three enrichment fetches settle: a rejected fetch leaves the whole state as it
  was (its \<^verbatim>\<open>catch\<close> handler does nothing); \<open>current\<close> is the weather result and \<open>error\<close>
  is empty whatever the three fetches do; and each of \<open>pois\<close>, \<open>astro\<close> and \<open>air\<close> ends
  as its own fetch alone would set it, so no fetch affects the other two.
\<close>

theorem C3_enrichment_failures_are_isolated:
  assumes cur: "snd (getCurrent E loc) = Inr j"
    and lat: "lat = opt_prop (opt_prop j (str ''resolved'')) (str ''latitude'')"
    and lon: "lon = opt_prop (opt_prop j (str ''resolved'')) (str ''longitude'')"
    and coords: "\<not> nullish lat" "\<not> nullish lon"
    and all: "set order = {Nearby, Astronomy, Air}"
  shows "(\<forall>x s. (\<exists>e. snd (enrichment E lat lon x) = Inl e) \<longrightarrow> settle E lat lon x s = s) \<and>
         current (fetchCurrentFor E order loc a) = j \<and>
         error (fetchCurrentFor E order loc a) = [] \<and>
         pois (fetchCurrentFor E order loc a) = pois (settle E lat lon Nearby a) \<and>
         astro (fetchCurrentFor E order loc a) = astro (settle E lat lon Astronomy a) \<and>
         air (fetchCurrentFor E order loc a) = air (settle E lat lon Air a)"
proof -
  define b where "b = a\<lparr>error := [], fetched := fetched a @ fst (getCurrent E loc), current := j,
    fetched := fetched a @ fst (getCurrent E loc) @ fst (enrichment E lat lon Nearby)
      @ fst (enrichment E lat lon Astronomy) @ fst (enrichment E lat lon Air)\<rparr>"
  have run: "fetchCurrentFor E order loc a = foldl (\<lambda>s x. settle E lat lon x s) b order"
    using cur coords by (simp add: fetchCurrentFor_def Let_def b_def flip: lat lon)
  have absorbed: "\<forall>x s. (\<exists>e. snd (enrichment E lat lon x) = Inl e) \<longrightarrow> settle E lat lon x s = s"
    using settle_rejected by blast
  have "current b = j" and "error b = []"
    by (simp_all add: b_def)
  then have primary: "current (fetchCurrentFor E order loc a) = j"
    "error (fetchCurrentFor E order loc a) = []"
    by (simp_all add: run settle_all_keeps)
  have "pois (settle E lat lon Nearby b) = pois (settle E lat lon Nearby a)"
    by (simp add: b_def split: sum.splits)
  then have p: "pois (fetchCurrentFor E order loc a) = pois (settle E lat lon Nearby a)"
    by (simp add: run settle_all_pois all)
  have "astro (settle E lat lon Astronomy b) = astro (settle E lat lon Astronomy a)"
    by (simp add: b_def split: sum.splits)
  then have s: "astro (fetchCurrentFor E order loc a) = astro (settle E lat lon Astronomy a)"
    by (simp add: run settle_all_astro all)
  have "air (settle E lat lon Air b) = air (settle E lat lon Air a)"
    by (simp add: b_def split: sum.splits)
  then have r: "air (fetchCurrentFor E order loc a) = air (settle E lat lon Air a)"
    by (simp add: run settle_all_air all)
  from absorbed primary p s r show ?thesis by (intro conjI)
qed

text \<open>
  The claim in the sample environment, where the astronomy request is answered by a 502:
  the weather stays, no error is shown, and the places and the air quality arrive.
\<close>

theorem C3_witness:
  "snd (enrichment sample_env (JNum (Dbl 49)) (JNum (Dbl 2)) Astronomy) = Inl (Error (str ''HTTP 502'')) \<and>
   current (fetchCurrentFor sample_env [Air, Astronomy, Nearby] (str ''Paris'') (initial [])) = weather_json \<and>
   error (fetchCurrentFor sample_env [Air, Astronomy, Nearby] (str ''Paris'') (initial [])) = [] \<and>
   pois (fetchCurrentFor sample_env [Air, Astronomy, Nearby] (str ''Paris'') (initial []))
     = JArr [JObj [(str ''name'', JStr (str ''Louvre''))]] \<and>
   astro (fetchCurrentFor sample_env [Air, Astronomy, Nearby] (str ''Paris'') (initial [])) = JNull \<and>
   air (fetchCurrentFor sample_env [Air, Astronomy, Nearby] (str ''Paris'') (initial [])) = air_json"
proof -
  have cur: "snd (getCurrent sample_env (str ''Paris'')) = Inr weather_json"
    by (simp add: sample_getCurrent)
  have all: "set [Air, Astronomy, Nearby] = {Nearby, Astronomy, Air}"
    by auto
  have items: "get_prop nearby_json (str ''items'') = JArr [JObj [(str ''name'', JStr (str ''Louvre''))]]"
    by (simp add: nearby_json_def str_def)
  from C3_enrichment_failures_are_isolated
    [OF cur sample_coords(1) [symmetric] sample_coords(2) [symmetric] _ _ all, of "initial []"]
  show ?thesis
    by (simp add: nullish_def sample_nearby sample_astronomy sample_air initial_def items
        nearby_json_def air_json_def)
qed

section \<open>The candidate list\<close>

lemma at_most_8_empty: "at_most_8 (JArr [])"
  by (simp add: at_most_8_def)

lemma slice_0_8_shape:
  "slice_0_8 res = Inr c \<Longrightarrow> at_most_8 c \<or> (\<exists>s. c = JStr s \<and> length s \<le> 8)"
  by (cases res) (auto simp: slice_0_8_def at_most_8_def)

lemma search_settles_shape:
  "at_most_8 (cands (search_settles E q a)) \<or>
   (\<exists>s. cands (search_settles E q a) = JStr s \<and> length s \<le> 8)"
  using slice_0_8_shape
  by (auto simp: search_settles_def at_most_8_empty split: sum.splits)

lemma scheduleSuggest_cands:
  "cands (scheduleSuggest q a) = (if isWordyQuery q then cands a else JArr [])"
  by (simp add: scheduleSuggest_def clearTimeout_def Let_def split: option.splits)

lemma timeout_fires_cands: "cands (timeout_fires E t a) = cands a"
  by (simp add: timeout_fires_def clearTimeout_def split: option.splits)

lemma fetchCurrentFor_cands: "cands (fetchCurrentFor E order loc a) = cands a"
  by (simp add: fetchCurrentFor_def Let_def settle_all_keeps split: sum.splits)

lemma fetchCurrent_cands: "cands (fetchCurrent E order a) = cands a"
  by (simp add: fetchCurrent_def fetchCurrentFor_cands)

lemma chooseCand_cands: "cands (chooseCand E order c autoFetch a) = JArr []"
  by (simp add: chooseCand_def Let_def fetchCurrentFor_cands)

lemma reachable_cands_shape:
  "reachable a \<Longrightarrow> at_most_8 (cands a) \<or> (\<exists>s. cands a = JStr s \<and> length s \<le> 8)"
proof (induction rule: reachable.induct)
  case (start stored)
  show ?case by (simp add: initial_def at_most_8_empty)
next
  case (typed a v)
  then show ?case by (simp add: scheduleSuggest_cands at_most_8_empty)
next
  case (fired a E t)
  then show ?case by (simp add: timeout_fires_cands)
next
  case (settled a E q)
  show ?case by (rule search_settles_shape)
next
  case (chosen a E order c autoFetch)
  show ?case by (simp add: chooseCand_cands at_most_8_empty)
next
  case (weather a E order)
  then show ?case by (simp add: fetchCurrent_cands)
qed

lemma search_text:
  assumes "encodeURIComponent E q = Inr u"
    and "fetch E (str ''/api/locations/search?q='' @ u) = Inr r"
    and "ok r" and "JSON_parse E (body r) = Inl e"
  shows "snd (searchLocations E q) = Inr (JStr (body r))"
  using assms by (simp add: searchLocations_def request_def handle_def)

text \<open>
  Claim C6, with what \<^verbatim>\<open>slice\<close> returns for a string. In every state the handlers
  can produce, \<open>cands\<close> holds at most 8 entries: it is an array of at most 8 elements or
  a string of at most 8 code units. It is the empty array at first and after
  \<open>chooseCand\<close>, the first 8 elements of the array a search returns, and the first 8
  code units of the string a search returns, which \<open>handle\<close> makes of every 2xx body
  that is not JSON; the dropdown is then open unless the array or the string is empty. A
  search that returns any other value, a search that fails, and an input that is not a
  freeform query, give the empty array with the dropdown closed; \<open>error\<close> is not
  touched.
\<close>

theorem C6_candidates_at_most_8:
  "(reachable a \<longrightarrow> at_most_8 (cands a) \<or> (\<exists>s. cands a = JStr s \<and> length s \<le> 8)) \<and>
   cands (initial stored) = JArr [] \<and>
   (snd (searchLocations E q) = Inr (JArr xs) \<longrightarrow>
      cands (search_settles E q a) = JArr (take 8 xs) \<and>
      openSug (search_settles E q a) = (xs \<noteq> [])) \<and>
   (snd (searchLocations E q) = Inr (JStr s) \<longrightarrow>
      cands (search_settles E q a) = JStr (take 8 s) \<and>
      openSug (search_settles E q a) = (s \<noteq> [])) \<and>
   (encodeURIComponent E q = Inr u \<and> fetch E (str ''/api/locations/search?q='' @ u) = Inr r \<and>
    ok r \<and> JSON_parse E (body r) = Inl e \<longrightarrow>
      snd (searchLocations E q) = Inr (JStr (body r))) \<and>
   (snd (searchLocations E q) = Inr v \<and> (\<forall>ys. v \<noteq> JArr ys) \<and> (\<forall>t. v \<noteq> JStr t) \<longrightarrow>
      search_settles E q a = a\<lparr>cands := JArr [], openSug := False\<rparr>) \<and>
   cands (chooseCand E order c autoFetch a) = JArr [] \<and>
   ((\<exists>e. snd (searchLocations E q) = Inl e) \<longrightarrow>
      search_settles E q a = a\<lparr>cands := JArr [], openSug := False\<rparr>) \<and>
   (\<not> isWordyQuery q \<longrightarrow>
      cands (scheduleSuggest q a) = JArr [] \<and> \<not> openSug (scheduleSuggest q a) \<and>
      error (scheduleSuggest q a) = error a)"
proof -
  have inv: "reachable a \<longrightarrow> at_most_8 (cands a) \<or> (\<exists>s. cands a = JStr s \<and> length s \<le> 8)"
    using reachable_cands_shape by blast
  have sliced: "snd (searchLocations E q) = Inr (JArr xs) \<longrightarrow>
      cands (search_settles E q a) = JArr (take 8 xs) \<and>
      openSug (search_settles E q a) = (xs \<noteq> [])"
    by (simp add: search_settles_def slice_0_8_def length_positive_def)
  have strg: "snd (searchLocations E q) = Inr (JStr s) \<longrightarrow>
      cands (search_settles E q a) = JStr (take 8 s) \<and>
      openSug (search_settles E q a) = (s \<noteq> [])"
    by (simp add: search_settles_def slice_0_8_def length_positive_def)
  have fallback: "encodeURIComponent E q = Inr u \<and>
      fetch E (str ''/api/locations/search?q='' @ u) = Inr r \<and>
      ok r \<and> JSON_parse E (body r) = Inl e \<longrightarrow>
      snd (searchLocations E q) = Inr (JStr (body r))"
    using search_text by blast
  have other: "snd (searchLocations E q) = Inr v \<and> (\<forall>ys. v \<noteq> JArr ys) \<and> (\<forall>t. v \<noteq> JStr t) \<longrightarrow>
      search_settles E q a = a\<lparr>cands := JArr [], openSug := False\<rparr>"
    by (cases v) (simp_all add: search_settles_def slice_0_8_def)
  have failed: "(\<exists>e. snd (searchLocations E q) = Inl e) \<longrightarrow>
      search_settles E q a = a\<lparr>cands := JArr [], openSug := False\<rparr>"
    by (auto simp: search_settles_def)
  have closed: "\<not> isWordyQuery q \<longrightarrow>
      cands (scheduleSuggest q a) = JArr [] \<and> \<not> openSug (scheduleSuggest q a) \<and>
      error (scheduleSuggest q a) = error a"
    using scheduleSuggest_not_wordy [of q a] by simp
  have first: "cands (initial stored) = JArr []"
    by (simp add: initial_def)
  from inv first sliced strg fallback other chooseCand_cands failed closed show ?thesis
    by (intro conjI)
qed


lemma sample_search:
  "searchLocations sample_env (str ''Par'') = ([str ''/api/locations/search?q=Par''], Inr search_json)"
  "searchLocations sample_env (str ''zzz'') =
     ([str ''/api/locations/search?q=zzz''], Inl (Error (str ''Internal Server Error'')))"
  "searchLocations sample_env (str ''Lyon'') =
     ([str ''/api/locations/search?q=Lyon''], Inr (JStr html_body))"
  by (simp_all add: searchLocations_def request_def handle_def ok_def sample_defs str_def is_digit_def)

text \<open>
  The claim in the sample environment: a search answered by nine entries leaves eight, a
  search answered by a 500 empties the list, and so does typing a ZIP; a search answered
  by a page of HTML leaves its first 8 code units.
\<close>

theorem C6_witness:
  "reachable (search_settles sample_env (str ''Par'') (initial [])) \<and>
   cands (search_settles sample_env (str ''Par'') (initial []))
     = JArr (map (\<lambda>k. JNum (Dbl (of_int k))) [1, 2, 3, 4, 5, 6, 7, 8]) \<and>
   at_most_8 (cands (search_settles sample_env (str ''Par'') (initial []))) \<and>
   search_settles sample_env (str ''zzz'') (search_settles sample_env (str ''Par'') (initial []))
     = (search_settles sample_env (str ''Par'') (initial []))\<lparr>cands := JArr [], openSug := False\<rparr> \<and>
   cands (scheduleSuggest (str ''10001'') (search_settles sample_env (str ''Par'') (initial []))) = JArr [] \<and>
   cands (search_settles sample_env (str ''Lyon'') (initial [])) = JStr (str ''<!doctyp'')"
proof -
  let ?a = "search_settles sample_env (str ''Par'') (initial [])"
  let ?c = "\<lparr>name = [], latitude = NaN, longitude = NaN\<rparr>"
  have r: "reachable ?a"
    by (intro reachable.settled reachable.start)
  have ok: "snd (searchLocations sample_env (str ''Par''))
      = Inr (JArr (map (\<lambda>k. JNum (Dbl (of_int k))) [1, 2, 3, 4, 5, 6, 7, 8, 9]))"
    by (simp add: sample_search search_json_def)
  have bad: "\<exists>e. snd (searchLocations sample_env (str ''zzz'')) = Inl e"
    by (simp add: sample_search)
  have page: "snd (searchLocations sample_env (str ''Lyon'')) = Inr (JStr html_body)"
    by (simp add: sample_search)
  have zip: "\<not> isWordyQuery (str ''10001'')"
    by (simp add: isWordyQuery_def trim_def regex_eval)
  from C6_candidates_at_most_8 [of "initial []" "[]" sample_env "str ''Par''"
      "map (\<lambda>k. JNum (Dbl (of_int k))) [1, 2, 3, 4, 5, 6, 7, 8, 9]"] ok
  have 2: "cands ?a = JArr (map (\<lambda>k. JNum (Dbl (of_int k))) [1, 2, 3, 4, 5, 6, 7, 8])"
    by simp
  from C6_candidates_at_most_8 [of ?a "[]" sample_env "str ''zzz''"] r bad
  have 1: "at_most_8 (cands ?a) \<or> (\<exists>s. cands ?a = JStr s \<and> length s \<le> 8)"
    "search_settles sample_env (str ''zzz'') ?a = ?a\<lparr>cands := JArr [], openSug := False\<rparr>"
    by blast+
  from 1(1) 2 have 4: "at_most_8 (cands ?a)"
    by auto
  from C6_candidates_at_most_8 [of ?a "[]" sample_env "str ''10001''"] zip
  have 3: "cands (scheduleSuggest (str ''10001'') ?a) = JArr []"
    by blast
  from C6_candidates_at_most_8 [of "initial []" "[]" sample_env "str ''Lyon''" "[]" html_body] page
  have "cands (search_settles sample_env (str ''Lyon'') (initial [])) = JStr (take 8 html_body)"
    by blast
  then have 5: "cands (search_settles sample_env (str ''Lyon'') (initial [])) = JStr (str ''<!doctyp'')"
    by (simp add: html_body_def str_def)
  from r 2 4 1(2) 3 5 show ?thesis by (intro conjI)
qed

text \<open>
  The candidate list is not always a list. The user types \<^verbatim>\<open>Lyon\<close>, the timeout
  fires and the search is answered with status 200 and a page of HTML: \<open>handle\<close> returns
  the body text, \<^verbatim>\<open>res.slice(0,8)\<close> is a string, and \<open>cands\<close> holds it with the
  dropdown open.
\<close>

theorem C6_counterexample:
  "reachable (search_settles sample_env (str ''Lyon'') (timeout_fires sample_env 1
     (scheduleSuggest (str ''Lyon'') ((initial [])\<lparr>location := str ''Lyon''\<rparr>)))) \<and>
   cands (search_settles sample_env (str ''Lyon'') (timeout_fires sample_env 1
     (scheduleSuggest (str ''Lyon'') ((initial [])\<lparr>location := str ''Lyon''\<rparr>))))
     = JStr (str ''<!doctyp'') \<and>
   openSug (search_settles sample_env (str ''Lyon'') (timeout_fires sample_env 1
     (scheduleSuggest (str ''Lyon'') ((initial [])\<lparr>location := str ''Lyon''\<rparr>)))) \<and>
   fetched (search_settles sample_env (str ''Lyon'') (timeout_fires sample_env 1
     (scheduleSuggest (str ''Lyon'') ((initial [])\<lparr>location := str ''Lyon''\<rparr>))))
     = [str ''/api/locations/search?q=Lyon''] \<and>
   \<not> at_most_8 (cands (search_settles sample_env (str ''Lyon'') (timeout_fires sample_env 1
     (scheduleSuggest (str ''Lyon'') ((initial [])\<lparr>location := str ''Lyon''\<rparr>)))))"
proof -
  let ?a1 = "scheduleSuggest (str ''Lyon'') ((initial [])\<lparr>location := str ''Lyon''\<rparr>)"
  let ?a2 = "timeout_fires sample_env 1 ?a1"
  let ?a3 = "search_settles sample_env (str ''Lyon'') ?a2"
  have r: "reachable ?a3"
    by (intro reachable.settled reachable.fired reachable.typed reachable.start)
  have w: "isWordyQuery (str ''Lyon'')"
    by (simp add: isWordyQuery_def trim_def regex_eval)
  have t: "timers ?a1 = [(1, str ''Lyon'')]" "fetched ?a1 = []"
    using w by (simp_all add: scheduleSuggest_def initial_def)
  have f: "fetched ?a2 = [str ''/api/locations/search?q=Lyon'']"
    by (simp add: timeout_fires_def clearTimeout_def t sample_search)
  have h: "html_body \<noteq> []" "take 8 html_body = str ''<!doctyp''"
    by (simp_all add: html_body_def str_def)
  have "?a3 = ?a2\<lparr>cands := JStr (take 8 html_body), openSug := True\<rparr>"
    by (simp add: search_settles_def sample_search slice_0_8_def length_positive_def h(1))
  then have c: "cands ?a3 = JStr (str ''<!doctyp'')" "openSug ?a3" "fetched ?a3 = fetched ?a2"
    by (simp_all add: h(2))
  from c(1) have n: "\<not> at_most_8 (cands ?a3)"
    by (simp add: at_most_8_def)
  from r c f n show ?thesis by simp
qed

section \<open>Error text\<close>

text \<open>
  \<open>match_braces\<close> finds the leftmost match of the pattern and the longest one from
  there: no \<^verbatim>\<open>{\<close> stands before it and no \<^verbatim>\<open>}\<close> after it; and it finds nothing only
  when no part of the string matches.
\<close>

lemma braces_shape: "m \<in> lang BRACES_RE \<longleftrightarrow> (\<exists>mid. m = 123 # mid @ [125])"
proof
  assume "m \<in> lang BRACES_RE"
  then show "\<exists>mid. m = 123 # mid @ [125]"
    unfolding BRACES_RE_def by auto
next
  assume "\<exists>mid. m = 123 # mid @ [125]"
  then obtain mid where m: "m = [123] @ mid @ [125] @ []" by auto
  have "[123] \<in> lang (Sym (Chr 123))" and "[125] \<in> lang (Sym (Chr 125))" by simp_all
  moreover have "mid \<in> lang (Many (Sym AnyChar))"
    by (simp add: lang_Many_Sym del: lang.simps)
  ultimately show "m \<in> lang BRACES_RE"
    unfolding BRACES_RE_def m cat_list.simps in_lang_Cat in_lang_Eps by blast
qed

lemma dropWhile_keeps_suffix:
  "\<not> P y \<Longrightarrow> \<exists>u. dropWhile P (xs @ y # ys) = u @ y # ys"
proof (induction xs)
  case Nil
  then show ?case by simp
next
  case (Cons x xs)
  then obtain u where u: "dropWhile P (xs @ y # ys) = u @ y # ys" by blast
  show ?case
  proof (cases "P x")
    case True
    with u show ?thesis by simp
  next
    case False
    then have "dropWhile P ((x # xs) @ y # ys) = (x # xs) @ y # ys" by simp
    then show ?thesis by blast
  qed
qed

lemma match_braces_Some:
  assumes "match_braces s = Some m"
  shows "\<exists>pre post. s = pre @ m @ post \<and> 123 \<notin> set pre \<and> 125 \<notin> set post \<and>
           regex_test BRACES_RE m"
proof -
  define t where "t = dropWhile (\<lambda>c. c \<noteq> 123) s"
  define pre where "pre = takeWhile (\<lambda>c. c \<noteq> 123) s"
  define post where "post = rev (takeWhile (\<lambda>c. c \<noteq> 125) (rev t))"
  from assms have close: "125 \<in> set t" and m: "m = rev (dropWhile (\<lambda>c. c \<noteq> 125) (rev t))"
    by (simp_all add: match_braces_def t_def Let_def split: if_splits)
  have s: "s = pre @ t"
    by (simp add: pre_def t_def)
  have "rev (takeWhile (\<lambda>c. c \<noteq> 125) (rev t) @ dropWhile (\<lambda>c. c \<noteq> 125) (rev t))
      = rev (dropWhile (\<lambda>c. c \<noteq> 125) (rev t)) @ rev (takeWhile (\<lambda>c. c \<noteq> 125) (rev t))"
    by (rule rev_append)
  then have t: "t = m @ post"
    by (simp only: takeWhile_dropWhile_id rev_rev_ident m post_def)
  have no_open: "123 \<notin> set pre"
    using set_takeWhileD [of 123 "\<lambda>c. c \<noteq> 123" s] by (auto simp: pre_def)
  have no_close: "125 \<notin> set post"
    using set_takeWhileD [of 125 "\<lambda>c. c \<noteq> 125" "rev t"] by (auto simp: post_def)
  from close have "t \<noteq> []" by auto
  then have hd_t: "hd t = 123"
    using hd_dropWhile [of "\<lambda>c. c \<noteq> 123" s] by (simp add: t_def)
  from close have d: "dropWhile (\<lambda>c. c \<noteq> 125) (rev t) \<noteq> []"
    by (simp add: dropWhile_eq_Nil_conv)
  then have "hd (dropWhile (\<lambda>c. c \<noteq> 125) (rev t)) = 125"
    using hd_dropWhile [of "\<lambda>c. c \<noteq> 125" "rev t"] by simp
  with d have last_m: "m \<noteq> []" "last m = 125"
    by (simp_all add: m last_rev)
  with t hd_t have hd_m: "hd m = 123" by simp
  from last_m hd_m obtain rest where "m = 123 # rest" by (cases m) auto
  moreover from this last_m have "rest \<noteq> []" "last rest = 125" by (auto split: if_splits)
  then obtain mid where "rest = mid @ [125]"
    by (metis append_butlast_last_id)
  ultimately have "m = 123 # mid @ [125]" by simp
  then have "regex_test BRACES_RE m"
    unfolding regex_test_lang braces_shape by blast
  with s t no_open no_close show ?thesis by blast
qed

lemma match_braces_None:
  assumes "match_braces s = None"
  shows "\<not> regex_test BRACES_RE m \<or> s \<noteq> pre @ m @ post"
proof (rule ccontr)
  assume "\<not> (\<not> regex_test BRACES_RE m \<or> s \<noteq> pre @ m @ post)"
  then obtain mid where "s = pre @ 123 # (mid @ 125 # post)"
    unfolding regex_test_lang braces_shape by auto
  then obtain u where "dropWhile (\<lambda>c. c \<noteq> 123) s = u @ 123 # (mid @ 125 # post)"
    using dropWhile_keeps_suffix [of "\<lambda>c. c \<noteq> 123" 123 pre "mid @ 125 # post"] by auto
  then have "125 \<in> set (dropWhile (\<lambda>c. c \<noteq> 123) s)" by simp
  with assms show False
    by (simp add: match_braces_def Let_def)
qed

lemma strip_error_prefix_shape:
  "strip_error_prefix (str ''Error:'' @ rest) = dropWhile is_space rest"
  "take 6 s \<noteq> str ''Error:'' \<Longrightarrow> strip_error_prefix s = s"
  by (simp_all add: strip_error_prefix_def str_def)

lemma handle_not_ok:
  "\<not> ok r \<Longrightarrow>
     handle E r = Inl (Error (if body r \<noteq> [] then body r else str ''HTTP '' @ show_nat (status r)))"
  by (simp add: handle_def Let_def split: sum.splits)

lemma handle_ok:
  "ok r \<Longrightarrow>
     handle E r = Inr (case JSON_parse E (body r) of Inr v \<Rightarrow> v | Inl e \<Rightarrow> JStr (body r))"
  by (simp add: handle_def Let_def split: sum.splits)

lemma String_exn_Error: "m \<noteq> [] \<Longrightarrow> String_exn (Error m) = str ''Error: '' @ m"
  by (simp add: Error_def str_def)

lemma match_braces_Error: "match_braces (str ''Error: '' @ m) = match_braces m"
  by (simp add: match_braces_def str_def)

lemma strip_error_prefix_Error: "strip_error_prefix (str ''Error: '' @ m) = dropWhile is_space m"
  by (simp add: strip_error_prefix_def str_def is_space_def)

lemma cleanErr_Error:
  assumes "m \<noteq> []"
  shows "cleanErr E (Error m) =
     (case match_braces m of
        None \<Rightarrow> dropWhile is_space m
      | Some t \<Rightarrow>
          (case JSON_parse E t of
             Inl x \<Rightarrow> dropWhile is_space m
           | Inr j \<Rightarrow>
               if truthy (opt_prop j (str ''detail''))
               then (case opt_prop j (str ''detail'') of
                       JStr d \<Rightarrow> d
                     | _ \<Rightarrow> JSON_stringify E (opt_prop j (str ''detail'')))
               else dropWhile is_space m))"
  using assms
  by (simp add: cleanErr_def String_exn_Error match_braces_Error strip_error_prefix_Error Let_def
      split: option.splits sum.splits)

lemma match_braces_object:
  "match_braces (123 # mid @ [125]) = Some (123 # mid @ [125])"
  by (simp add: match_braces_def)

text \<open>
  Claim C4, as amended. For a response that is not 2xx, \<open>handle\<close> throws an \<^verbatim>\<open>Error\<close>
  whose message \<open>m\<close> is the raw body text, or \<^verbatim>\<open>HTTP\<close> and the status when the body is
  empty, and never resolves. \<open>cleanErr\<close> on that error returns the \<^verbatim>\<open>detail\<close> (a string as
  it is, any other value as \<^verbatim>\<open>JSON.stringify\<close> prints it) when the text from the first
  \<^verbatim>\<open>{\<close> to the last \<^verbatim>\<open>}\<close> of \<open>m\<close> parses as JSON to a value whose \<^verbatim>\<open>detail\<close> is truthy;
  in every other case (no such text, text that does not parse, \<^verbatim>\<open>detail\<close> absent or
  falsy) it returns \<open>m\<close> without its leading white space, which is what stripping the
  \<^verbatim>\<open>Error:\<close> prefix and the white space after it leaves. A message that starts with
  \<^verbatim>\<open>{\<close> and ends with \<^verbatim>\<open>}\<close> is itself the text that is parsed.
\<close>

theorem C4_error_text:
  assumes "\<not> ok r"
    and "m = (if body r \<noteq> [] then body r else str ''HTTP '' @ show_nat (status r))"
  shows "handle E r = Inl (Error m) \<and>
    (\<forall>t j. match_braces m = Some t \<and> JSON_parse E t = Inr j \<and> truthy (opt_prop j (str ''detail''))
       \<longrightarrow> cleanErr E (Error m) =
             (case opt_prop j (str ''detail'') of
                JStr d \<Rightarrow> d
              | _ \<Rightarrow> JSON_stringify E (opt_prop j (str ''detail'')))) \<and>
    (match_braces m = None \<or>
     (\<exists>t. match_braces m = Some t \<and>
        ((\<exists>x. JSON_parse E t = Inl x) \<or>
         (\<exists>j. JSON_parse E t = Inr j \<and> \<not> truthy (opt_prop j (str ''detail'')))))
       \<longrightarrow> cleanErr E (Error m) = dropWhile is_space m) \<and>
    (\<forall>mid. m = 123 # mid @ [125] \<longrightarrow> match_braces m = Some m)"
proof -
  have m: "m \<noteq> []"
    by (simp add: assms(2) show_nat.simps [of "status r"] str_def)
  from assms have thrown: "handle E r = Inl (Error m)"
    by (simp add: handle_not_ok)
  have detail: "\<forall>t j. match_braces m = Some t \<and> JSON_parse E t = Inr j \<and>
      truthy (opt_prop j (str ''detail''))
       \<longrightarrow> cleanErr E (Error m) =
             (case opt_prop j (str ''detail'') of
                JStr d \<Rightarrow> d
              | _ \<Rightarrow> JSON_stringify E (opt_prop j (str ''detail'')))"
    by (simp add: cleanErr_Error [OF m])
  have raw: "match_braces m = None \<or>
     (\<exists>t. match_braces m = Some t \<and>
        ((\<exists>x. JSON_parse E t = Inl x) \<or>
         (\<exists>j. JSON_parse E t = Inr j \<and> \<not> truthy (opt_prop j (str ''detail'')))))
       \<longrightarrow> cleanErr E (Error m) = dropWhile is_space m"
    by (auto simp: cleanErr_Error [OF m])
  have whole: "\<forall>mid. m = 123 # mid @ [125] \<longrightarrow> match_braces m = Some m"
    using match_braces_object by simp
  from thrown detail raw whole show ?thesis by (intro conjI)
qed

lemma sample_parse_details:
  "JSON_parse sample_env empty_detail_body = Inr (JObj [(str ''detail'', JStr [])])"
  "JSON_parse sample_env bad_format_body = Inr (JObj [(str ''detail'', JStr (str ''Unsupported format''))])"
  "JSON_parse sample_env list_detail_body = Inr (JObj [(str ''detail'', JArr [])])"
  by (simp_all add: sample_defs str_def)

lemma sample_braces:
  "match_braces empty_detail_body = Some empty_detail_body"
  "match_braces bad_format_body = Some bad_format_body"
  "match_braces (str ''HTTP 502'') = None"
  "match_braces list_detail_body = Some list_detail_body"
  by (simp_all add: match_braces_def empty_detail_body_def bad_format_body_def list_detail_body_def
      str_def)

text \<open>
  The amended claim at a 400 whose body carries a \<^verbatim>\<open>detail\<close> string, at a 502 with an
  empty body, and at a 422 whose \<^verbatim>\<open>detail\<close> is a list.
\<close>

theorem C4_witness:
  "handle sample_env \<lparr>status = 400, body = bad_format_body\<rparr> = Inl (Error bad_format_body) \<and>
   cleanErr sample_env (Error bad_format_body) = str ''Unsupported format'' \<and>
   handle sample_env \<lparr>status = 502, body = []\<rparr> = Inl (Error (str ''HTTP 502'')) \<and>
   cleanErr sample_env (Error (str ''HTTP 502'')) = str ''HTTP 502'' \<and>
   handle sample_env \<lparr>status = 422, body = list_detail_body\<rparr> = Inl (Error list_detail_body) \<and>
   cleanErr sample_env (Error list_detail_body) = str ''[]''"
proof -
  have invalid: "\<not> ok \<lparr>status = 422, body = list_detail_body\<rparr>"
    by (simp add: ok_def)
  have m3: "list_detail_body = (if body \<lparr>status = 422, body = list_detail_body\<rparr> \<noteq> []
      then body \<lparr>status = 422, body = list_detail_body\<rparr>
      else str ''HTTP '' @ show_nat (status \<lparr>status = 422, body = list_detail_body\<rparr>))"
    by (simp add: list_detail_body_def str_def)
  have l: "truthy (opt_prop (JObj [(str ''detail'', JArr [])]) (str ''detail''))"
    "opt_prop (JObj [(str ''detail'', JArr [])]) (str ''detail'') = JArr []"
    "JSON_stringify sample_env (JArr []) = str ''[]''"
    by (simp_all add: opt_prop_def nullish_def str_def sample_env_def)
  from C4_error_text [OF invalid m3, of sample_env] sample_braces(4) sample_parse_details(3) l
  have 3: "handle sample_env \<lparr>status = 422, body = list_detail_body\<rparr> = Inl (Error list_detail_body)"
    "cleanErr sample_env (Error list_detail_body) = str ''[]''"
    by simp_all
  have bad: "\<not> ok \<lparr>status = 400, body = bad_format_body\<rparr>"
    and down: "\<not> ok \<lparr>status = 502, body = []\<rparr>"
    by (simp_all add: ok_def)
  have m1: "bad_format_body = (if body \<lparr>status = 400, body = bad_format_body\<rparr> \<noteq> []
      then body \<lparr>status = 400, body = bad_format_body\<rparr>
      else str ''HTTP '' @ show_nat (status \<lparr>status = 400, body = bad_format_body\<rparr>))"
    by (simp add: bad_format_body_def str_def)
  have m2: "str ''HTTP 502'' = (if body \<lparr>status = 502, body = []\<rparr> \<noteq> []
      then body \<lparr>status = 502, body = []\<rparr>
      else str ''HTTP '' @ show_nat (status \<lparr>status = 502, body = []\<rparr>))"
    by (simp add: show_nat.simps str_def)
  have t: "truthy (opt_prop (JObj [(str ''detail'', JStr (str ''Unsupported format''))]) (str ''detail''))"
    "opt_prop (JObj [(str ''detail'', JStr (str ''Unsupported format''))]) (str ''detail'')
       = JStr (str ''Unsupported format'')"
    by (simp_all add: opt_prop_def nullish_def str_def)
  from C4_error_text [OF bad m1, of sample_env] sample_braces(2) sample_parse_details(2) t
  have 1: "handle sample_env \<lparr>status = 400, body = bad_format_body\<rparr> = Inl (Error bad_format_body)"
    "cleanErr sample_env (Error bad_format_body) = str ''Unsupported format''"
    by simp_all
  from C4_error_text [OF down m2, of sample_env] sample_braces(3)
  have 2: "handle sample_env \<lparr>status = 502, body = []\<rparr> = Inl (Error (str ''HTTP 502''))"
    "cleanErr sample_env (Error (str ''HTTP 502'')) = dropWhile is_space (str ''HTTP 502'')"
    by simp_all
  have "dropWhile is_space (str ''HTTP 502'') = str ''HTTP 502''"
    by (simp add: str_def is_space_def)
  with 1 2 3 show ?thesis by simp
qed

text \<open>
  Claim C4 as stated fails where the \<^verbatim>\<open>detail\<close> is falsy: for a 422 whose body is the
  JSON object \<^verbatim>\<open>{"detail":""}\<close>, the body is a JSON object containing \<^verbatim>\<open>detail\<close>, the
  empty string, but \<open>cleanErr\<close> returns the whole body text, not the \<^verbatim>\<open>detail\<close>.
\<close>

theorem C4_counterexample:
  "JSON_parse sample_env empty_detail_body = Inr (JObj [(str ''detail'', JStr [])]) \<and>
   get_prop (JObj [(str ''detail'', JStr [])]) (str ''detail'') = JStr [] \<and>
   handle sample_env \<lparr>status = 422, body = empty_detail_body\<rparr> = Inl (Error empty_detail_body) \<and>
   cleanErr sample_env (Error empty_detail_body) = empty_detail_body \<and>
   cleanErr sample_env (Error empty_detail_body) \<noteq> []"
proof -
  have e: "empty_detail_body \<noteq> []"
    by (simp add: empty_detail_body_def str_def)
  have h: "handle sample_env \<lparr>status = 422, body = empty_detail_body\<rparr> = Inl (Error empty_detail_body)"
    using e by (simp add: handle_not_ok ok_def)
  have c: "cleanErr sample_env (Error empty_detail_body) = empty_detail_body"
  proof -
    have "dropWhile is_space empty_detail_body = empty_detail_body"
      by (simp add: empty_detail_body_def str_def is_space_def)
    then show ?thesis
      by (simp add: cleanErr_Error [OF e] sample_braces sample_parse_details opt_prop_def nullish_def
          str_def)
  qed
  from e h c show ?thesis
    by (simp add: sample_parse_details)
qed

section \<open>Export\<close>

text \<open>
  Claim C7. For a format given as a string: on a response that is not 2xx \<open>exportData\<close>
  throws for every format (through \<open>handle\<close> for \<^verbatim>\<open>json\<close>, through the explicit
  \<^verbatim>\<open>r.ok\<close> check otherwise), so it returns a value only for a 2xx response; on a 2xx
  response it returns the parsed JSON value of the body for \<^verbatim>\<open>json\<close> (and the body text
  itself when the body is not JSON) and the raw body text for every other format. A
  rejected \<open>fetch\<close> is rethrown, and a missing format is \<^verbatim>\<open>json\<close>.
\<close>

theorem C7_exportData_by_format:
  "(fetch E (str ''/api/export?fmt='' @ f) = Inr r \<longrightarrow>
      (\<not> ok r \<longrightarrow>
         exportData E (JStr f) =
           Inl (Error (if f = str ''json'' \<and> body r = [] then str ''HTTP '' @ show_nat (status r)
                       else body r))) \<and>
      (ok r \<and> f = str ''json'' \<and> JSON_parse E (body r) = Inr v \<longrightarrow> exportData E (JStr f) = Inr v) \<and>
      (ok r \<and> f = str ''json'' \<and> JSON_parse E (body r) = Inl x \<longrightarrow>
         exportData E (JStr f) = Inr (JStr (body r))) \<and>
      (ok r \<and> f \<noteq> str ''json'' \<longrightarrow> exportData E (JStr f) = Inr (JStr (body r))) \<and>
      (exportData E (JStr f) = Inr w \<longrightarrow> ok r)) \<and>
   (fetch E (str ''/api/export?fmt='' @ f) = Inl e \<longrightarrow> exportData E (JStr f) = Inl e) \<and>
   exportData E JUndefined = exportData E (JStr (str ''json''))"
proof -
  have url: "to_str E (JStr f) = f" for f
    by (simp add: to_str_def)
  have rejected: "fetch E (str ''/api/export?fmt='' @ f) = Inl e \<longrightarrow> exportData E (JStr f) = Inl e"
    by (simp add: exportData_def Let_def url)
  have default: "exportData E JUndefined = exportData E (JStr (str ''json''))"
    by (simp add: exportData_def Let_def)
  have answered: "(\<not> ok r \<longrightarrow>
         exportData E (JStr f) =
           Inl (Error (if f = str ''json'' \<and> body r = [] then str ''HTTP '' @ show_nat (status r)
                       else body r))) \<and>
      (ok r \<and> f = str ''json'' \<and> JSON_parse E (body r) = Inr v \<longrightarrow> exportData E (JStr f) = Inr v) \<and>
      (ok r \<and> f = str ''json'' \<and> JSON_parse E (body r) = Inl x \<longrightarrow>
         exportData E (JStr f) = Inr (JStr (body r))) \<and>
      (ok r \<and> f \<noteq> str ''json'' \<longrightarrow> exportData E (JStr f) = Inr (JStr (body r))) \<and>
      (exportData E (JStr f) = Inr w \<longrightarrow> ok r)"
    if "fetch E (str ''/api/export?fmt='' @ f) = Inr r"
  proof (cases "ok r")
    case True
    with that show ?thesis
      by (auto simp: exportData_def Let_def url handle_ok)
  next
    case False
    with that show ?thesis
      by (auto simp: exportData_def Let_def url handle_not_ok)
  qed
  from answered rejected default show ?thesis by blast
qed

lemma sample_export:
  "fetch sample_env (str ''/api/export?fmt='' @ str ''json'') = Inr \<lparr>status = 200, body = str ''[]''\<rparr>"
  "fetch sample_env (str ''/api/export?fmt='' @ str ''csv'')
     = Inr \<lparr>status = 200, body = str ''id,location_query''\<rparr>"
  "fetch sample_env (str ''/api/export?fmt='' @ str ''xyz'') = Inr \<lparr>status = 400, body = bad_format_body\<rparr>"
  "fetch sample_env (str ''/api/export?fmt='' @ str ''md'') = Inl (TypeError (str ''Failed to fetch''))"
  by (simp_all add: sample_env_def sample_fetch_def str_def)

text \<open>The claim in the sample environment, for four formats.\<close>

theorem C7_witness:
  "exportData sample_env (JStr (str ''json'')) = Inr (JArr []) \<and>
   exportData sample_env (JStr (str ''csv'')) = Inr (JStr (str ''id,location_query'')) \<and>
   exportData sample_env (JStr (str ''xyz'')) = Inl (Error bad_format_body) \<and>
   exportData sample_env (JStr (str ''md'')) = Inl (TypeError (str ''Failed to fetch''))"
proof -
  have parsed: "JSON_parse sample_env (str ''[]'') = Inr (JArr [])"
    by (simp add: sample_defs str_def)
  have fine: "ok \<lparr>status = 200, body = b\<rparr>" and bad: "\<not> ok \<lparr>status = 400, body = b\<rparr>" for b
    by (simp_all add: ok_def)
  have names: "str ''csv'' \<noteq> str ''json''" "str ''xyz'' \<noteq> str ''json''"
    by (simp_all add: str_def)
  from C7_exportData_by_format [of sample_env "str ''json''" "\<lparr>status = 200, body = str ''[]''\<rparr>" "JArr []"]
    sample_export(1) parsed fine
  have 1: "exportData sample_env (JStr (str ''json'')) = Inr (JArr [])"
    by simp
  from C7_exportData_by_format [of sample_env "str ''csv''" "\<lparr>status = 200, body = str ''id,location_query''\<rparr>"]
    sample_export(2) fine names
  have 2: "exportData sample_env (JStr (str ''csv'')) = Inr (JStr (str ''id,location_query''))"
    by simp
  from C7_exportData_by_format [of sample_env "str ''xyz''" "\<lparr>status = 400, body = bad_format_body\<rparr>"]
    sample_export(3) bad names
  have 3: "exportData sample_env (JStr (str ''xyz'')) = Inl (Error bad_format_body)"
    by simp
  from C7_exportData_by_format [of sample_env "str ''md''" _ _ _ _ "TypeError (str ''Failed to fetch'')"]
    sample_export(4)
  have 4: "exportData sample_env (JStr (str ''md'')) = Inl (TypeError (str ''Failed to fetch''))"
    by simp
  from 1 2 3 4 show ?thesis by (intro conjI)
qed

section \<open>Rounding to a double\<close>

text \<open>
  The error of a rounding: a number of size at most \<open>M\<close>, for an \<open>M\<close> within the range of
  the format, is rounded to a finite number at most \<open>M / 2^p\<close> away.
\<close>

lemma ilog2_bounds:
  "0 < a \<Longrightarrow> 2 powi ilog2 a \<le> a \<and> a < 2 powi (ilog2 a + 1)"
proof (induction a rule: ilog2.induct)
  case (1 a)
  show ?case
  proof (cases "2 \<le> a")
    case True
    with 1 have ih: "2 powi ilog2 (a / 2) \<le> a / 2 \<and> a / 2 < 2 powi (ilog2 (a / 2) + 1)"
      by simp
    have e: "ilog2 a = ilog2 (a / 2) + 1"
      using True 1(3) by (subst ilog2.simps) simp
    show ?thesis
      using ih unfolding e by (simp add: power_int_add field_simps)
  next
    case False
    show ?thesis
    proof (cases "a < 1")
      case True
      with 1 False have ih: "2 powi ilog2 (a * 2) \<le> a * 2 \<and> a * 2 < 2 powi (ilog2 (a * 2) + 1)"
        by simp
      have e: "ilog2 a = ilog2 (a * 2) - 1"
        using True False 1(3) by (subst ilog2.simps) simp
      show ?thesis
        using ih unfolding e by (simp add: power_int_diff power_int_add field_simps)
    next
      case b: False
      have e: "ilog2 a = 0"
        using b False 1(3) by (subst ilog2.simps) simp
      show ?thesis
        using b False unfolding e by simp
    qed
  qed
qed


lemma pow2_less_iff: "(2::rat) powi m < 2 powi n \<longleftrightarrow> m < n"
proof
  assume "(2::rat) powi m < 2 powi n"
  show "m < n"
  proof (rule ccontr)
    assume "\<not> m < n"
    then have "(2::rat) powi n \<le> 2 powi m"
      by (intro power_int_increasing) simp_all
    with \<open>(2::rat) powi m < 2 powi n\<close> show False by simp
  qed
next
  assume "m < n"
  then show "(2::rat) powi m < 2 powi n"
    by (intro power_int_strict_increasing) simp_all
qed

lemma round_half_even_error: "\<bar>of_int (round_half_even m) - m\<bar> \<le> 1 / 2"
proof -
  have "of_int \<lfloor>m\<rfloor> \<le> m" and "m < of_int \<lfloor>m\<rfloor> + 1"
    by linarith+
  then show ?thesis
    by (auto simp: round_half_even_def Let_def)
qed

lemma round_binary_bound:
  assumes "\<bar>q\<bar> \<le> M" and "2 powi emin \<le> M" and "M < 2 powi emax" and "0 < p"
  shows "\<exists>v. round_binary p emin emax q = Dbl v \<and> \<bar>v - q\<bar> \<le> M / 2 ^ p"
proof (cases "q = 0")
  case True
  have "(0::rat) < 2 powi emin" by simp
  with assms(2) have "0 \<le> M" by linarith
  then have "0 \<le> M / 2 ^ p" by simp
  with True show ?thesis by (simp add: round_binary_def)
next
  case nz: False
  define a where "a = \<bar>q\<bar>"
  define e where "e = max (ilog2 a) emin"
  define u :: rat where "u = 2 powi (e - int p + 1)"
  define r where "r = round_half_even (a / u)"
  from nz have pos: "0 < a" by (simp add: a_def)
  from ilog2_bounds [OF pos] have lo: "2 powi ilog2 a \<le> a" and hi: "a < 2 powi (ilog2 a + 1)"
    by simp_all
  have "(2::rat) powi (ilog2 a + 1) \<le> 2 powi (e + 1)"
    by (intro power_int_increasing) (simp_all add: e_def)
  with hi have hi': "a < 2 powi (e + 1)" by (rule less_le_trans)
  have "(2::rat) powi e = 2 powi ilog2 a \<or> (2::rat) powi e = 2 powi emin"
    by (auto simp: e_def max_def)
  with lo assms(1,2) have eM: "2 powi e \<le> M"
    unfolding a_def by (elim disjE) linarith+
  then have "(2::rat) powi e < 2 powi emax"
    using assms(3) by (rule le_less_trans)
  then have emax: "e < emax"
    by (rule pow2_less_iff [THEN iffD1])
  have u: "0 < u" by (simp add: u_def)
  define c :: rat where "c = 2 ^ (p - 1)"
  have c: "0 < c" by (simp add: c_def)
  have "c = 2 powi int (p - 1)" by (simp add: c_def)
  moreover have "int (p - 1) = int p - 1" using assms(4) by (simp add: of_nat_diff)
  ultimately have "c = 2 powi (int p - 1)" by (simp only:)
  then have "u * c = 2 powi (e - int p + 1) * 2 powi (int p - 1)"
    by (simp only: u_def)
  also have "\<dots> = 2 powi e"
    by (simp flip: power_int_add)
  finally have u_e: "u * c = 2 powi e" .
  have pp: "(2::rat) ^ p = c * 2"
    using assms(4) by (cases p) (simp_all add: c_def)
  have close: "\<bar>of_int r - a / u\<bar> \<le> 1 / 2"
    unfolding r_def by (rule round_half_even_error)
  then have "\<bar>of_int r - a / u\<bar> * u \<le> 1 / 2 * u"
    using u by (intro mult_right_mono) simp_all
  moreover have "\<bar>of_int r - a / u\<bar> * u = \<bar>(of_int r - a / u) * u\<bar>"
    using u by (simp add: abs_mult)
  moreover have "(of_int r - a / u) * u = of_int r * u - a"
    using u by (simp add: left_diff_distrib)
  ultimately have err: "\<bar>of_int r * u - a\<bar> \<le> u / 2" by simp
  have "u / 2 = u * c / (c * 2)"
    using c by simp
  also have "\<dots> = 2 powi e / (c * 2)"
    by (simp only: u_e)
  also have "\<dots> \<le> M / (c * 2)"
    using eM c by (intro divide_right_mono) simp_all
  finally have small: "u / 2 \<le> M / 2 ^ p"
    by (simp only: pp)
  have "a < 2 powi e * 2" using hi' by (simp add: power_int_add)
  then have "a < u * (c * 2)" using u_e by simp
  then have "a / u < c * 2" using u by (simp add: field_simps)
  with close have "of_int r < c * 2 + 1" by linarith
  then have "(of_int r :: rat) < of_int (2 ^ p + 1)" by (simp add: pp)
  then have "r < 2 ^ p + 1" by (simp only: of_int_less_iff)
  then have "r \<le> 2 ^ p" by simp
  then have "(of_int r :: rat) \<le> of_int (2 ^ p)" by (simp only: of_int_le_iff)
  then have "(of_int r :: rat) \<le> c * 2" by (simp add: pp)
  then have "of_int r * u \<le> c * 2 * u"
    using u by (intro mult_right_mono) simp_all
  also have "\<dots> = 2 powi (e + 1)"
    using u_e by (simp add: power_int_add mult.commute)
  also have "\<dots> \<le> 2 powi emax"
    using emax by (intro power_int_increasing) simp_all
  also have "\<dots> < (2::rat) powi (emax + 1)"
    by (intro power_int_strict_increasing) simp_all
  finally have fin: "\<not> 2 powi (emax + 1) \<le> of_int r * u" by simp
  define v where "v = (if 0 < q then of_int r * u else - (of_int r * u))"
  have 1: "round_binary p emin emax q = Dbl v"
    using nz fin unfolding round_binary_def Let_def r_def u_def a_def e_def v_def by simp
  have 2: "\<bar>v - q\<bar> = \<bar>of_int r * u - a\<bar>"
    using nz by (auto simp: a_def v_def)
  from err small have "\<bar>of_int r * u - a\<bar> \<le> M / 2 ^ p"
    by (rule order_trans)
  then have "\<bar>v - q\<bar> \<le> M / 2 ^ p"
    by (simp only: 2)
  with 1 show ?thesis by blast
qed

lemma fl_bound:
  assumes "\<bar>q\<bar> \<le> M" and "1 \<le> M" and "M \<le> 2 ^ 64"
  shows "\<exists>v. fl q = Dbl v \<and> \<bar>v - q\<bar> \<le> M / 2 ^ 53"
  unfolding fl_def
proof (rule round_binary_bound [OF assms(1)])
  have "(2::rat) powi (- 1022) \<le> 2 powi 0"
    by (intro power_int_increasing) simp_all
  with assms(2) show "2 powi (- 1022) \<le> M" by simp
  have "(2::rat) powi 64 < 2 powi 1023"
    by (intro power_int_strict_increasing) simp_all
  moreover have "M \<le> 2 powi 64" using assms(3) by simp
  ultimately show "M < 2 powi 1023" by (rule le_less_trans [rotated])
  show "0 < (53::nat)" by simp
qed


section \<open>The unit helpers\<close>

text \<open>
  The three roundings of \<open>toF\<close> and the one of \<open>kmhToMph\<close> move the result by less than
  \<open>10^-8\<close> from the real value. On an integer the real value is at least a tenth (a
  millionth for the wind) away from the next half, so \<^verbatim>\<open>Math.round\<close> of the double is the
  rounding of the real value.
\<close>

lemma toF_accuracy:
  assumes "\<bar>x\<bar> \<le> 1000000"
  shows "\<exists>y. num_add (num_div (num_mul (Dbl x) (Dbl 9)) (Dbl 5)) (Dbl 32) = Dbl y \<and>
             \<bar>y - (x * 9 / 5 + 32)\<bar> \<le> 1 / 10 ^ 8"
proof -
  define eps :: rat where "eps = 9000000 / 2 ^ 53"
  have eps: "0 \<le> eps" "eps \<le> 1 / 1000000000"
    by (simp_all add: eps_def)
  have "\<bar>x * 9\<bar> \<le> 9000000" using assms by linarith
  from fl_bound [OF this] obtain y1 where
    y1: "fl (x * 9) = Dbl y1" "\<bar>y1 - x * 9\<bar> \<le> eps"
    unfolding eps_def by auto
  from y1(2) assms eps have "\<bar>y1 / 5\<bar> \<le> 9000000" by linarith
  from fl_bound [OF this] obtain y2 where
    y2: "fl (y1 / 5) = Dbl y2" "\<bar>y2 - y1 / 5\<bar> \<le> eps"
    unfolding eps_def by auto
  from y1(2) y2(2) assms eps have "\<bar>y2 + 32\<bar> \<le> 9000000" by linarith
  from fl_bound [OF this] obtain y3 where
    y3: "fl (y2 + 32) = Dbl y3" "\<bar>y3 - (y2 + 32)\<bar> \<le> eps"
    unfolding eps_def by auto
  have "num_add (num_div (num_mul (Dbl x) (Dbl 9)) (Dbl 5)) (Dbl 32) = Dbl y3"
    by (simp add: y1(1) y2(1) y3(1))
  moreover from y1(2) y2(2) y3(2) eps have "\<bar>y3 - (x * 9 / 5 + 32)\<bar> \<le> 1 / 100000000"
    by linarith
  ultimately show ?thesis by simp
qed

lemma kmhToMph_accuracy:
  assumes "\<bar>x\<bar> \<le> 1000000"
  shows "\<exists>y. num_mul (Dbl x) (Dbl (5596812408117665 / 9007199254740992)) = Dbl y \<and>
             \<bar>y - x * 621371 / 1000000\<bar> \<le> 1 / 10 ^ 9"
proof -
  define K :: rat where "K = 5596812408117665 / 9007199254740992"
  define eps :: rat where "eps = 1000000 / 2 ^ 53"
  have eps: "0 \<le> eps" "eps \<le> 1 / 5000000000"
    by (simp_all add: eps_def)
  have K: "0 \<le> K" "K \<le> 1" "\<bar>K - 621371 / 1000000\<bar> \<le> 1 / 2 ^ 54"
    by (simp_all add: K_def)
  have "\<bar>x * K\<bar> = \<bar>x\<bar> * K" using K(1) by (simp add: abs_mult)
  also have "\<dots> \<le> \<bar>x\<bar> * 1" using K(2) by (intro mult_left_mono) simp_all
  finally have "\<bar>x * K\<bar> \<le> 1000000" using assms by simp
  from fl_bound [OF this] obtain y where
    y: "fl (x * K) = Dbl y" "\<bar>y - x * K\<bar> \<le> eps"
    unfolding eps_def by auto
  have "x * K - x * (621371 / 1000000) = x * (K - 621371 / 1000000)"
    by (simp only: right_diff_distrib)
  then have "\<bar>x * K - x * (621371 / 1000000)\<bar> = \<bar>x\<bar> * \<bar>K - 621371 / 1000000\<bar>"
    by (simp only: abs_mult)
  also have "\<dots> \<le> 1000000 * (1 / 2 ^ 54)"
    using assms K(3) by (intro mult_mono) simp_all
  also have "\<dots> \<le> eps" by (simp add: eps_def)
  finally have "\<bar>x * K - x * 621371 / 1000000\<bar> \<le> eps" by simp
  with y(2) eps have "\<bar>y - x * 621371 / 1000000\<bar> \<le> 1 / 1000000000"
    by linarith
  moreover have "num_mul (Dbl x) (Dbl K) = Dbl y" by (simp add: y(1))
  ultimately show ?thesis unfolding K_def by simp
qed

lemma round_stable:
  fixes x y d :: rat
  assumes "of_int n + d \<le> x + 1 / 2" and "x + 1 / 2 \<le> of_int n + 1 - d" and "\<bar>y - x\<bar> < d"
  shows "\<lfloor>y + 1 / 2\<rfloor> = n"
  using assms by (intro floor_unique) linarith+


lemma toF_int:
  assumes "\<bar>k\<bar> \<le> 1000000"
  shows "Math_round (num_add (num_div (num_mul (Dbl (of_int k)) (Dbl 9)) (Dbl 5)) (Dbl 32))
           = Dbl (of_int \<lfloor>(of_int k * 9 / 5 + 32 :: rat) + 1 / 2\<rfloor>)"
proof -
  define x :: rat where "x = of_int k * 9 / 5 + 32"
  define n where "n = (18 * k + 325) div 10"
  define r where "r = (18 * k + 325) mod 10"
  have r: "1 \<le> r" "r \<le> 9"
    unfolding r_def by presburger+
  have "18 * k + 325 = 10 * n + r"
    unfolding n_def r_def by simp
  then have "(of_int (18 * k + 325) :: rat) = of_int (10 * n + r)"
    by (simp only:)
  then have split: "x + 1 / 2 = of_int n + of_int r / 10"
    by (simp add: x_def field_simps)
  have "(1::rat) \<le> of_int r" "(of_int r :: rat) \<le> 9"
    using r by simp_all
  with split have lo: "of_int n + 1 / 10 \<le> x + 1 / 2" and hi: "x + 1 / 2 \<le> of_int n + 1 - 1 / 10"
    by simp_all
  have "\<bar>of_int k :: rat\<bar> \<le> 1000000"
    using assms by (simp flip: of_int_abs)
  from toF_accuracy [OF this] obtain y where
    y: "num_add (num_div (num_mul (Dbl (of_int k)) (Dbl 9)) (Dbl 5)) (Dbl 32) = Dbl y"
      "\<bar>y - x\<bar> \<le> 1 / 10 ^ 8"
    unfolding x_def by blast
  from y(2) have "\<bar>y - x\<bar> < 1 / 10" by simp
  with lo hi have "\<lfloor>y + 1 / 2\<rfloor> = n" by (rule round_stable)
  moreover have "\<bar>x - x\<bar> < 1 / 10" by simp
  with lo hi have "\<lfloor>x + 1 / 2\<rfloor> = n" by (rule round_stable)
  ultimately have "Math_round (Dbl y) = Dbl (of_int \<lfloor>x + 1 / 2\<rfloor>)"
    by simp
  then show ?thesis
    unfolding y(1) x_def .
qed

lemma mph_no_tie:
  assumes "\<bar>k\<bar> < 500000"
  shows "(621371 * k + 500000) mod 1000000 \<noteq> (0::int)"
proof
  assume "(621371 * k + 500000) mod 1000000 = 0"
  then have d: "(1000000::int) dvd 621371 * k + 500000"
    by (simp add: dvd_eq_mod_eq_0)
  have "(500000::int) dvd 1000000" by simp
  then have "(500000::int) dvd 621371 * k + 500000"
    using d by (rule dvd_trans)
  then have "(500000::int) dvd 621371 * k"
    by (simp add: dvd_add_left_iff)
  then have "(500000::int) dvd 112531 * (621371 * k)"
    by (rule dvd_mult)
  moreover have "(500000::int) dvd 500000 * (139847 * k)"
    by (rule dvd_triv_left)
  ultimately have "(500000::int) dvd 112531 * (621371 * k) - 500000 * (139847 * k)"
    by (rule dvd_diff)
  moreover have "112531 * (621371 * k) - 500000 * (139847 * k) = k"
    by simp
  ultimately have k: "(500000::int) dvd k" by (simp only:)
  have "k = 0"
  proof (rule ccontr)
    assume "k \<noteq> 0"
    from dvd_imp_le_int [OF this k] have "500000 \<le> \<bar>k\<bar>" by simp
    with assms show False by simp
  qed
  with d show False by simp
qed

lemma kmhToMph_int:
  assumes "\<bar>k\<bar> < 500000"
  shows "Math_round (num_mul (Dbl (of_int k)) (Dbl (5596812408117665 / 9007199254740992)))
           = Dbl (of_int \<lfloor>(of_int k * 621371 / 1000000 :: rat) + 1 / 2\<rfloor>)"
proof -
  define x :: rat where "x = of_int k * 621371 / 1000000"
  define n where "n = (621371 * k + 500000) div 1000000"
  define r where "r = (621371 * k + 500000) mod 1000000"
  have "r \<noteq> 0"
    unfolding r_def using assms by (rule mph_no_tie)
  moreover have "0 \<le> r" "r < 1000000"
    unfolding r_def by simp_all
  ultimately have r: "1 \<le> r" "r \<le> 999999"
    by simp_all
  have "621371 * k + 500000 = 1000000 * n + r"
    unfolding n_def r_def by simp
  then have "(of_int (621371 * k + 500000) :: rat) = of_int (1000000 * n + r)"
    by (simp only:)
  then have split: "x + 1 / 2 = of_int n + of_int r / 1000000"
    by (simp add: x_def field_simps)
  have "(1::rat) \<le> of_int r" "(of_int r :: rat) \<le> 999999"
    using r by simp_all
  with split have lo: "of_int n + 1 / 1000000 \<le> x + 1 / 2"
    and hi: "x + 1 / 2 \<le> of_int n + 1 - 1 / 1000000"
    by simp_all
  have "\<bar>of_int k :: rat\<bar> \<le> 1000000"
    using assms by (simp flip: of_int_abs)
  from kmhToMph_accuracy [OF this] obtain y where
    y: "num_mul (Dbl (of_int k)) (Dbl (5596812408117665 / 9007199254740992)) = Dbl y"
      "\<bar>y - x\<bar> \<le> 1 / 10 ^ 9"
    unfolding x_def by blast
  from y(2) have "\<bar>y - x\<bar> < 1 / 1000000" by simp
  with lo hi have "\<lfloor>y + 1 / 2\<rfloor> = n" by (rule round_stable)
  moreover have "\<bar>x - x\<bar> < 1 / 1000000" by simp
  with lo hi have "\<lfloor>x + 1 / 2\<rfloor> = n" by (rule round_stable)
  ultimately have "Math_round (Dbl y) = Dbl (of_int \<lfloor>x + 1 / 2\<rfloor>)"
    by simp
  then show ?thesis
    unfolding y(1) x_def .
qed

section \<open>Rounding at concrete numbers\<close>

text \<open>
  The doubles nearest to 20.6 and to the literal \<^verbatim>\<open>0.621371\<close> of \<open>kmhToMph\<close>.
\<close>

lemma round_half_even_div:
  assumes "0 < b"
  shows "round_half_even (of_int a / of_int b) =
     (if 2 * (a mod b) < b then a div b
      else if b < 2 * (a mod b) then a div b + 1
      else if even (a div b) then a div b else a div b + 1)"
proof -
  define q where "q = a div b"
  define r where "r = a mod b"
  have f: "\<lfloor>rat_of_int a / rat_of_int b\<rfloor> = q"
    unfolding q_def by (rule floor_divide_of_int_eq)
  have "a = b * q + r" by (simp add: q_def r_def)
  then have "rat_of_int a = of_int b * of_int q + of_int r" by simp
  then have d: "rat_of_int a / of_int b - of_int q = of_int r / of_int b"
    using assms by (simp add: field_simps)
  have lt: "rat_of_int r / of_int b < 1 / 2 \<longleftrightarrow> 2 * r < b"
  proof -
    have "rat_of_int r / of_int b < 1 / 2 \<longleftrightarrow> rat_of_int (2 * r) < of_int b"
      using assms by (simp add: field_simps)
    then show ?thesis by (simp only: of_int_less_iff)
  qed
  have gt: "1 / 2 < rat_of_int r / of_int b \<longleftrightarrow> b < 2 * r"
  proof -
    have "1 / 2 < rat_of_int r / of_int b \<longleftrightarrow> rat_of_int b < of_int (2 * r)"
      using assms by (simp add: field_simps)
    then show ?thesis by (simp only: of_int_less_iff)
  qed
  have "round_half_even (of_int a / of_int b) =
     (if 2 * r < b then q else if b < 2 * r then q + 1 else if even q then q else q + 1)"
    unfolding round_half_even_def Let_def f d lt gt ..
  then show ?thesis by (simp only: q_def r_def)
qed

lemma ilog2_206: "ilog2 (103 / 5) = 4"
  by (simp add: ilog2.simps)

lemma round_206: "round_half_even (28991922601197568 / 5) = 5798384520239514"
  using round_half_even_div [of 5 28991922601197568] by simp

lemma fl_206: "fl (103 / 5) = Dbl (2899192260119757 / 140737488355328)"
  by (simp add: fl_def round_binary_def Let_def ilog2_206 round_206 power_int_minus)


lemma ilog2_mph: "ilog2 (621371 / 1000000) = - 1"
  by (simp add: ilog2.simps)

lemma round_mph: "round_half_even (87450193876838514688 / 15625) = 5596812408117665"
  using round_half_even_div [of 15625 87450193876838514688] by simp

lemma fl_mph: "fl (621371 / 1000000) = Dbl (5596812408117665 / 9007199254740992)"
  by (simp add: fl_def round_binary_def Let_def ilog2_mph round_mph power_int_minus)

section \<open>Unit conversion\<close>

lemma fmt_f:
  assumes "\<not> nullish c"
  shows "fmtTemp E c (str ''f'') =
           to_str E (JNum (Math_round
             (num_add (num_div (num_mul (to_num E c) (Dbl 9)) (Dbl 5)) (Dbl 32)))) @ [176] @ str ''F''"
    and "fmtWind E c (str ''f'') =
           to_str E (JNum (Math_round
             (num_mul (to_num E c) (Dbl (5596812408117665 / 9007199254740992))))) @ str '' mph''"
  using assms by (simp_all add: fmtTemp_def fmtWind_def toF_def kmhToMph_def)

lemma fmt_metric:
  assumes "\<not> nullish c" and "unit \<noteq> str ''f''"
  shows "fmtTemp E c unit = to_str E (JNum (Math_round (to_num E c))) @ [176] @ str ''C''"
    and "fmtWind E c unit = to_str E (JNum (Math_round (to_num E c))) @ str '' km/h''"
  using assms by (simp_all add: fmtTemp_def fmtWind_def)

lemma to_str_round:
  assumes "\<bar>y\<bar> \<le> 10000000"
  shows "to_str E (JNum (Math_round (Dbl y))) = show_int \<lfloor>y + 1 / 2\<rfloor>"
proof -
  have "- 10000000 \<le> y + 1 / 2" "y + 1 / 2 < 10000001"
    using assms by linarith+
  then have "- 10000000 \<le> \<lfloor>y + 1 / 2\<rfloor>" "\<lfloor>y + 1 / 2\<rfloor> < 10000001"
    by (simp_all add: le_floor_iff floor_less_iff)
  then have "\<bar>\<lfloor>y + 1 / 2\<rfloor>\<bar> < 9007199254740992"
    by linarith
  then have "\<bar>\<lfloor>y + 1 / 2\<rfloor>\<bar> < 2 ^ 53"
    by simp
  then show ?thesis
    by (simp add: to_str_int)
qed

lemma fmtTemp_accuracy:
  assumes "\<not> nullish c" and "to_num E c = Dbl x" and "\<bar>x\<bar> \<le> 1000000"
  shows "\<exists>y. \<bar>y - (x * 9 / 5 + 32)\<bar> \<le> 1 / 10 ^ 8 \<and>
             fmtTemp E c (str ''f'') = show_int \<lfloor>y + 1 / 2\<rfloor> @ [176] @ str ''F''"
proof -
  from toF_accuracy [OF assms(3)] obtain y where
    y: "num_add (num_div (num_mul (Dbl x) (Dbl 9)) (Dbl 5)) (Dbl 32) = Dbl y"
      "\<bar>y - (x * 9 / 5 + 32)\<bar> \<le> 1 / 10 ^ 8"
    by blast
  from y(2) have "\<bar>y - (x * 9 / 5 + 32)\<bar> \<le> 1" by simp
  with assms(3) have "\<bar>y\<bar> \<le> 10000000" by linarith
  then have "to_str E (JNum (Math_round (Dbl y))) = show_int \<lfloor>y + 1 / 2\<rfloor>"
    by (rule to_str_round)
  then have "fmtTemp E c (str ''f'') = show_int \<lfloor>y + 1 / 2\<rfloor> @ [176] @ str ''F''"
    unfolding fmt_f(1) [OF assms(1)] assms(2) y(1) by simp
  with y(2) show ?thesis by blast
qed

lemma fmtWind_accuracy:
  assumes "\<not> nullish w" and "to_num E w = Dbl x" and "\<bar>x\<bar> \<le> 1000000"
  shows "\<exists>y. \<bar>y - x * 621371 / 1000000\<bar> \<le> 1 / 10 ^ 9 \<and>
             fmtWind E w (str ''f'') = show_int \<lfloor>y + 1 / 2\<rfloor> @ str '' mph''"
proof -
  from kmhToMph_accuracy [OF assms(3)] obtain y where
    y: "num_mul (Dbl x) (Dbl (5596812408117665 / 9007199254740992)) = Dbl y"
      "\<bar>y - x * 621371 / 1000000\<bar> \<le> 1 / 10 ^ 9"
    by blast
  from y(2) have "\<bar>y - x * 621371 / 1000000\<bar> \<le> 1" by simp
  with assms(3) have "\<bar>y\<bar> \<le> 10000000" by linarith
  then have "to_str E (JNum (Math_round (Dbl y))) = show_int \<lfloor>y + 1 / 2\<rfloor>"
    by (rule to_str_round)
  then have "fmtWind E w (str ''f'') = show_int \<lfloor>y + 1 / 2\<rfloor> @ str '' mph''"
    unfolding fmt_f(2) [OF assms(1)] assms(2) y(1) by simp
  with y(2) show ?thesis by blast
qed

lemma fmt_metric_round:
  assumes "\<not> nullish c" and "to_num E c = Dbl x" and "\<bar>x\<bar> \<le> 1000000" and "unit \<noteq> str ''f''"
  shows "fmtTemp E c unit = show_int \<lfloor>x + 1 / 2\<rfloor> @ [176] @ str ''C''"
    and "fmtWind E c unit = show_int \<lfloor>x + 1 / 2\<rfloor> @ str '' km/h''"
proof -
  from assms(3) have "\<bar>x\<bar> \<le> 10000000" by simp
  then have "to_str E (JNum (Math_round (Dbl x))) = show_int \<lfloor>x + 1 / 2\<rfloor>"
    by (rule to_str_round)
  then show "fmtTemp E c unit = show_int \<lfloor>x + 1 / 2\<rfloor> @ [176] @ str ''C''"
    and "fmtWind E c unit = show_int \<lfloor>x + 1 / 2\<rfloor> @ str '' km/h''"
    unfolding fmt_metric [OF assms(1,4)] assms(2) by simp_all
qed

lemma fmtTemp_int:
  assumes "\<bar>k\<bar> \<le> 1000000"
  shows "fmtTemp E (JNum (Dbl (of_int k))) (str ''f'') =
           show_int \<lfloor>(of_int k * 9 / 5 + 32 :: rat) + 1 / 2\<rfloor> @ [176] @ str ''F''"
proof -
  define x :: rat where "x = of_int k * 9 / 5 + 32"
  have "\<bar>rat_of_int k\<bar> \<le> 1000000"
    using assms by (simp flip: of_int_abs)
  then have "\<bar>x\<bar> \<le> 10000000"
    unfolding x_def by linarith
  then have "to_str E (JNum (Math_round (Dbl x))) = show_int \<lfloor>x + 1 / 2\<rfloor>"
    by (rule to_str_round)
  then have p: "to_str E (JNum (Dbl (of_int \<lfloor>x + 1 / 2\<rfloor>))) = show_int \<lfloor>x + 1 / 2\<rfloor>"
    by simp
  have n: "\<not> nullish (JNum (Dbl (of_int k)))"
    by (simp add: nullish_def)
  have t: "to_num E (JNum (Dbl (of_int k))) = Dbl (of_int k)"
    by (simp add: to_num_def)
  show ?thesis
    unfolding fmt_f(1) [OF n] t toF_int [OF assms] p [unfolded x_def] ..
qed

lemma fmtWind_int:
  assumes "\<bar>k\<bar> < 500000"
  shows "fmtWind E (JNum (Dbl (of_int k))) (str ''f'') =
           show_int \<lfloor>(of_int k * 621371 / 1000000 :: rat) + 1 / 2\<rfloor> @ str '' mph''"
proof -
  define x :: rat where "x = of_int k * 621371 / 1000000"
  have "\<bar>rat_of_int k\<bar> \<le> 1000000"
    using assms by (simp flip: of_int_abs)
  then have "\<bar>x\<bar> \<le> 10000000"
    unfolding x_def by linarith
  then have "to_str E (JNum (Math_round (Dbl x))) = show_int \<lfloor>x + 1 / 2\<rfloor>"
    by (rule to_str_round)
  then have p: "to_str E (JNum (Dbl (of_int \<lfloor>x + 1 / 2\<rfloor>))) = show_int \<lfloor>x + 1 / 2\<rfloor>"
    by simp
  have n: "\<not> nullish (JNum (Dbl (of_int k)))"
    by (simp add: nullish_def)
  have t: "to_num E (JNum (Dbl (of_int k))) = Dbl (of_int k)"
    by (simp add: to_num_def)
  show ?thesis
    unfolding fmt_f(2) [OF n] t kmhToMph_int [OF assms] p [unfolded x_def] ..
qed


lemma fetchCurrentFor_current:
  assumes "snd (getCurrent E loc) = Inr j"
  shows "current (fetchCurrentFor E order loc a) = j"
  using assms by (simp add: fetchCurrentFor_def Let_def settle_all_keeps)

text \<open>
  Claim C8, with the rounding said. Unit conversion happens where a value is displayed
  and nowhere else. For every value \<open>c\<close> that is not \<^verbatim>\<open>null\<close> or \<^verbatim>\<open>undefined\<close>,
  \<open>fmtTemp\<close> with unit \<^verbatim>\<open>'f'\<close> displays \<^verbatim>\<open>Math.round((c * 9) / 5 + 32)\<close> followed by
  the degree sign and F, and \<open>fmtWind\<close> with unit \<^verbatim>\<open>'f'\<close> displays
  \<^verbatim>\<open>Math.round(c * 0.621371)\<close> followed by mph, the arithmetic being that of doubles; with
  any other unit the value is not converted: both display \<^verbatim>\<open>Math.round(c)\<close>, the
  nearest integer and not the number as it came, in the metric unit.

  In numbers: when \<open>c\<close> is the number \<open>x\<close>, up to a million in size, the integer displayed
  for \<^verbatim>\<open>'f'\<close> is \<open>\<lfloor>y + 1/2\<rfloor>\<close> for a \<open>y\<close> within \<open>10^-8\<close> of \<open>x * 9 / 5 + 32\<close> (within
  \<open>10^-9\<close> of \<open>x * 0.621371\<close> for the wind), and the integer displayed otherwise is
  \<open>\<lfloor>x + 1/2\<rfloor>\<close>. For an integer \<open>k\<close> the rounding errors of the doubles do not show: what is
  displayed is the exact \<open>\<lfloor>k * 9 / 5 + 32 + 1/2\<rfloor>\<close>, and \<open>\<lfloor>k * 0.621371 + 1/2\<rfloor>\<close> for the
  wind below 500000 km/h.

  Before the display nothing is converted: \<open>handle\<close> returns the value \<^verbatim>\<open>JSON.parse\<close>
  gives for a 2xx body, and \<open>fetchCurrentFor\<close> stores the value \<open>getCurrent\<close> returns in
  \<open>current\<close> as it is.
\<close>

theorem C8_unit_conversion_at_display:
  "(\<not> nullish c \<longrightarrow>
      fmtTemp E c (str ''f'') =
        to_str E (JNum (Math_round
          (num_add (num_div (num_mul (to_num E c) (Dbl 9)) (Dbl 5)) (Dbl 32)))) @ [176] @ str ''F'' \<and>
      fmtWind E c (str ''f'') =
        to_str E (JNum (Math_round (num_mul (to_num E c) (fl (621371 / 1000000))))) @ str '' mph'' \<and>
      (unit \<noteq> str ''f'' \<longrightarrow>
         fmtTemp E c unit = to_str E (JNum (Math_round (to_num E c))) @ [176] @ str ''C'' \<and>
         fmtWind E c unit = to_str E (JNum (Math_round (to_num E c))) @ str '' km/h'')) \<and>
   (\<not> nullish c \<and> to_num E c = Dbl x \<and> \<bar>x\<bar> \<le> 1000000 \<longrightarrow>
      (\<exists>y. \<bar>y - (x * 9 / 5 + 32)\<bar> \<le> 1 / 10 ^ 8 \<and>
           fmtTemp E c (str ''f'') = show_int \<lfloor>y + 1 / 2\<rfloor> @ [176] @ str ''F'') \<and>
      (\<exists>y. \<bar>y - x * 621371 / 1000000\<bar> \<le> 1 / 10 ^ 9 \<and>
           fmtWind E c (str ''f'') = show_int \<lfloor>y + 1 / 2\<rfloor> @ str '' mph'') \<and>
      (unit \<noteq> str ''f'' \<longrightarrow>
         fmtTemp E c unit = show_int \<lfloor>x + 1 / 2\<rfloor> @ [176] @ str ''C'' \<and>
         fmtWind E c unit = show_int \<lfloor>x + 1 / 2\<rfloor> @ str '' km/h'')) \<and>
   (\<bar>k\<bar> \<le> 1000000 \<longrightarrow>
      fmtTemp E (JNum (Dbl (of_int k))) (str ''f'') =
        show_int \<lfloor>(of_int k * 9 / 5 + 32 :: rat) + 1 / 2\<rfloor> @ [176] @ str ''F'') \<and>
   (\<bar>k\<bar> < 500000 \<longrightarrow>
      fmtWind E (JNum (Dbl (of_int k))) (str ''f'') =
        show_int \<lfloor>(of_int k * 621371 / 1000000 :: rat) + 1 / 2\<rfloor> @ str '' mph'') \<and>
   (ok r \<and> JSON_parse E (body r) = Inr v \<longrightarrow> handle E r = Inr v) \<and>
   (snd (getCurrent E loc) = Inr j \<longrightarrow> current (fetchCurrentFor E order loc a) = j)"
proof -
  have shown: "\<not> nullish c \<longrightarrow>
      fmtTemp E c (str ''f'') =
        to_str E (JNum (Math_round
          (num_add (num_div (num_mul (to_num E c) (Dbl 9)) (Dbl 5)) (Dbl 32)))) @ [176] @ str ''F'' \<and>
      fmtWind E c (str ''f'') =
        to_str E (JNum (Math_round (num_mul (to_num E c) (fl (621371 / 1000000))))) @ str '' mph'' \<and>
      (unit \<noteq> str ''f'' \<longrightarrow>
         fmtTemp E c unit = to_str E (JNum (Math_round (to_num E c))) @ [176] @ str ''C'' \<and>
         fmtWind E c unit = to_str E (JNum (Math_round (to_num E c))) @ str '' km/h'')"
    unfolding fl_mph using fmt_f [of c E] fmt_metric [of c unit E] by blast
  have accurate: "\<not> nullish c \<and> to_num E c = Dbl x \<and> \<bar>x\<bar> \<le> 1000000 \<longrightarrow>
      (\<exists>y. \<bar>y - (x * 9 / 5 + 32)\<bar> \<le> 1 / 10 ^ 8 \<and>
           fmtTemp E c (str ''f'') = show_int \<lfloor>y + 1 / 2\<rfloor> @ [176] @ str ''F'') \<and>
      (\<exists>y. \<bar>y - x * 621371 / 1000000\<bar> \<le> 1 / 10 ^ 9 \<and>
           fmtWind E c (str ''f'') = show_int \<lfloor>y + 1 / 2\<rfloor> @ str '' mph'') \<and>
      (unit \<noteq> str ''f'' \<longrightarrow>
         fmtTemp E c unit = show_int \<lfloor>x + 1 / 2\<rfloor> @ [176] @ str ''C'' \<and>
         fmtWind E c unit = show_int \<lfloor>x + 1 / 2\<rfloor> @ str '' km/h'')"
    using fmtTemp_accuracy [of c E x] fmtWind_accuracy [of c E x] fmt_metric_round [of c E x unit]
    by blast
  have temp: "\<bar>k\<bar> \<le> 1000000 \<longrightarrow>
      fmtTemp E (JNum (Dbl (of_int k))) (str ''f'') =
        show_int \<lfloor>(of_int k * 9 / 5 + 32 :: rat) + 1 / 2\<rfloor> @ [176] @ str ''F''"
    using fmtTemp_int by blast
  have wind: "\<bar>k\<bar> < 500000 \<longrightarrow>
      fmtWind E (JNum (Dbl (of_int k))) (str ''f'') =
        show_int \<lfloor>(of_int k * 621371 / 1000000 :: rat) + 1 / 2\<rfloor> @ str '' mph''"
    using fmtWind_int by blast
  have parsed: "ok r \<and> JSON_parse E (body r) = Inr v \<longrightarrow> handle E r = Inr v"
    by (simp add: handle_ok)
  have kept: "snd (getCurrent E loc) = Inr j \<longrightarrow> current (fetchCurrentFor E order loc a) = j"
    using fetchCurrentFor_current by blast
  from shown accurate temp wind parsed kept show ?thesis
    by (intro conjI)
qed


text \<open>Numbers of the examples.\<close>

lemma floor_examples:
  "\<lfloor>(of_int 20 * 9 / 5 + 32 :: rat) + 1 / 2\<rfloor> = 68"
  "\<lfloor>(of_int (- 40) * 9 / 5 + 32 :: rat) + 1 / 2\<rfloor> = - 40"
  "\<lfloor>(of_int 100 * 621371 / 1000000 :: rat) + 1 / 2\<rfloor> = 62"
  "\<lfloor>(2899192260119757 / 140737488355328 :: rat) + 1 / 2\<rfloor> = 21"
  "\<lfloor>(100 :: rat) + 1 / 2\<rfloor> = 100"
  "\<lfloor>2899192260119757 / 140737488355328 :: rat\<rfloor> = 20"
  by (simp_all add: floor_eq_iff)

lemma show_int_examples:
  "show_int 68 = str ''68''" "show_int (- 40) = str ''-40''" "show_int 62 = str ''62''"
  "show_int 21 = str ''21''" "show_int 100 = str ''100''" "show_int 69 = str ''69''"
  "show_int 34 = str ''34''"
  by (simp_all add: show_int_def show_nat.simps str_def)

lemma sample_to_num:
  "to_num sample_env (JStr (str ''20.6'')) = Dbl (2899192260119757 / 140737488355328)"
  "to_num sample_env (JBool True) = Dbl 1"
  "to_num sample_env (JNum (fl (103 / 5))) = Dbl (2899192260119757 / 140737488355328)"
  "to_num sample_env (JNum (Dbl 100)) = Dbl 100"
  by (simp_all add: to_num_def sample_env_def sample_ToNumber_def fl_206 str_def)

text \<open>
  The claim in the sample environment: 20 degrees Celsius are 68 degrees Fahrenheit, 40
  below zero are 40 below zero, and 100 km/h are 62 mph; the string \<^verbatim>\<open>"20.6"\<close> is
  converted to a number first and gives 69, and \<^verbatim>\<open>true\<close> counts as 1 and gives 34; with unit
  \<^verbatim>\<open>'c'\<close> the number 20.6 is displayed as 21 and 100 km/h as 100; \<^verbatim>\<open>NaN\<close> stays
  \<^verbatim>\<open>NaN\<close>; the weather payload reaches \<open>current\<close> as \<^verbatim>\<open>JSON.parse\<close> returned it.
\<close>

theorem C8_witness:
  "fmtTemp sample_env (JNum (Dbl 20)) (str ''f'') = str ''68'' @ [176] @ str ''F'' \<and>
   fmtTemp sample_env (JNum (Dbl (- 40))) (str ''f'') = str ''-40'' @ [176] @ str ''F'' \<and>
   fmtWind sample_env (JNum (Dbl 100)) (str ''f'') = str ''62 mph'' \<and>
   fmtTemp sample_env (JStr (str ''20.6'')) (str ''f'') = str ''69'' @ [176] @ str ''F'' \<and>
   fmtTemp sample_env (JBool True) (str ''f'') = str ''34'' @ [176] @ str ''F'' \<and>
   fmtTemp sample_env (JNum (fl (103 / 5))) (str ''c'') = str ''21'' @ [176] @ str ''C'' \<and>
   fmtWind sample_env (JNum (Dbl 100)) (str ''c'') = str ''100 km/h'' \<and>
   fmtTemp sample_env (JNum NaN) (str ''f'') = str ''NaN'' @ [176] @ str ''F'' \<and>
   handle sample_env \<lparr>status = 200, body = weather_body\<rparr> = Inr weather_json \<and>
   current (fetchCurrentFor sample_env [Nearby, Astronomy, Air] (str ''Paris'') (initial []))
     = weather_json"
proof -
  note T = C8_unit_conversion_at_display
  note shown = T [THEN conjunct1, rule_format]
  note accurate = T [THEN conjunct2, THEN conjunct1, rule_format]
  note temp = T [THEN conjunct2, THEN conjunct2, THEN conjunct1, rule_format]
  note wind = T [THEN conjunct2, THEN conjunct2, THEN conjunct2, THEN conjunct1, rule_format]
  note parsed = T [THEN conjunct2, THEN conjunct2, THEN conjunct2, THEN conjunct2, THEN conjunct1,
      rule_format]
  note kept = T [THEN conjunct2, THEN conjunct2, THEN conjunct2, THEN conjunct2, THEN conjunct2,
      rule_format]
  have c: "str ''c'' \<noteq> str ''f''"
    by (simp add: str_def)
  have small: "\<bar>2899192260119757 / 140737488355328 :: rat\<bar> \<le> 1000000" "\<bar>1 :: rat\<bar> \<le> 1000000"
    "\<bar>100 :: rat\<bar> \<le> 1000000"
    by simp_all
  have 1: "fmtTemp sample_env (JNum (Dbl 20)) (str ''f'') = str ''68'' @ [176] @ str ''F''"
  proof -
    have "\<bar>20 :: int\<bar> \<le> 1000000" by simp
    from temp [of 20 sample_env, OF this]
    have "fmtTemp sample_env (JNum (Dbl (of_int 20))) (str ''f'') = show_int 68 @ [176] @ str ''F''"
      by (simp only: floor_examples)
    then show ?thesis by (simp add: show_int_examples)
  qed
  have 2: "fmtTemp sample_env (JNum (Dbl (- 40))) (str ''f'') = str ''-40'' @ [176] @ str ''F''"
  proof -
    have "\<bar>- 40 :: int\<bar> \<le> 1000000" by simp
    from temp [of "- 40" sample_env, OF this]
    have "fmtTemp sample_env (JNum (Dbl (of_int (- 40)))) (str ''f'')
        = show_int (- 40) @ [176] @ str ''F''"
      by (simp only: floor_examples)
    then show ?thesis by (simp add: show_int_examples)
  qed
  have 3: "fmtWind sample_env (JNum (Dbl 100)) (str ''f'') = str ''62 mph''"
  proof -
    have "\<bar>100 :: int\<bar> < 500000" by simp
    from wind [of 100 sample_env, OF this]
    have "fmtWind sample_env (JNum (Dbl (of_int 100))) (str ''f'') = show_int 62 @ str '' mph''"
      by (simp only: floor_examples)
    then show ?thesis by (simp add: show_int_examples str_def)
  qed
  have 4: "fmtTemp sample_env (JStr (str ''20.6'')) (str ''f'') = str ''69'' @ [176] @ str ''F''"
  proof -
    have "\<not> nullish (JStr (str ''20.6''))" by (simp add: nullish_def)
    from accurate [OF conjI [OF this conjI [OF sample_to_num(1) small(1)]], THEN conjunct1]
    obtain y :: rat where y: "\<bar>y - (2899192260119757 / 140737488355328 * 9 / 5 + 32)\<bar> \<le> 1 / 10 ^ 8"
      "fmtTemp sample_env (JStr (str ''20.6'')) (str ''f'') = show_int \<lfloor>y + 1 / 2\<rfloor> @ [176] @ str ''F''"
      by blast
    have "\<lfloor>y + 1 / 2\<rfloor> = 69"
      using y(1) by (intro round_stable [where d = "1 / 100"
            and x = "2899192260119757 / 140737488355328 * 9 / 5 + 32"]) simp_all
    with y(2) show ?thesis by (simp add: show_int_examples)
  qed
  have 5: "fmtTemp sample_env (JBool True) (str ''f'') = str ''34'' @ [176] @ str ''F''"
  proof -
    have "\<not> nullish (JBool True)" by (simp add: nullish_def)
    from accurate [OF conjI [OF this conjI [OF sample_to_num(2) small(2)]], THEN conjunct1]
    obtain y :: rat where y: "\<bar>y - (1 * 9 / 5 + 32)\<bar> \<le> 1 / 10 ^ 8"
      "fmtTemp sample_env (JBool True) (str ''f'') = show_int \<lfloor>y + 1 / 2\<rfloor> @ [176] @ str ''F''"
      by blast
    have "\<lfloor>y + 1 / 2\<rfloor> = 34"
      using y(1) by (intro round_stable [where d = "1 / 100" and x = "1 * 9 / 5 + 32"]) simp_all
    with y(2) show ?thesis by (simp add: show_int_examples)
  qed
  have 6: "fmtTemp sample_env (JNum (fl (103 / 5))) (str ''c'') = str ''21'' @ [176] @ str ''C''"
  proof -
    have "\<not> nullish (JNum (fl (103 / 5)))" by (simp add: nullish_def)
    from accurate [OF conjI [OF this conjI [OF sample_to_num(3) small(1)]],
        THEN conjunct2, THEN conjunct2, THEN mp, OF c, THEN conjunct1]
    have "fmtTemp sample_env (JNum (fl (103 / 5))) (str ''c'')
        = show_int \<lfloor>(2899192260119757 / 140737488355328 :: rat) + 1 / 2\<rfloor> @ [176] @ str ''C''" .
    then have "fmtTemp sample_env (JNum (fl (103 / 5))) (str ''c'') = show_int 21 @ [176] @ str ''C''"
      by (simp only: floor_examples)
    then show ?thesis by (simp add: show_int_examples)
  qed
  have 7: "fmtWind sample_env (JNum (Dbl 100)) (str ''c'') = str ''100 km/h''"
  proof -
    have "\<not> nullish (JNum (Dbl 100))" by (simp add: nullish_def)
    from accurate [OF conjI [OF this conjI [OF sample_to_num(4) small(3)]],
        THEN conjunct2, THEN conjunct2, THEN mp, OF c, THEN conjunct2]
    have "fmtWind sample_env (JNum (Dbl 100)) (str ''c'')
        = show_int \<lfloor>(100 :: rat) + 1 / 2\<rfloor> @ str '' km/h''" .
    then have "fmtWind sample_env (JNum (Dbl 100)) (str ''c'') = show_int 100 @ str '' km/h''"
      by (simp only: floor_examples)
    then show ?thesis by (simp add: show_int_examples str_def)
  qed
  have 10: "fmtTemp sample_env (JNum NaN) (str ''f'') = str ''NaN'' @ [176] @ str ''F''"
  proof -
    have "\<not> nullish (JNum NaN)" by (simp add: nullish_def)
    from shown [OF this, THEN conjunct1, of sample_env]
    show ?thesis by (simp add: to_num_def to_str_def num_to_str_def)
  qed
  have 8: "handle sample_env \<lparr>status = 200, body = weather_body\<rparr> = Inr weather_json"
    using parsed [of "\<lparr>status = 200, body = weather_body\<rparr>" sample_env weather_json]
    by (simp add: ok_def sample_env_def sample_parse_def)
  have 9: "current (fetchCurrentFor sample_env [Nearby, Astronomy, Air] (str ''Paris'') (initial []))
     = weather_json"
    using kept [of sample_env "str ''Paris''" weather_json] by (simp add: sample_getCurrent)
  from 1 2 3 4 5 6 7 10 8 9 show ?thesis by (intro conjI)
qed

text \<open>
  With unit \<^verbatim>\<open>'c'\<close> a number is not displayed unmodified. The double nearest to 20.6
  prints as \<^verbatim>\<open>20.6\<close>, and \<open>fmtTemp\<close> displays it as 21 degrees Celsius.
\<close>

theorem C8_counterexample:
  "fl (103 / 5) = Dbl (2899192260119757 / 140737488355328) \<and>
   to_str sample_env (JNum (fl (103 / 5))) = str ''20.6'' \<and>
   fmtTemp sample_env (JNum (fl (103 / 5))) (str ''c'') = str ''21'' @ [176] @ str ''C'' \<and>
   fmtTemp sample_env (JNum (fl (103 / 5))) (str ''c'')
     \<noteq> to_str sample_env (JNum (fl (103 / 5))) @ [176] @ str ''C''"
proof -
  have p: "to_str sample_env (JNum (fl (103 / 5))) = str ''20.6''"
    by (simp add: fl_206 to_str_def num_to_str_def floor_examples sample_env_def sample_ToString_def)
  have "\<not> nullish (JNum (fl (103 / 5)))" and "str ''c'' \<noteq> str ''f''"
    and "\<bar>2899192260119757 / 140737488355328 :: rat\<bar> \<le> 1000000"
    by (simp_all add: nullish_def str_def)
  from fmt_metric_round(1) [OF this(1) sample_to_num(3) this(3) this(2)]
  have "fmtTemp sample_env (JNum (fl (103 / 5))) (str ''c'')
      = show_int \<lfloor>(2899192260119757 / 140737488355328 :: rat) + 1 / 2\<rfloor> @ [176] @ str ''C''" .
  then have "fmtTemp sample_env (JNum (fl (103 / 5))) (str ''c'') = show_int 21 @ [176] @ str ''C''"
    by (simp only: floor_examples)
  then have f: "fmtTemp sample_env (JNum (fl (103 / 5))) (str ''c'') = str ''21'' @ [176] @ str ''C''"
    by (simp add: show_int_examples)
  from fl_206 p f show ?thesis
    by (simp add: str_def)
qed

end
